theory Spec2Isabelle
  imports Main
begin

section \<open>Python values, exceptions and effects\<close>

text \<open>
  The library moves JSON trees and Python built-in values around.  One datatype holds
  them all.  A dictionary is an association list in insertion order (keys are strings:
  JSON object keys, request parameter names, attribute names).  Strings are lists of
  \<^typ>\<open>char\<close>, so only code points below 256 are represented.
\<close>

datatype pyval =
    PNone
  | PBool bool
  | PInt int
  | PStr string
  | PList "pyval list"
  | PTuple "pyval list"
  | PDict "(string \<times> pyval) list"

text \<open>Python truthiness, as \<^verbatim>\<open>if x:\<close> and \<^verbatim>\<open>not x\<close> read a value.\<close>

fun truthy :: "pyval \<Rightarrow> bool" where
  "truthy PNone = False"
| "truthy (PBool b) = b"
| "truthy (PInt i) = (i \<noteq> 0)"
| "truthy (PStr s) = (s \<noteq> [])"
| "truthy (PList xs) = (xs \<noteq> [])"
| "truthy (PTuple xs) = (xs \<noteq> [])"
| "truthy (PDict kvs) = (kvs \<noteq> [])"

text \<open>
  The exceptions of \<^verbatim>\<open>exceptions.py\<close> with the attributes their constructors store,
  and the built-in exceptions the code can run into.  \<open>PageError\<close> holds its
  \<^verbatim>\<open>pageid\<close> attribute first and its \<^verbatim>\<open>title\<close> attribute second; the constructor sets
  exactly one of them.  \<open>ExternalError\<close> is whatever a collaborator outside the
  repository raises (the HTTP session, the JSON decoder, the HTML parser).
\<close>

datatype error =
    KeyError pyval
  | IndexError
  | TypeError
  | AttributeError
  | ValueError
  | NameError string
  | AssertionError
  | ExternalError string
  | WikipediaException pyval
  | PageError "pyval option" "pyval option"
  | DisambiguationError pyval "pyval list" "pyval list"
  | RedirectError pyval
  | HTTPTimeoutError pyval
  | WikipediaAPIURLError string
  | WikipediaAPILanguageError string string string
  | WikipediaAPIVersionError string pyval string string
  | WikipediaExtensionError string string string

text \<open>
  A call returns a value, raises, or is still running when the fuel of a loop that the
  remote service controls is used up.
\<close>

datatype 'a outcome = Return 'a | Raise error | OutOfFuel

type_synonym ('a, 's) prog = "'s \<Rightarrow> 'a outcome \<times> 's"

definition ret :: "'a \<Rightarrow> ('a, 's) prog" where
  "ret x = (\<lambda>s. (Return x, s))"

definition raise :: "error \<Rightarrow> ('a, 's) prog" where
  "raise e = (\<lambda>s. (Raise e, s))"

definition bind :: "('a, 's) prog \<Rightarrow> ('a \<Rightarrow> ('b, 's) prog) \<Rightarrow> ('b, 's) prog" where
  "bind m f = (\<lambda>s. case m s of
      (Return x, s') \<Rightarrow> f x s'
    | (Raise e, s') \<Rightarrow> (Raise e, s')
    | (OutOfFuel, s') \<Rightarrow> (OutOfFuel, s'))"

text \<open>A pure computation that may raise, run inside a program.\<close>

definition lift :: "error + 'a \<Rightarrow> ('a, 's) prog" where
  "lift r = (case r of Inl e \<Rightarrow> raise e | Inr x \<Rightarrow> ret x)"

definition get_state :: "('s, 's) prog" where
  "get_state = (\<lambda>s. (Return s, s))"

definition modify :: "('s \<Rightarrow> 's) \<Rightarrow> (unit, 's) prog" where
  "modify f = (\<lambda>s. (Return (), f s))"

text \<open>
  A loop body run over the elements in order, with what it has built so far; the first
  element on which it raises ends the loop.
\<close>

fun for_each :: "('a \<Rightarrow> 'b \<Rightarrow> ('b, 's) prog) \<Rightarrow> 'a list \<Rightarrow> 'b \<Rightarrow> ('b, 's) prog" where
  "for_each body [] acc = ret acc"
| "for_each body (x # xs) acc = bind (body x acc) (for_each body xs)"

text \<open>\<^verbatim>\<open>try: m except <the exceptions of handles>: h\<close>.\<close>

definition try_except :: "('a, 's) prog \<Rightarrow> (error \<Rightarrow> bool) \<Rightarrow> (error \<Rightarrow> ('a, 's) prog) \<Rightarrow> ('a, 's) prog" where
  "try_except m handles h = (\<lambda>s. case m s of
      (Raise e, s') \<Rightarrow> if handles e then h e s' else (Raise e, s')
    | r \<Rightarrow> r)"

section \<open>Built-in operations on values\<close>

text \<open>\<^verbatim>\<open>xs[i]\<close> on a list: a negative index counts from the end.\<close>

definition list_index :: "'a list \<Rightarrow> int \<Rightarrow> error + 'a" where
  "list_index xs i =
     (if 0 \<le> i \<and> i < int (length xs) then Inr (xs ! nat i)
      else if i < 0 \<and> - int (length xs) \<le> i then Inr (xs ! nat (int (length xs) + i))
      else Inl IndexError)"

text \<open>
  \<^verbatim>\<open>v[k]\<close>.  A dictionary of this model has string keys only, so any other hashable key
  is missing from it; a list or a dictionary is not hashable.
\<close>

fun subscript :: "pyval \<Rightarrow> pyval \<Rightarrow> error + pyval" where
  "subscript (PDict kvs) (PStr k) =
     (case map_of kvs k of None \<Rightarrow> Inl (KeyError (PStr k)) | Some v \<Rightarrow> Inr v)"
| "subscript (PDict kvs) (PList xs) = Inl TypeError"
| "subscript (PDict kvs) (PDict d) = Inl TypeError"
| "subscript (PDict kvs) k = Inl (KeyError k)"
| "subscript (PList xs) (PInt i) = list_index xs i"
| "subscript (PList xs) (PBool b) = list_index xs (if b then 1 else 0)"
| "subscript (PTuple xs) (PInt i) = list_index xs i"
| "subscript (PTuple xs) (PBool b) = list_index xs (if b then 1 else 0)"
| "subscript (PStr s) (PInt i) = map_sum id (\<lambda>c. PStr [c]) (list_index s i)"
| "subscript (PStr s) (PBool b) = map_sum id (\<lambda>c. PStr [c]) (list_index s (if b then 1 else 0))"
| "subscript v k = Inl TypeError"

text \<open>\<^verbatim>\<open>v['name']\<close> and \<^verbatim>\<open>v[0]\<close>.\<close>

definition item :: "string \<Rightarrow> pyval \<Rightarrow> error + pyval" where
  "item k v = subscript v (PStr k)"

definition first :: "pyval \<Rightarrow> error + pyval" where
  "first v = subscript v (PInt 0)"

text \<open>Sequencing of pure steps that may raise.\<close>

definition and_then :: "error + 'a \<Rightarrow> ('a \<Rightarrow> error + 'b) \<Rightarrow> error + 'b" where
  "and_then r f = (case r of Inl e \<Rightarrow> Inl e | Inr x \<Rightarrow> f x)"

text \<open>\<^verbatim>\<open>s.startswith(p)\<close>, and \<^verbatim>\<open>p in s\<close> for strings.\<close>

definition startswith :: "string \<Rightarrow> string \<Rightarrow> bool" where
  "startswith s p = (take (length p) s = p)"

fun str_find :: "string \<Rightarrow> string \<Rightarrow> nat option" where
  "str_find sub [] = (if sub = [] then Some 0 else None)"
| "str_find sub (c # s) =
     (if startswith (c # s) sub then Some 0 else map_option Suc (str_find sub s))"

text \<open>
  \<^verbatim>\<open>'name' in v\<close>: key membership for a dictionary, element membership for a list,
  substring for a string; other values are not containers.
\<close>

fun contains :: "string \<Rightarrow> pyval \<Rightarrow> error + bool" where
  "contains k (PDict kvs) = Inr (map_of kvs k \<noteq> None)"
| "contains k (PList xs) = Inr (PStr k \<in> set xs)"
| "contains k (PTuple xs) = Inr (PStr k \<in> set xs)"
| "contains k (PStr s) = Inr (str_find k s \<noteq> None)"
| "contains k v = Inl TypeError"

text \<open>\<^verbatim>\<open>d.values()\<close>, \<^verbatim>\<open>d.keys()\<close> and \<^verbatim>\<open>d.get(k, default)\<close>: methods of dictionaries only.\<close>

fun dict_values :: "pyval \<Rightarrow> error + pyval list" where
  "dict_values (PDict kvs) = Inr (map snd kvs)"
| "dict_values v = Inl AttributeError"

fun dict_keys :: "pyval \<Rightarrow> error + pyval list" where
  "dict_keys (PDict kvs) = Inr (map (\<lambda>(k, v). PStr k) kvs)"
| "dict_keys v = Inl AttributeError"

fun dict_get :: "pyval \<Rightarrow> pyval \<Rightarrow> pyval \<Rightarrow> error + pyval" where
  "dict_get (PStr k) dflt (PDict kvs) = Inr (case map_of kvs k of None \<Rightarrow> dflt | Some v \<Rightarrow> v)"
| "dict_get (PList xs) dflt (PDict kvs) = Inl TypeError"
| "dict_get (PDict d) dflt (PDict kvs) = Inl TypeError"
| "dict_get k dflt (PDict kvs) = Inr dflt"
| "dict_get k dflt v = Inl AttributeError"

text \<open>The elements a \<^verbatim>\<open>for\<close> loop over a value visits.\<close>

fun iterate :: "pyval \<Rightarrow> error + pyval list" where
  "iterate (PList xs) = Inr xs"
| "iterate (PTuple xs) = Inr xs"
| "iterate (PDict kvs) = Inr (map (\<lambda>(k, v). PStr k) kvs)"
| "iterate (PStr s) = Inr (map (\<lambda>c. PStr [c]) s)"
| "iterate v = Inl TypeError"

subsection \<open>Strings\<close>

text \<open>
  The characters \<^verbatim>\<open>str.strip()\<close> removes, among the code points below 256: the ASCII
  white space and separators, next-line and no-break space.
\<close>

definition is_space :: "char \<Rightarrow> bool" where
  "is_space c = (c \<in> set [CHR 0x09, CHR 0x0A, CHR 0x0B, CHR 0x0C, CHR 0x0D,
                          CHR 0x1C, CHR 0x1D, CHR 0x1E, CHR 0x1F, CHR 0x20, CHR 0x85, CHR 0xA0])"

definition lstrip :: "(char \<Rightarrow> bool) \<Rightarrow> string \<Rightarrow> string" where
  "lstrip P s = dropWhile P s"

definition rstrip :: "(char \<Rightarrow> bool) \<Rightarrow> string \<Rightarrow> string" where
  "rstrip P s = rev (dropWhile P (rev s))"

definition strip :: "string \<Rightarrow> string" where
  "strip s = rstrip is_space (lstrip is_space s)"

text \<open>\<^verbatim>\<open>s.index(sub, start)\<close>: the lowest position from \<open>start\<close> on where \<open>sub\<close> begins.\<close>

definition str_index :: "string \<Rightarrow> string \<Rightarrow> nat \<Rightarrow> error + nat" where
  "str_index s sub start =
     (if length s < start then Inl ValueError
      else case str_find sub (drop start s) of
             None \<Rightarrow> Inl ValueError
           | Some i \<Rightarrow> Inr (start + i))"

text \<open>\<^verbatim>\<open>s.split(sep)\<close> for a separator of one character.\<close>

fun split_on :: "char \<Rightarrow> string \<Rightarrow> string list" where
  "split_on sep [] = [[]]"
| "split_on sep (c # s) =
     (case split_on sep s of
        [] \<Rightarrow> [[c]]
      | w # ws \<Rightarrow> if c = sep then [] # w # ws else (c # w) # ws)"

section \<open>Process-wide configuration and the outside world\<close>

text \<open>
  \<^verbatim>\<open>WIKIPEDIA_GLOBALS\<close>, one field per key.  Times are microseconds: a
  \<^verbatim>\<open>datetime\<close> is an instant, a \<^verbatim>\<open>timedelta\<close> a difference.  \<open>SESSION\<close> holds the
  User-Agent header of the session object when there is one.  Three more fields record
  what the process did to the outside: the GET requests sent (URL and parameters), the
  number of clock readings taken, and the arguments of \<^verbatim>\<open>time.sleep\<close>.  \<open>caches\<close> holds
  the table of every memoized operation, by the operation's name.
\<close>

record world =
  API_URL :: string
  API_VERSION :: pyval
  API_VERSION_MAJOR_MINOR :: "int list option"
  INSTALLED_EXTENSIONS :: "pyval list option"
  LANGUAGE_PREFIX :: string
  RATE_LIMIT :: bool
  RATE_LIMIT_MIN_WAIT :: "int option"
  RATE_LIMIT_LAST_CALL :: "int option"
  USER_AGENT :: string
  SESSION :: "string option"
  TIMEOUT :: pyval
  sent :: "(string \<times> (string \<times> pyval) list) list"
  clock_reads :: nat
  slept :: "int list"
  caches :: "string \<Rightarrow> pyval \<Rightarrow> pyval option"

text \<open>
  A list item of a parsed HTML page, as the code reads it from BeautifulSoup: the values
  of its \<^verbatim>\<open>class\<close> attribute (none when it has no such attribute), the anchors below it
  in document order, and its text.  An anchor has its text and its attributes.
\<close>

record anchor =
  a_text :: string
  a_attrs :: "(string \<times> pyval) list"

record li =
  li_class :: "string list"
  li_anchors :: "anchor list"
  li_text :: string

text \<open>
  What lies outside the listed sources, as the run at hand meets it: the answer to the
  \<open>k\<close>-th GET request (the session may raise; otherwise decoding the body as JSON may
  raise or gives a tree), the \<open>k\<close>-th reading of \<^verbatim>\<open>datetime.now()\<close>, the built-in
  \<^verbatim>\<open>int\<close> on a string and \<^verbatim>\<open>Decimal\<close>, and
  \<^verbatim>\<open>BeautifulSoup(html, 'html.parser').find_all('li')\<close>.  The helper
  \<^verbatim>\<open>_cmp_major_minor\<close> of \<^verbatim>\<open>util.py\<close> is not among the sources either: it is a
  parameter too, called with the stored version and the version an operation needs; a
  true answer makes the operation raise \<open>WikipediaAPIVersionError\<close>.
\<close>

record ext =
  http_get :: "nat \<Rightarrow> string \<Rightarrow> (string \<times> pyval) list \<Rightarrow> error + (error + pyval)"
  now :: "nat \<Rightarrow> int"
  int_of_str :: "string \<Rightarrow> error + int"
  Decimal :: "pyval \<Rightarrow> error + pyval"
  find_all_li :: "pyval \<Rightarrow> error + li list"
  cmp_major_minor :: "int list option \<Rightarrow> int list \<Rightarrow> error + bool"

subsection \<open>Dictionaries\<close>

text \<open>\<^verbatim>\<open>d[k] = v\<close> on a dictionary: an existing key keeps its place, a new one goes last.\<close>

fun dict_set :: "(string \<times> 'a) list \<Rightarrow> string \<Rightarrow> 'a \<Rightarrow> (string \<times> 'a) list" where
  "dict_set [] k v = [(k, v)]"
| "dict_set ((k', v') # kvs) k v =
     (if k' = k then (k, v) # kvs else (k', v') # dict_set kvs k v)"

text \<open>\<^verbatim>\<open>d.update(e)\<close>.\<close>

fun dict_update :: "(string \<times> pyval) list \<Rightarrow> (string \<times> pyval) list \<Rightarrow> (string \<times> pyval) list" where
  "dict_update d [] = d"
| "dict_update d ((k, v) # e) = dict_update (dict_set d k v) e"

section \<open>The request gateway\<close>

text \<open>
  \<^verbatim>\<open>datetime.now()\<close>: the next reading of the clock.
\<close>

definition datetime_now :: "ext \<Rightarrow> (int, world) prog" where
  "datetime_now E = (\<lambda>w. (Return (now E (clock_reads w)), w\<lparr>clock_reads := Suc (clock_reads w)\<rparr>))"

text \<open>
  \<^verbatim>\<open>int(wait_time.total_seconds())\<close>: whole seconds of a number of microseconds,
  rounded towards zero.
\<close>

definition whole_seconds :: "int \<Rightarrow> int" where
  "whole_seconds us = (if 0 \<le> us then us div 1000000 else - ((- us) div 1000000))"

text \<open>\<^verbatim>\<open>time.sleep(n)\<close> refuses a negative length.\<close>

definition time_sleep :: "int \<Rightarrow> (unit, world) prog" where
  "time_sleep n = (if n < 0 then raise ValueError
     else modify (\<lambda>w. w\<lparr>slept := slept w @ [n]\<rparr>))"

definition reset_session :: "(unit, world) prog" where
  "reset_session = modify (\<lambda>w. w\<lparr>SESSION := Some (USER_AGENT w)\<rparr>)"

text \<open>
  \<^verbatim>\<open>_wiki_request(params)\<close>.  The parameters get \<^verbatim>\<open>format\<close> and, when absent,
  \<^verbatim>\<open>action\<close>.  Inside the rate-limit window the function sleeps and then iterates over
  \<^verbatim>\<open>filtered_lis\<close>, a name that is bound neither in the function nor in the module.
  Otherwise it sends the request, stamps the time of the call when rate limiting is on,
  and returns the decoded body.
\<close>

definition with_format_action :: "(string \<times> pyval) list \<Rightarrow> (string \<times> pyval) list" where
  "with_format_action params0 =
     (let params1 = dict_set params0 ''format'' (PStr ''json'')
      in if map_of params1 ''action'' = None
         then dict_set params1 ''action'' (PStr ''query'') else params1)"

definition wiki_request :: "ext \<Rightarrow> (string \<times> pyval) list \<Rightarrow> (pyval, world) prog" where
  "wiki_request E params0 =
     bind get_state (\<lambda>w0.
     let rate_limit = RATE_LIMIT w0;
         last_call = RATE_LIMIT_LAST_CALL w0;
         wait = RATE_LIMIT_MIN_WAIT w0;
         url = API_URL w0;
         params = with_format_action params0
     in
     bind (case (rate_limit, last_call) of
             (True, Some t) \<Rightarrow>
               (case wait of
                  None \<Rightarrow> raise TypeError
                | Some d \<Rightarrow>
                    bind (datetime_now E) (\<lambda>now1.
                    if t + d > now1 then
                      bind (datetime_now E) (\<lambda>now2.
                      bind (time_sleep (whole_seconds ((t + d) - now2))) (\<lambda>_.
                      raise (NameError ''filtered_lis'')))
                    else ret ()))
           | _ \<Rightarrow> ret ()) (\<lambda>_.
     bind get_state (\<lambda>w1.
     bind (if SESSION w1 = None then reset_session else ret ()) (\<lambda>_.
     bind get_state (\<lambda>w2.
     bind (modify (\<lambda>w. w\<lparr>sent := sent w @ [(url, params)]\<rparr>)) (\<lambda>_.
     bind (lift (http_get E (length (sent w2)) url params)) (\<lambda>r.
     bind (if rate_limit
           then bind (datetime_now E) (\<lambda>t'. modify (\<lambda>w. w\<lparr>RATE_LIMIT_LAST_CALL := Some t'\<rparr>))
           else ret ()) (\<lambda>_.
     lift r))))))))"

text \<open>The configuration the module starts with (\<^verbatim>\<open>WIKIPEDIA_GLOBALS\<close> as written).\<close>

definition get_version :: string where
  "get_version = ''1.4.5''"

definition initial_world :: world where
  "initial_world = \<lparr>
     API_URL = ''http://en.wikipedia.org/w/api.php'',
     API_VERSION = PNone,
     API_VERSION_MAJOR_MINOR = None,
     INSTALLED_EXTENSIONS = None,
     LANGUAGE_PREFIX = ''en'',
     RATE_LIMIT = False,
     RATE_LIMIT_MIN_WAIT = None,
     RATE_LIMIT_LAST_CALL = None,
     USER_AGENT = ''python-mediawiki/'' @ get_version @ '' (https://github.com/barrust/Wikipedia/) BOT'',
     SESSION = None,
     TIMEOUT = PNone,
     sent = [],
     clock_reads = 0,
     slept = [],
     caches = (\<lambda>_ _. None) \<rparr>"

text \<open>
  \<^verbatim>\<open>set_rate_limiting(rate_limit, min_wait)\<close>; the default of \<^verbatim>\<open>min_wait\<close> is 50
  milliseconds.
\<close>

definition set_rate_limiting :: "bool \<Rightarrow> int option \<Rightarrow> (unit, world) prog" where
  "set_rate_limiting rate_limit min_wait =
     modify (\<lambda>w. w\<lparr>RATE_LIMIT := rate_limit,
                     RATE_LIMIT_MIN_WAIT := (if \<not> rate_limit then None else min_wait),
                     RATE_LIMIT_LAST_CALL := None\<rparr>)"

section \<open>The page object\<close>

text \<open>
  A \<^verbatim>\<open>WikipediaPage\<close> instance is its attribute dictionary: attributes come and go at
  run time (\<^verbatim>\<open>hasattr\<close>, \<^verbatim>\<open>getattr\<close> with a default, \<^verbatim>\<open>delattr\<close>).  A method runs on
  the instance and the process-wide state together.
\<close>

type_synonym page = "string \<Rightarrow> pyval option"

definition liftW :: "('a, world) prog \<Rightarrow> ('a, page \<times> world) prog" where
  "liftW m = (\<lambda>(self, w). case m w of (r, w') \<Rightarrow> (r, (self, w')))"

definition getattr :: "string \<Rightarrow> (pyval, page \<times> world) prog" where
  "getattr name = (\<lambda>(self, w). case self name of
      None \<Rightarrow> (Raise AttributeError, (self, w))
    | Some v \<Rightarrow> (Return v, (self, w)))"

definition getattr_or :: "string \<Rightarrow> pyval \<Rightarrow> (pyval, page \<times> world) prog" where
  "getattr_or name dflt = (\<lambda>(self, w). case self name of
      None \<Rightarrow> (Return dflt, (self, w))
    | Some v \<Rightarrow> (Return v, (self, w)))"

definition hasattr :: "string \<Rightarrow> (bool, page \<times> world) prog" where
  "hasattr name = (\<lambda>(self, w). (Return (self name \<noteq> None), (self, w)))"

definition setattr :: "string \<Rightarrow> pyval \<Rightarrow> (unit, page \<times> world) prog" where
  "setattr name v = (\<lambda>(self, w). (Return (), (self(name \<mapsto> v), w)))"

definition delattr :: "string \<Rightarrow> (unit, page \<times> world) prog" where
  "delattr name = (\<lambda>(self, w). case self name of
      None \<Rightarrow> (Raise AttributeError, (self, w))
    | Some v \<Rightarrow> (Return (), (self(name := None), w)))"

text \<open>\<^verbatim>\<open>self.<name>.append(v)\<close>.\<close>

definition append_attr :: "string \<Rightarrow> pyval \<Rightarrow> (unit, page \<times> world) prog" where
  "append_attr name v =
     bind (getattr name) (\<lambda>cur.
     case cur of PList xs \<Rightarrow> setattr name (PList (xs @ [v])) | _ \<Rightarrow> raise AttributeError)"

text \<open>\<^verbatim>\<open>__title_query_param\<close>: which parameter names the page.\<close>

definition title_query_param :: "((string \<times> pyval) list, page \<times> world) prog" where
  "title_query_param =
     bind (getattr_or ''title'' PNone) (\<lambda>t.
     if t \<noteq> PNone then bind (getattr ''title'') (\<lambda>title. ret [(''titles'', title)])
     else bind (getattr ''pageid'') (\<lambda>pageid. ret [(''pageids'', pageid)]))"

subsection \<open>Continued queries\<close>

text \<open>
  \<^verbatim>\<open>params.update(last_continue)\<close>.  The continuation is the \<^verbatim>\<open>continue\<close> section of
  the last response; a dictionary is merged in, any other value is refused (Python's
  error there is \<open>TypeError\<close> or \<open>ValueError\<close>, by the kind of value).
\<close>

fun update_with :: "(string \<times> pyval) list \<Rightarrow> pyval \<Rightarrow> error + (string \<times> pyval) list" where
  "update_with d (PDict e) = Inr (dict_update d e)"
| "update_with d v = Inl TypeError"

text \<open>
  The loop of \<^verbatim>\<open>__continued_query\<close>.  The method is a generator; \<open>body\<close> is what its
  consumer does with each fragment as it is yielded, and \<open>acc\<close> what the consumer has
  built so far.  One unit of fuel is one round: the remote decides how many there are.
\<close>

fun continued_query_loop ::
  "nat \<Rightarrow> ext \<Rightarrow> (string \<times> pyval) list \<Rightarrow> pyval \<Rightarrow> (pyval \<Rightarrow> 'a \<Rightarrow> ('a, page \<times> world) prog)
     \<Rightarrow> pyval \<Rightarrow> 'a \<Rightarrow> ('a, page \<times> world) prog" where
  "continued_query_loop 0 E query_params prop body last_continue acc = (\<lambda>s. (OutOfFuel, s))"
| "continued_query_loop (Suc n) E query_params prop body last_continue acc =
     bind (lift (update_with query_params last_continue)) (\<lambda>params.
     bind (liftW (wiki_request E params)) (\<lambda>request.
     bind (lift (contains ''query'' request)) (\<lambda>has_query.
     if \<not> has_query then ret acc
     else
       bind (lift (and_then (item ''query'' request) (item ''pages''))) (\<lambda>pages.
       bind (if map_of query_params ''generator'' \<noteq> None then lift (dict_values pages)
             else bind (getattr ''pageid'') (\<lambda>pageid.
                  lift (and_then (and_then (subscript pages pageid) (dict_get prop (PList [])))
                          iterate))) (\<lambda>data.
       bind (for_each body data acc) (\<lambda>acc'.
       bind (lift (contains ''continue'' request)) (\<lambda>has_continue.
       if \<not> has_continue then ret acc'
       else
         bind (lift (item ''continue'' request)) (\<lambda>last_continue'.
         continued_query_loop n E query_params prop body last_continue' acc'))))))))"

text \<open>
  \<^verbatim>\<open>__continued_query(query_params)\<close>: the page's own parameter is merged in, the
  continuation starts empty, and \<^verbatim>\<open>prop\<close> is read once.
\<close>

definition continued_query ::
  "nat \<Rightarrow> ext \<Rightarrow> (string \<times> pyval) list \<Rightarrow> (pyval \<Rightarrow> 'a \<Rightarrow> ('a, page \<times> world) prog) \<Rightarrow> 'a
     \<Rightarrow> ('a, page \<times> world) prog" where
  "continued_query fuel E query_params0 body acc =
     bind title_query_param (\<lambda>tq.
     let query_params = dict_update query_params0 tq;
         last_continue = PDict [];
         prop = (case map_of query_params ''prop'' of None \<Rightarrow> PNone | Some v \<Rightarrow> v)
     in continued_query_loop fuel E query_params prop body last_continue acc)"

text \<open>The consumer \<^verbatim>\<open>list(...)\<close>: every fragment, in the order yielded.\<close>

definition collect :: "pyval \<Rightarrow> pyval list \<Rightarrow> (pyval list, page \<times> world) prog" where
  "collect datum acc = ret (acc @ [datum])"

text \<open>
  The state after a request went out with rate limiting off: a session exists and the
  request is on the list of requests sent.
\<close>

definition sends :: "world \<Rightarrow> (string \<times> pyval) list \<Rightarrow> world" where
  "sends w params = w\<lparr>SESSION := Some (case SESSION w of None \<Rightarrow> USER_AGENT w | Some u \<Rightarrow> u),
        sent := sent w @ [(API_URL w, with_format_action params)]\<rparr>"

section \<open>Lazy properties of a page\<close>

text \<open>A method of \<^verbatim>\<open>str\<close> called on a value: only a string has it.\<close>

fun str_of :: "pyval \<Rightarrow> error + string" where
  "str_of (PStr s) = Inr s"
| "str_of v = Inl AttributeError"

text \<open>A list comprehension whose element expression may raise.\<close>

fun traverse :: "('a \<Rightarrow> error + 'b) \<Rightarrow> 'a list \<Rightarrow> error + 'b list" where
  "traverse f [] = Inr []"
| "traverse f (x # xs) =
     (case f x of Inl e \<Rightarrow> Inl e
      | Inr y \<Rightarrow> (case traverse f xs of Inl e \<Rightarrow> Inl e | Inr ys \<Rightarrow> Inr (y # ys)))"

text \<open>
  The version and extension gates at the head of an operation.  \<^verbatim>\<open>x not in None\<close> is a
  \<open>TypeError\<close>.
\<close>

definition check_version :: "ext \<Rightarrow> int list \<Rightarrow> string \<Rightarrow> string \<Rightarrow> (unit, world) prog" where
  "check_version E required required_str fname =
     bind get_state (\<lambda>w.
     bind (lift (cmp_major_minor E (API_VERSION_MAJOR_MINOR w) required)) (\<lambda>older.
     if older
     then raise (WikipediaAPIVersionError (API_URL w) (API_VERSION w) required_str fname)
     else ret ()))"

definition check_extension :: "string \<Rightarrow> string \<Rightarrow> (unit, world) prog" where
  "check_extension name fname =
     bind get_state (\<lambda>w.
     case INSTALLED_EXTENSIONS w of
       None \<Rightarrow> raise TypeError
     | Some exts \<Rightarrow>
         if PStr name \<notin> set exts then raise (WikipediaExtensionError (API_URL w) name fname)
         else ret ())"

text \<open>\<^verbatim>\<open>request['query']['pages'][self.pageid]\<close>.\<close>

definition page_entry :: "pyval \<Rightarrow> (pyval, page \<times> world) prog" where
  "page_entry request =
     bind (lift (and_then (item ''query'' request) (item ''pages''))) (\<lambda>pages.
     bind (getattr ''pageid'') (\<lambda>pageid.
     lift (subscript pages pageid)))"

text \<open>
  Every property below has the shape
  \<^verbatim>\<open>if not getattr(self, '_x', False): <fetch and store>; return self._x\<close>:
  the stored value is used when it is truthy.
\<close>

definition content :: "ext \<Rightarrow> (pyval, page \<times> world) prog" where
  "content E =
     bind (getattr_or ''_content'' (PBool False)) (\<lambda>cur.
     bind (if \<not> truthy cur then
             bind (setattr ''_content'' PNone) (\<lambda>_.
             bind (setattr ''_revision_id'' PNone) (\<lambda>_.
             bind (setattr ''_parent_id'' PNone) (\<lambda>_.
             bind (liftW (check_version E [1, 11] ''1.11'' ''content'')) (\<lambda>_.
             bind (liftW (check_extension ''TextExtracts'' ''content'')) (\<lambda>_.
             bind title_query_param (\<lambda>tq.
             bind (liftW (wiki_request E (dict_update
                     [(''prop'', PStr ''extracts|revisions''), (''explaintext'', PStr ''''),
                      (''rvprop'', PStr ''ids'')] tq))) (\<lambda>request.
             bind (page_entry request) (\<lambda>pg.
             bind (lift (item ''extract'' pg)) (\<lambda>extract.
             bind (setattr ''_content'' extract) (\<lambda>_.
             bind (page_entry request) (\<lambda>pg.
             bind (lift (and_then (and_then (item ''revisions'' pg) first) (item ''revid''))) (\<lambda>revid.
             bind (setattr ''_revision_id'' revid) (\<lambda>_.
             bind (page_entry request) (\<lambda>pg.
             bind (lift (and_then (and_then (item ''revisions'' pg) first) (item ''parentid''))) (\<lambda>parentid.
             setattr ''_parent_id'' parentid)))))))))))))))
           else ret ()) (\<lambda>_.
     getattr ''_content''))"

text \<open>\<^verbatim>\<open>get_summary(sentences, chars)\<close>; both default to 0.\<close>

definition get_summary :: "ext \<Rightarrow> int \<Rightarrow> int \<Rightarrow> (pyval, page \<times> world) prog" where
  "get_summary E sentences chars =
     bind (liftW (check_extension ''TextExtracts'' ''get_summary()'')) (\<lambda>_.
     bind (getattr ''title'') (\<lambda>title.
     let query_params0 = [(''prop'', PStr ''extracts''), (''explaintext'', PStr ''''), (''titles'', title)];
         query_params =
           (if sentences \<noteq> 0
            then dict_set query_params0 ''exsentences'' (PInt (if sentences > 10 then 10 else sentences))
            else if chars \<noteq> 0
            then dict_set query_params0 ''exchars'' (PInt (if chars < 1 then 1 else chars))
            else dict_set query_params0 ''exintro'' (PStr ''''))
     in
     bind (liftW (wiki_request E query_params)) (\<lambda>request.
     bind (page_entry request) (\<lambda>pg.
     lift (item ''extract'' pg)))))"

definition summary :: "ext \<Rightarrow> (pyval, page \<times> world) prog" where
  "summary E =
     bind (getattr_or ''_summary'' (PBool False)) (\<lambda>cur.
     bind (if \<not> truthy cur then
             bind (setattr ''_summary'' PNone) (\<lambda>_.
             bind (get_summary E 0 0) (\<lambda>s.
             setattr ''_summary'' s))
           else ret ()) (\<lambda>_.
     getattr ''_summary''))"

definition images :: "nat \<Rightarrow> ext \<Rightarrow> (pyval, page \<times> world) prog" where
  "images fuel E =
     bind (getattr_or ''_images'' (PBool False)) (\<lambda>cur.
     bind (if \<not> truthy cur then
             bind (setattr ''_images'' (PList [])) (\<lambda>_.
             continued_query fuel E
               [(''generator'', PStr ''images''), (''gimlimit'', PStr ''max''),
                (''prop'', PStr ''imageinfo''), (''iiprop'', PStr ''url'')]
               (\<lambda>pg _.
                  bind (lift (contains ''imageinfo'' pg)) (\<lambda>has_info.
                  if has_info
                  then bind (lift (and_then (and_then (item ''imageinfo'' pg) first) (item ''url'')))
                         (append_attr ''_images'')
                  else ret ()))
               ())
           else ret ()) (\<lambda>_.
     getattr ''_images''))"

definition coordinates :: "ext \<Rightarrow> (pyval, page \<times> world) prog" where
  "coordinates E =
     bind (getattr_or ''_coordinates'' (PBool False)) (\<lambda>cur.
     bind (if \<not> truthy cur then
             bind (setattr ''_coordinates'' PNone) (\<lambda>_.
             bind (liftW (check_extension ''GeoData'' ''coordinates'')) (\<lambda>_.
             bind (getattr ''title'') (\<lambda>title.
             bind (liftW (wiki_request E
                     [(''prop'', PStr ''coordinates''), (''colimit'', PStr ''max''),
                      (''titles'', title)])) (\<lambda>request.
             bind (lift (contains ''query'' request)) (\<lambda>has_query.
             bind (if has_query
                   then bind (page_entry request) (\<lambda>pg. lift (contains ''coordinates'' pg))
                   else ret False) (\<lambda>has_coordinates.
             if has_coordinates then
               bind (page_entry request) (\<lambda>pg.
               bind (lift (item ''coordinates'' pg)) (\<lambda>coords.
               bind (lift (and_then (and_then (first coords) (item ''lat'')) (Decimal E))) (\<lambda>lat.
               bind (lift (and_then (and_then (first coords) (item ''lon'')) (Decimal E))) (\<lambda>lon.
               setattr ''_coordinates'' (PTuple [lat, lon])))))
             else ret ()))))))
           else ret ()) (\<lambda>_.
     getattr ''_coordinates''))"

definition references :: "nat \<Rightarrow> ext \<Rightarrow> (pyval, page \<times> world) prog" where
  "references fuel E =
     bind (getattr_or ''_references'' (PBool False)) (\<lambda>cur.
     bind (if \<not> truthy cur then
             bind (setattr ''_references'' PNone) (\<lambda>_.
             bind (liftW (check_version E [1, 13] ''1.13'' ''references'')) (\<lambda>_.
             bind (setattr ''_references'' (PList [])) (\<lambda>_.
             continued_query fuel E [(''prop'', PStr ''extlinks''), (''ellimit'', PStr ''max'')]
               (\<lambda>link _.
                  bind (lift (and_then (item ''*'' link) str_of)) (\<lambda>target.
                  bind (lift (and_then (item ''*'' link) str_of)) (\<lambda>target'.
                  append_attr ''_references''
                    (PStr (if startswith target ''http'' then target' else ''http:'' @ target'))))) 
               ())))
           else ret ()) (\<lambda>_.
     getattr ''_references''))"

definition links :: "nat \<Rightarrow> ext \<Rightarrow> (pyval, page \<times> world) prog" where
  "links fuel E =
     bind (getattr_or ''_links'' (PBool False)) (\<lambda>cur.
     bind (if \<not> truthy cur then
             bind (setattr ''_links'' PNone) (\<lambda>_.
             bind (liftW (check_version E [1, 13] ''1.13'' ''links'')) (\<lambda>_.
             bind (setattr ''_links'' (PList [])) (\<lambda>_.
             continued_query fuel E
               [(''prop'', PStr ''links''), (''plnamespace'', PInt 0), (''pllimit'', PStr ''max'')]
               (\<lambda>link _. bind (lift (item ''title'' link)) (append_attr ''_links''))
               ())))
           else ret ()) (\<lambda>_.
     getattr ''_links''))"

definition categories :: "nat \<Rightarrow> ext \<Rightarrow> (pyval, page \<times> world) prog" where
  "categories fuel E =
     bind (getattr_or ''_categories'' (PBool False)) (\<lambda>cur.
     bind (if \<not> truthy cur then
             bind (setattr ''_categories'' PNone) (\<lambda>_.
             bind (liftW (check_version E [1, 14] ''1.14'' ''categories'')) (\<lambda>_.
             bind (setattr ''_categories'' (PList [])) (\<lambda>_.
             continued_query fuel E
               [(''prop'', PStr ''categories''), (''cllimit'', PStr ''max''),
                (''clshow'', PStr ''!hidden'')]
               (\<lambda>link _.
                  bind (lift (and_then (item ''title'' link) str_of)) (\<lambda>t.
                  if startswith t ''Category:''
                  then bind (lift (and_then (item ''title'' link) str_of)) (\<lambda>t'.
                         append_attr ''_categories'' (PStr (drop 9 t')))
                  else bind (lift (item ''title'' link)) (append_attr ''_categories'')))
               ())))
           else ret ()) (\<lambda>_.
     getattr ''_categories''))"

definition redirects :: "nat \<Rightarrow> ext \<Rightarrow> (pyval, page \<times> world) prog" where
  "redirects fuel E =
     bind (getattr_or ''_redirects'' (PBool False)) (\<lambda>cur.
     bind (if \<not> truthy cur then
             bind (setattr ''_redirects'' PNone) (\<lambda>_.
             bind (liftW (check_version E [1, 24] ''1.24'' ''redirects'')) (\<lambda>_.
             bind (setattr ''_redirects'' (PList [])) (\<lambda>_.
             continued_query fuel E
               [(''prop'', PStr ''redirects''), (''rdprop'', PStr ''title''),
                (''rdlimit'', PStr ''100'')]
               (\<lambda>link _. bind (lift (item ''title'' link)) (append_attr ''_redirects''))
               ())))
           else ret ()) (\<lambda>_.
     getattr ''_redirects''))"

text \<open>
  The loop of \<^verbatim>\<open>backlinks\<close>: it ends when the response has no \<^verbatim>\<open>continue\<close> key (or
  holds the very value \<^verbatim>\<open>False\<close> there).
\<close>

fun backlinks_loop :: "nat \<Rightarrow> ext \<Rightarrow> (string \<times> pyval) list \<Rightarrow> (unit, page \<times> world) prog" where
  "backlinks_loop 0 E query_params = (\<lambda>s. (OutOfFuel, s))"
| "backlinks_loop (Suc n) E query_params =
     bind (liftW (wiki_request E query_params)) (\<lambda>results.
     bind (lift (and_then (and_then (item ''query'' results) (item ''backlinks'')) iterate)) (\<lambda>found.
     bind (for_each (\<lambda>link _. bind (lift (item ''title'' link)) (append_attr ''_backlinks''))
             found ()) (\<lambda>_.
     bind (lift (dict_get (PStr ''continue'') (PBool False) results)) (\<lambda>c.
     if c = PBool False then ret ()
     else
       bind (lift (and_then (item ''continue'' results) (item ''blcontinue''))) (\<lambda>blcontinue.
       backlinks_loop n E (dict_set query_params ''blcontinue'' blcontinue))))))"

definition backlinks :: "nat \<Rightarrow> ext \<Rightarrow> (pyval, page \<times> world) prog" where
  "backlinks fuel E =
     bind (getattr_or ''_backlinks'' (PBool False)) (\<lambda>cur.
     bind (if \<not> truthy cur then
             bind (setattr ''_backlinks'' PNone) (\<lambda>_.
             bind (liftW (check_version E [1, 9] ''1.9'' ''backlinks'')) (\<lambda>_.
             bind (getattr ''title'') (\<lambda>title.
             bind (setattr ''_backlinks'' (PList [])) (\<lambda>_.
             backlinks_loop fuel E
               [(''action'', PStr ''query''), (''list'', PStr ''backlinks''), (''bltitle'', title),
                (''bllimit'', PInt 500), (''blfilterredir'', PStr ''nonredirects''),
                (''blcontinue'', PDict []), (''blnamespace'', PInt 0)]))))
           else ret ()) (\<lambda>_.
     getattr ''_backlinks''))"

definition sections :: "ext \<Rightarrow> (pyval, page \<times> world) prog" where
  "sections E =
     bind (getattr_or ''_sections'' (PBool False)) (\<lambda>cur.
     bind (if \<not> truthy cur then
             bind (getattr_or ''title'' PNone) (\<lambda>t.
             bind (if \<not> truthy t
                   then bind (getattr ''pageid'') (\<lambda>pageid.
                        ret [(''action'', PStr ''parse''), (''prop'', PStr ''sections''),
                             (''pageid'', pageid)])
                   else bind (getattr ''title'') (\<lambda>title.
                        ret [(''action'', PStr ''parse''), (''prop'', PStr ''sections''),
                             (''page'', title)])) (\<lambda>query_params.
             bind (liftW (wiki_request E query_params)) (\<lambda>request.
             bind (lift (and_then (and_then (and_then (item ''parse'' request) (item ''sections''))
                          iterate) (traverse (item ''line'')))) (\<lambda>lines.
             setattr ''_sections'' (PList lines)))))
           else ret ()) (\<lambda>_.
     getattr ''_sections''))"

subsection \<open>Sections of the content\<close>

text \<open>
  \<^verbatim>\<open>v.index(sub, start)\<close>, \<^verbatim>\<open>len(v)\<close> and \<^verbatim>\<open>v[i:j]\<close> for indices that are not negative,
  on whatever value the content is.
\<close>

fun list_find :: "'a \<Rightarrow> 'a list \<Rightarrow> nat option" where
  "list_find x [] = None"
| "list_find x (y # ys) = (if y = x then Some 0 else map_option Suc (list_find x ys))"

fun py_index :: "pyval \<Rightarrow> string \<Rightarrow> nat \<Rightarrow> error + nat" where
  "py_index (PStr s) sub start = str_index s sub start"
| "py_index (PList xs) sub start =
     (case list_find (PStr sub) (drop start xs) of
        None \<Rightarrow> Inl ValueError | Some i \<Rightarrow> Inr (start + i))"
| "py_index (PTuple xs) sub start =
     (case list_find (PStr sub) (drop start xs) of
        None \<Rightarrow> Inl ValueError | Some i \<Rightarrow> Inr (start + i))"
| "py_index v sub start = Inl AttributeError"

fun py_len :: "pyval \<Rightarrow> error + nat" where
  "py_len (PStr s) = Inr (length s)"
| "py_len (PList xs) = Inr (length xs)"
| "py_len (PTuple xs) = Inr (length xs)"
| "py_len (PDict kvs) = Inr (length kvs)"
| "py_len v = Inl TypeError"

fun py_slice :: "pyval \<Rightarrow> nat \<Rightarrow> nat \<Rightarrow> error + pyval" where
  "py_slice (PStr s) i j = Inr (PStr (take (j - i) (drop i s)))"
| "py_slice (PList xs) i j = Inr (PList (take (j - i) (drop i xs)))"
| "py_slice (PTuple xs) i j = Inr (PTuple (take (j - i) (drop i xs)))"
| "py_slice v i j = Inl TypeError"

text \<open>
  \<^verbatim>\<open>section(section_title)\<close>, here \<open>page_section\<close>.  The content is read through the property each time the
  source names it.  A \<open>ValueError\<close> from the first lookup makes the result
  \<^verbatim>\<open>None\<close>; from the second, it makes the section run to the end of the content.
\<close>

definition section_marker :: "string \<Rightarrow> string" where
  "section_marker section_title = ''== '' @ section_title @ '' ==''"

definition page_section :: "ext \<Rightarrow> string \<Rightarrow> (pyval, page \<times> world) prog" where
  "page_section E section_title =
     (let marker = section_marker section_title in
      bind (try_except
              (bind (content E) (\<lambda>c.
               bind (lift (py_index c marker 0)) (\<lambda>i.
               ret (Some (i + length marker)))))
              (\<lambda>e. e = ValueError)
              (\<lambda>_. ret None)) (\<lambda>found.
      case found of
        None \<Rightarrow> ret PNone
      | Some index \<Rightarrow>
          bind (try_except
                  (bind (content E) (\<lambda>c. lift (py_index c ''=='' index)))
                  (\<lambda>e. e = ValueError)
                  (\<lambda>_. bind (content E) (\<lambda>c. lift (py_len c)))) (\<lambda>next_index.
          bind (content E) (\<lambda>c.
          lift (and_then (and_then (py_slice c index next_index) str_of)
                  (\<lambda>s. Inr (PStr (strip (lstrip (\<lambda>ch. ch = CHR ''='') s)))))))))"

section \<open>Site information\<close>

text \<open>A value that cannot be a member of a set.\<close>

fun unhashable :: "pyval \<Rightarrow> bool" where
  "unhashable (PList xs) = True"
| "unhashable (PDict kvs) = True"
| "unhashable (PTuple xs) = (\<exists>x \<in> set xs. unhashable x)"
| "unhashable v = False"

text \<open>
  \<^verbatim>\<open>_get_site_info()\<close>: the version string is the second word of the generator name up
  to its first hyphen; its dot-separated parts are converted with \<^verbatim>\<open>int\<close>.  The
  configuration is written step by step, so a failure leaves what was written before it.
\<close>

definition get_site_info :: "ext \<Rightarrow> (unit, world) prog" where
  "get_site_info E =
     bind (wiki_request E [(''meta'', PStr ''siteinfo''), (''siprop'', PStr ''extensions|general'')])
       (\<lambda>response.
     bind (lift (and_then (and_then (and_then (item ''query'' response) (item ''general''))
                  (item ''generator'')) str_of)) (\<lambda>generator.
     bind (lift (list_index (split_on (CHR '' '') generator) 1)) (\<lambda>word.
     bind (lift (list_index (split_on (CHR ''-'') word) 0)) (\<lambda>version.
     bind (modify (\<lambda>w. w\<lparr>API_VERSION := PStr version\<rparr>)) (\<lambda>_.
     bind (lift (traverse (int_of_str E) (split_on (CHR ''.'') version))) (\<lambda>major_minor.
     bind (modify (\<lambda>w. w\<lparr>API_VERSION_MAJOR_MINOR := Some major_minor\<rparr>)) (\<lambda>_.
     bind (modify (\<lambda>w. w\<lparr>INSTALLED_EXTENSIONS := Some []\<rparr>)) (\<lambda>_.
     bind (lift (and_then (and_then (item ''query'' response) (item ''extensions'')) iterate))
       (\<lambda>extensions.
     for_each (\<lambda>extension _.
         bind (lift (item ''name'' extension)) (\<lambda>name.
         if unhashable name then raise TypeError
         else modify (\<lambda>w. w\<lparr>INSTALLED_EXTENSIONS :=
                 map_option (\<lambda>names. if name \<in> set names then names else names @ [name])
                   (INSTALLED_EXTENSIONS w)\<rparr>)))
       extensions ())))))))))"

subsection \<open>What the specification says of a section\<close>

text \<open>
  The first place where \<open>sub\<close> occurs in \<open>s\<close>: after \<open>pre\<close>, and nowhere before.
\<close>

definition first_at :: "string \<Rightarrow> string \<Rightarrow> string \<Rightarrow> string \<Rightarrow> bool" where
  "first_at sub s pre post \<longleftrightarrow>
     s = pre @ sub @ post \<and> (\<forall>pre' post'. s = pre' @ sub @ post' \<longrightarrow> length pre \<le> length pre')"

text \<open>
  The section as the specification words it: the text between the marker and the next
  \<^verbatim>\<open>==\<close> (or the end of the content), with \<^verbatim>\<open>=\<close> and white space trimmed from both
  ends.  This definition follows the specification, not the source; it is compared with
  \<open>page_section\<close> below.
\<close>

definition trim_both :: "(char \<Rightarrow> bool) \<Rightarrow> string \<Rightarrow> string" where
  "trim_both P s = rstrip P (lstrip P s)"

definition section_spec :: "string \<Rightarrow> string \<Rightarrow> string option" where
  "section_spec c title =
     (case str_find (section_marker title) c of
        None \<Rightarrow> None
      | Some i \<Rightarrow>
          let after = drop (i + length (section_marker title)) c;
              between = (case str_find ''=='' after of None \<Rightarrow> after | Some j \<Rightarrow> take j after)
          in Some (trim_both (\<lambda>ch. ch = CHR ''='' \<or> is_space ch) between))"

section \<open>Resolving a page\<close>

text \<open>
  The exception that \<^verbatim>\<open>raise PageError(pageid, *args)\<close> ends in.  The constructor keeps
  its first argument as \<^verbatim>\<open>pageid\<close> when it is truthy, and otherwise the first of the
  further arguments as \<^verbatim>\<open>title\<close>; when there is none, \<^verbatim>\<open>args[0]\<close> fails inside the
  constructor.
\<close>

definition PageError_init :: "pyval \<Rightarrow> pyval list \<Rightarrow> error" where
  "PageError_init pageid args =
     (if truthy pageid then PageError (Some pageid) None
      else case args of [] \<Rightarrow> IndexError | a # _ \<Rightarrow> PageError None (Some a))"

text \<open>
  The redirect branch of \<^verbatim>\<open>__load\<close> up to the recursive call: the expected source of
  the redirect is the \<^verbatim>\<open>to\<close> of the normalization when the response has one, and the
  page's own title otherwise (a page known by id only takes the redirect's \<^verbatim>\<open>from\<close> as
  its title and drops the id); the redirect's \<^verbatim>\<open>from\<close> must equal it; the result is the
  redirect's \<^verbatim>\<open>to\<close>, which the constructor is then run on.
\<close>

definition redirect_target :: "pyval \<Rightarrow> (pyval, page \<times> world) prog" where
  "redirect_target query =
     bind (lift (and_then (item ''redirects'' query) first)) (\<lambda>redirects.
     bind (lift (contains ''normalized'' query)) (\<lambda>is_normalized.
     bind (if is_normalized then
             bind (lift (and_then (item ''normalized'' query) first)) (\<lambda>normalized.
             bind (lift (item ''from'' normalized)) (\<lambda>nfrom.
             bind (getattr ''title'') (\<lambda>title.
             if nfrom \<noteq> title then raise AssertionError
             else lift (item ''to'' normalized))))
           else
             bind (getattr_or ''title'' PNone) (\<lambda>t.
             bind (if \<not> truthy t then
                     bind (lift (item ''from'' redirects)) (\<lambda>rfrom.
                     bind (setattr ''title'' rfrom) (\<lambda>_.
                     delattr ''pageid''))
                   else ret ()) (\<lambda>_.
             getattr ''title''))) (\<lambda>from_title.
     bind (lift (item ''from'' redirects)) (\<lambda>rfrom.
     if rfrom \<noteq> from_title then raise AssertionError
     else lift (item ''to'' redirects)))))"

text \<open>
  The disambiguation branch: a second request for the parsed page, the list items that
  are not table-of-contents entries, the text of the first anchor of each item that has
  one, and a record for every item from its first anchor, which is indexed without a
  check.
\<close>

definition filtered_lis :: "li list \<Rightarrow> li list" where
  "filtered_lis lis = filter (\<lambda>l. str_find ''tocsection'' (concat (li_class l)) = None) lis"

definition may_refer_to :: "li list \<Rightarrow> pyval list" where
  "may_refer_to lis =
     map (\<lambda>l. PStr (a_text (hd (li_anchors l)))) (filter (\<lambda>l. li_anchors l \<noteq> []) lis)"

definition one_disambiguation :: "li \<Rightarrow> error + pyval" where
  "one_disambiguation lis_item =
     (case li_anchors lis_item of
        [] \<Rightarrow> Inl IndexError
      | a # _ \<Rightarrow>
          (case map_of (a_attrs a) ''title'' of
             None \<Rightarrow> Inl (KeyError (PStr ''title''))
           | Some t \<Rightarrow> Inr (PDict [(''title'', t), (''description'', PStr (li_text lis_item))])))"

definition disambiguation_params :: "(string \<times> pyval) list" where
  "disambiguation_params =
     [(''prop'', PStr ''revisions''), (''rvprop'', PStr ''content''),
      (''rvparse'', PStr ''''), (''rvlimit'', PInt 1)]"

definition raise_disambiguation :: "ext \<Rightarrow> pyval \<Rightarrow> pyval \<Rightarrow> (unit, page \<times> world) prog" where
  "raise_disambiguation E pageid pg =
     bind title_query_param (\<lambda>tq.
     bind (liftW (wiki_request E (dict_update disambiguation_params tq))) (\<lambda>request.
     bind (lift (and_then (and_then (and_then (and_then (and_then (item ''query'' request)
             (item ''pages'')) (\<lambda>pages. subscript pages pageid)) (item ''revisions'')) first)
             (item ''*''))) (\<lambda>html.
     bind (lift (find_all_li E html)) (\<lambda>lis.
     bind (lift (traverse one_disambiguation (filtered_lis lis))) (\<lambda>disambiguation.
     bind (lift (item ''title'' pg)) (\<lambda>dflt.
     bind (getattr_or ''title'' dflt) (\<lambda>t.
     raise (DisambiguationError t (may_refer_to (filtered_lis lis)) disambiguation))))))))"

text \<open>\<^verbatim>\<open>getattr(self, prop)\<close> for the names the preload loop goes through.\<close>

definition page_property :: "nat \<Rightarrow> ext \<Rightarrow> string \<Rightarrow> (pyval, page \<times> world) prog" where
  "page_property fuel E name =
     (if name = ''content'' then content E
      else if name = ''summary'' then summary E
      else if name = ''images'' then images fuel E
      else if name = ''references'' then references fuel E
      else if name = ''links'' then links fuel E
      else if name = ''sections'' then sections E
      else if name = ''redirects'' then redirects fuel E
      else if name = ''coordinates'' then coordinates E
      else if name = ''backlinks'' then backlinks fuel E
      else if name = ''categories'' then categories fuel E
      else getattr name)"

fun is_version_or_extension_error :: "error \<Rightarrow> bool" where
  "is_version_or_extension_error (WikipediaAPIVersionError u v r f) = True"
| "is_version_or_extension_error (WikipediaExtensionError u x f) = True"
| "is_version_or_extension_error e = False"

text \<open>The properties the constructor reads when \<^verbatim>\<open>preload\<close> is set, in its order.\<close>

definition lazy_fields :: "string list" where
  "lazy_fields =
     [''content'', ''summary'', ''images'', ''references'', ''links'', ''sections'',
      ''redirects'', ''coordinates'', ''backlinks'', ''categories'']"

definition preload_properties :: "nat \<Rightarrow> ext \<Rightarrow> (unit, page \<times> world) prog" where
  "preload_properties fuel E =
     for_each (\<lambda>name _.
         try_except (bind (page_property fuel E name) (\<lambda>_. ret ()))
           is_version_or_extension_error (\<lambda>_. ret ()))
       lazy_fields ()"

text \<open>
  The constructor and \<^verbatim>\<open>__load\<close>.  They call each other along a chain of redirects,
  whose length the remote decides: one unit of fuel is one run of the constructor.
  \<open>WikipediaPage_init\<close> takes \<^verbatim>\<open>title\<close>, \<^verbatim>\<open>pageid\<close>, \<^verbatim>\<open>redirect\<close>, \<^verbatim>\<open>preload\<close> and
  \<^verbatim>\<open>original_title\<close>.  \<^verbatim>\<open>__load\<close> tests in this order: the page entry has
  \<^verbatim>\<open>missing\<close>; the query has \<^verbatim>\<open>redirects\<close>; the page entry has \<^verbatim>\<open>pageprops\<close>.
\<close>

definition load_params :: "(string \<times> pyval) list" where
  "load_params =
     [(''prop'', PStr ''info|pageprops''), (''inprop'', PStr ''url''),
      (''ppprop'', PStr ''disambiguation''), (''redirects'', PStr '''')]"

fun WikipediaPage_init ::
    "nat \<Rightarrow> ext \<Rightarrow> pyval \<Rightarrow> pyval \<Rightarrow> bool \<Rightarrow> bool \<Rightarrow> pyval \<Rightarrow> (unit, page \<times> world) prog"
  and WikipediaPage_load :: "nat \<Rightarrow> ext \<Rightarrow> bool \<Rightarrow> bool \<Rightarrow> (unit, page \<times> world) prog"
where
  "WikipediaPage_init 0 E title pageid redirect preload original_title = (\<lambda>s. (OutOfFuel, s))"
| "WikipediaPage_init (Suc n) E title pageid redirect preload original_title =
     bind (liftW (bind get_state (\<lambda>w.
             if API_VERSION_MAJOR_MINOR w = None then get_site_info E else ret ()))) (\<lambda>_.
     bind (if title \<noteq> PNone then
             bind (setattr ''title'' title) (\<lambda>_.
             setattr ''original_title'' (if truthy original_title then original_title else title))
           else if pageid \<noteq> PNone then setattr ''pageid'' pageid
           else raise ValueError) (\<lambda>_.
     bind (WikipediaPage_load n E redirect preload) (\<lambda>_.
     if preload then preload_properties (Suc n) E else ret ())))"
| "WikipediaPage_load n E redirect preload =
     bind title_query_param (\<lambda>tq.
     bind (liftW (wiki_request E (dict_update load_params tq))) (\<lambda>request.
     bind (lift (item ''query'' request)) (\<lambda>query.
     bind (lift (and_then (and_then (item ''pages'' query) dict_keys) (\<lambda>ks. list_index ks 0)))
       (\<lambda>pageid.
     bind (lift (and_then (item ''pages'' query) (\<lambda>pages. subscript pages pageid))) (\<lambda>pg.
     bind (lift (contains ''missing'' pg)) (\<lambda>missing.
     if missing then
       bind (hasattr ''title'') (\<lambda>has_title.
       if has_title then bind (getattr ''title'') (\<lambda>t. raise (PageError_init t []))
       else bind (getattr ''pageid'') (\<lambda>p. raise (PageError_init p [])))
     else
       bind (lift (contains ''redirects'' query)) (\<lambda>is_redirect.
       if is_redirect then
         (if redirect then
            bind (redirect_target query) (\<lambda>target.
            WikipediaPage_init n E target PNone redirect preload (PStr ''''))
          else
            bind (lift (item ''title'' pg)) (\<lambda>dflt.
            bind (getattr_or ''title'' dflt) (\<lambda>t.
            raise (RedirectError t))))
       else
         bind (lift (contains ''pageprops'' pg)) (\<lambda>is_disambiguation.
         if is_disambiguation then raise_disambiguation E pageid pg
         else
           bind (setattr ''pageid'' pageid) (\<lambda>_.
           bind (lift (item ''title'' pg)) (\<lambda>t.
           bind (setattr ''title'' t) (\<lambda>_.
           bind (lift (item ''fullurl'' pg)) (\<lambda>u.
           setattr ''url'' u))))))))))))"

subsection \<open>Vocabulary for statements about resolution\<close>

text \<open>
  Vocabulary for the statements about \<open>WikipediaPage_load\<close>.  \<open>load_request t\<close> is the
  parameter list of the request that \<^verbatim>\<open>__load\<close> sends for the title \<open>t\<close>.
\<close>

definition load_request :: "pyval \<Rightarrow> (string \<times> pyval) list" where
  "load_request t = with_format_action (dict_update load_params [(''titles'', t)])"

text \<open>
  The new title of a followed redirect as the claim words it: the \<^verbatim>\<open>to\<close> of the
  normalization when the response has one, the \<^verbatim>\<open>to\<close> of the redirect otherwise.  This
  definition follows the claim, not the source; it is compared with \<open>redirect_target\<close>.
\<close>

definition claimed_redirect_title :: "pyval \<Rightarrow> error + pyval" where
  "claimed_redirect_title query =
     and_then (contains ''normalized'' query) (\<lambda>is_normalized.
       if is_normalized then and_then (and_then (item ''normalized'' query) first) (item ''to'')
       else and_then (and_then (item ''redirects'' query) first) (item ''to''))"

text \<open>
  The query section of a response and the first entry of its pages, as \<^verbatim>\<open>__load\<close>
  reads them.
\<close>

definition first_entry :: "pyval \<Rightarrow> (pyval \<times> string \<times> pyval) option" where
  "first_entry request =
     (case item ''query'' request of
        Inr query \<Rightarrow>
          (case item ''pages'' query of
             Inr (PDict ((key, pg) # others)) \<Rightarrow> Some (query, key, pg)
           | _ \<Rightarrow> None)
      | _ \<Rightarrow> None)"

text \<open>
  A response that \<^verbatim>\<open>__load\<close> takes for a redirect from \<open>src\<close> to \<open>dst\<close>: the entry is
  not marked missing, the query has a \<^verbatim>\<open>redirects\<close> list whose first element has these
  \<^verbatim>\<open>from\<close> and \<^verbatim>\<open>to\<close>, and there is no normalization.
\<close>

definition redirect_response :: "pyval \<Rightarrow> pyval \<Rightarrow> pyval \<Rightarrow> bool" where
  "redirect_response request src dst =
     (case first_entry request of
        None \<Rightarrow> False
      | Some (query, key, pg) \<Rightarrow>
          contains ''missing'' pg = Inr False
        \<and> contains ''redirects'' query = Inr True
        \<and> contains ''normalized'' query = Inr False
        \<and> and_then (and_then (item ''redirects'' query) first) (item ''from'') = Inr src
        \<and> and_then (and_then (item ''redirects'' query) first) (item ''to'') = Inr dst)"

text \<open>
  A response for an ordinary page: not marked missing, no redirect, no page property,
  and an entry under \<open>key\<close> with title \<open>t\<close> and URL \<open>u\<close>.
\<close>

definition plain_response :: "pyval \<Rightarrow> string \<Rightarrow> pyval \<Rightarrow> pyval \<Rightarrow> bool" where
  "plain_response request key t u =
     (case first_entry request of
        None \<Rightarrow> False
      | Some (query, k, pg) \<Rightarrow>
          k = key
        \<and> contains ''missing'' pg = Inr False
        \<and> contains ''redirects'' query = Inr False
        \<and> contains ''pageprops'' pg = Inr False
        \<and> item ''title'' pg = Inr t
        \<and> item ''fullurl'' pg = Inr u)"

text \<open>
  A response with a redirect whose entry is not marked missing and has a title.
\<close>

definition unfollowed_response :: "pyval \<Rightarrow> bool" where
  "unfollowed_response request =
     (case first_entry request of
        None \<Rightarrow> False
      | Some (query, key, pg) \<Rightarrow>
          contains ''missing'' pg = Inr False
        \<and> contains ''redirects'' query = Inr True
        \<and> \<not> isl (item ''title'' pg))"

subsection \<open>Vocabulary for counting requests\<close>

text \<open>
  Vocabulary for counting requests: a program never takes requests off the list
  (\<open>grows\<close>), and sends at least one before it returns (\<open>fetches\<close>).
\<close>

definition grows :: "('s \<Rightarrow> nat) \<Rightarrow> ('a, 's) prog \<Rightarrow> bool" where
  "grows count m \<longleftrightarrow> (\<forall>s r s'. m s = (r, s') \<longrightarrow> count s \<le> count s')"

definition fetches :: "('s \<Rightarrow> nat) \<Rightarrow> ('a, 's) prog \<Rightarrow> bool" where
  "fetches count m \<longleftrightarrow> grows count m \<and> (\<forall>s x s'. m s = (Return x, s') \<longrightarrow> count s < count s')"

definition requests :: "world \<Rightarrow> nat" where
  "requests w = length (sent w)"

definition page_requests :: "page \<times> world \<Rightarrow> nat" where
  "page_requests s = length (sent (snd s))"

named_theorems grow

section \<open>Memoized operations\<close>

text \<open>
  Modelled from the spec: the decorator \<^verbatim>\<open>cache\<close> of \<^verbatim>\<open>util.py\<close>, which is not among the
  sources.  The specification calls the decorated functions memoized operations with
  method-level response caches: a call whose arguments have a stored result returns it
  without running the body; otherwise the body runs, and the result it returns is stored
  under the arguments.  The arguments are taken with the defaults filled in.
  \<^verbatim>\<open>f.clear_cache()\<close> empties the table of \<^verbatim>\<open>f\<close>.
\<close>

definition cached :: "string \<Rightarrow> pyval \<Rightarrow> (pyval, world) prog \<Rightarrow> (pyval, world) prog" where
  "cached fname key body =
     bind get_state (\<lambda>w.
     case caches w fname key of
       Some v \<Rightarrow> ret v
     | None \<Rightarrow>
         bind body (\<lambda>v.
         bind (modify (\<lambda>w. w\<lparr>caches := (caches w)(fname := (caches w fname)(key \<mapsto> v))\<rparr>)) (\<lambda>_.
         ret v)))"

definition cache_clear :: "string \<Rightarrow> (unit, world) prog" where
  "cache_clear fname = modify (\<lambda>w. w\<lparr>caches := (caches w)(fname := Map.empty)\<rparr>)"

text \<open>\<^verbatim>\<open>clear_cache()\<close>: the tuple of functions is the one written in the source.\<close>

definition cleared_functions :: "string list" where
  "cleared_functions =
     [''search'', ''suggest'', ''summary'', ''categorymembers'', ''geosearch'', ''opensearch'']"

definition clear_cache :: "(unit, world) prog" where
  "clear_cache = for_each (\<lambda>cached_func _. cache_clear cached_func) cleared_functions ()"

text \<open>
  \<^verbatim>\<open>s.replace(old, new)\<close>: every occurrence of \<open>old\<close>, left to right, without overlap.
  The counter is the number of characters of a replaced occurrence still to skip.  For
  an empty \<open>old\<close> Python puts \<open>new\<close> before every character and at the end.
\<close>

fun replace_from :: "string \<Rightarrow> string \<Rightarrow> nat \<Rightarrow> string \<Rightarrow> string" where
  "replace_from old new k [] = []"
| "replace_from old new (Suc k) (c # s) = replace_from old new k s"
| "replace_from old new 0 (c # s) =
     (if startswith (c # s) old then new @ replace_from old new (length old - 1) s
      else c # replace_from old new 0 s)"

definition str_replace :: "string \<Rightarrow> string \<Rightarrow> string \<Rightarrow> string" where
  "str_replace s old new =
     (if old = [] then new @ concat (map (\<lambda>c. c # new) s) else replace_from old new 0 s)"

text \<open>
  \<^verbatim>\<open>s.lower()\<close> on the code points below 256: the ASCII capitals and the capitals of
  Latin-1 (the multiplication sign lies among them and stays).
\<close>

definition lower_char :: "char \<Rightarrow> char" where
  "lower_char c =
     (let n = (of_char c :: nat)
      in if (65 \<le> n \<and> n \<le> 90) \<or> (192 \<le> n \<and> n \<le> 222 \<and> n \<noteq> 215)
         then char_of (n + 32) else c)"

definition lower :: "string \<Rightarrow> string" where
  "lower s = map lower_char s"

text \<open>The head of every search operation: the site information is loaded when missing.\<close>

definition ensure_site_info :: "ext \<Rightarrow> (unit, world) prog" where
  "ensure_site_info E =
     bind get_state (\<lambda>w.
     if API_VERSION_MAJOR_MINOR w = None then get_site_info E else ret ())"

text \<open>\<^verbatim>\<open>query is None or query.strip() == ''\<close>.\<close>

definition is_blank :: "pyval \<Rightarrow> error + bool" where
  "is_blank query =
     (if query = PNone then Inr True else and_then (str_of query) (\<lambda>q. Inr (strip q = [])))"

text \<open>
  \<^verbatim>\<open>languages()\<close>, memoized.  The dictionary comprehension evaluates the key before the
  value.  The codes of a site are strings; a list or a dictionary as a key is a
  \<open>TypeError\<close>, and so is, in this model only, any other key that is no string, since the
  dictionaries of the model have string keys.
\<close>

definition dict_key :: "pyval \<Rightarrow> error + string" where
  "dict_key k = (case k of PStr s \<Rightarrow> Inr s | _ \<Rightarrow> Inl TypeError)"

definition languages :: "ext \<Rightarrow> (pyval, world) prog" where
  "languages E = cached ''languages'' (PTuple [])
     (bind (wiki_request E [(''meta'', PStr ''siteinfo''), (''siprop'', PStr ''languages'')])
        (\<lambda>response.
      bind (lift (and_then (and_then (item ''query'' response) (item ''languages'')) iterate))
        (\<lambda>langs.
      bind (for_each (\<lambda>lang d.
              bind (lift (and_then (item ''code'' lang) dict_key)) (\<lambda>code.
              bind (lift (item ''*'' lang)) (\<lambda>name.
              ret (dict_set d code name)))) langs []) (\<lambda>d.
      ret (PDict d)))))"

text \<open>
  \<^verbatim>\<open>set_lang(prefix)\<close>.  The language list is asked of the old URL, since the new one is
  stored only afterwards; any exception of that call becomes \<open>WikipediaAPIURLError\<close>.
\<close>

definition set_lang :: "ext \<Rightarrow> string \<Rightarrow> (unit, world) prog" where
  "set_lang E prefix =
     bind get_state (\<lambda>w0.
     let old_prefix = LANGUAGE_PREFIX w0;
         tmp_url = str_replace (API_URL w0) (''/'' @ old_prefix @ ''.'') (''/'' @ lower prefix @ ''.'')
     in
     if API_URL w0 = tmp_url
     then raise (WikipediaAPILanguageError (API_URL w0) old_prefix (lower prefix))
     else
       bind (try_except (languages E) (\<lambda>e. True) (\<lambda>e. raise (WikipediaAPIURLError tmp_url)))
         (\<lambda>langs.
       bind (modify (\<lambda>w. w\<lparr>LANGUAGE_PREFIX := lower prefix\<rparr>)) (\<lambda>_.
       bind (modify (\<lambda>w. w\<lparr>API_URL := tmp_url\<rparr>)) (\<lambda>_.
       clear_cache))))"

text \<open>\<^verbatim>\<open>set_api_url(api_url, prefix)\<close>.\<close>

definition set_api_url :: "ext \<Rightarrow> string \<Rightarrow> string \<Rightarrow> (unit, world) prog" where
  "set_api_url E api_url prefix =
     bind (modify (\<lambda>w. w\<lparr>API_URL := api_url\<rparr>)) (\<lambda>_.
     bind (modify (\<lambda>w. w\<lparr>LANGUAGE_PREFIX := prefix\<rparr>)) (\<lambda>_.
     bind clear_cache (\<lambda>_.
     bind (try_except (languages E) (\<lambda>e. True) (\<lambda>e. raise (WikipediaAPIURLError api_url)))
       (\<lambda>langs.
     get_site_info E))))"

text \<open>\<^verbatim>\<open>prefexsearch(query, results=10)\<close>, memoized.\<close>

definition prefexsearch :: "ext \<Rightarrow> pyval \<Rightarrow> int \<Rightarrow> (pyval, world) prog" where
  "prefexsearch E query results = cached ''prefexsearch'' (PTuple [query, PInt results])
     (bind (ensure_site_info E) (\<lambda>_.
      bind (check_version E [1, 23] ''1.23'' ''prefixsearch'') (\<lambda>_.
      bind (lift (is_blank query)) (\<lambda>blank.
      if blank then raise ValueError
      else
        bind (wiki_request E
                [(''action'', PStr ''query''), (''list'', PStr ''prefixsearch''),
                 (''pssearch'', query),
                 (''pslimit'', PInt (if results > 100 then 100 else results)),
                 (''psnamespace'', PInt 0), (''psoffset'', PInt 0)]) (\<lambda>raw_results.
        bind (lift (contains ''error'' raw_results)) (\<lambda>is_error.
        if is_error then
          bind (lift (and_then (item ''error'' raw_results) (item ''info''))) (\<lambda>info.
          raise (WikipediaException info))
        else
          bind (lift (and_then (and_then (item ''query'' raw_results) (item ''prefixsearch''))
                  iterate)) (\<lambda>ds.
          bind (lift (traverse (item ''title'') ds)) (\<lambda>res.
          ret (PList res)))))))))"

text \<open>
  \<^verbatim>\<open>search(query, results=10, suggestion=False)\<close>, memoized.  The generator over the
  search results is created on the list found in the response and consumed where the
  function returns.
\<close>

definition search :: "ext \<Rightarrow> pyval \<Rightarrow> int \<Rightarrow> bool \<Rightarrow> (pyval, world) prog" where
  "search E query results suggestion =
     cached ''search'' (PTuple [query, PInt results, PBool suggestion])
     (bind (ensure_site_info E) (\<lambda>_.
      bind (check_version E [1, 16] ''1.16'' ''search'') (\<lambda>_.
      bind (lift (is_blank query)) (\<lambda>blank.
      if blank then raise ValueError
      else
        bind (wiki_request E
                ([(''list'', PStr ''search''), (''srprop'', PStr ''''),
                  (''srlimit'', PInt results), (''srsearch'', query)]
                 @ (if suggestion then [(''srinfo'', PStr ''suggestion'')] else [])))
          (\<lambda>raw_results.
        bind (lift (contains ''error'' raw_results)) (\<lambda>is_error.
        if is_error then
          bind (lift (and_then (item ''error'' raw_results) (item ''info''))) (\<lambda>info.
          if info = PStr ''HTTP request timed out.'' \<or> info = PStr ''Pool queue is full''
          then raise (HTTPTimeoutError query)
          else
            bind (lift (and_then (item ''error'' raw_results) (item ''info''))) (\<lambda>info'.
            raise (WikipediaException info')))
        else
          bind (lift (and_then (and_then (item ''query'' raw_results) (item ''search''))
                  iterate)) (\<lambda>ds.
          if suggestion then
            bind (lift (and_then (item ''query'' raw_results)
                    (dict_get (PStr ''searchinfo'') PNone))) (\<lambda>searchinfo.
            if truthy searchinfo then
              bind (lift (traverse (item ''title'') ds)) (\<lambda>search_results.
              bind (lift (and_then (and_then (item ''query'' raw_results) (item ''searchinfo''))
                      (item ''suggestion''))) (\<lambda>s.
              ret (PTuple [PList search_results, s])))
            else
              bind (lift (traverse (item ''title'') ds)) (\<lambda>search_results.
              ret (PTuple [PList search_results, PNone])))
          else
            bind (lift (traverse (item ''title'') ds)) (\<lambda>search_results.
            ret (PList search_results)))))))))"

text \<open>
  \<^verbatim>\<open>categorymembers(category, results=10, subcategories=True)\<close>, memoized.  The timeout
  branch names \<^verbatim>\<open>query\<close>, which is bound neither in the function nor in the module.
\<close>

definition categorymembers :: "ext \<Rightarrow> pyval \<Rightarrow> int \<Rightarrow> bool \<Rightarrow> (pyval, world) prog" where
  "categorymembers E category results subcategories =
     cached ''categorymembers'' (PTuple [category, PInt results, PBool subcategories])
     (bind (ensure_site_info E) (\<lambda>_.
      bind (check_version E [1, 17] ''1.17'' ''categorymembers'') (\<lambda>_.
      bind (lift (is_blank category)) (\<lambda>blank.
      if blank then raise ValueError
      else
        bind (lift (str_of category)) (\<lambda>name.
        bind (wiki_request E
                [(''list'', PStr ''categorymembers''), (''cmprop'', PStr ''ids|title|type''),
                 (''cmtype'', PStr (if subcategories then ''page|subcat'' else ''page'')),
                 (''cmlimit'', PInt results),
                 (''cmtitle'', PStr (''Category:'' @ name))]) (\<lambda>raw_results.
        bind (lift (contains ''error'' raw_results)) (\<lambda>is_error.
        if is_error then
          bind (lift (and_then (item ''error'' raw_results) (item ''info''))) (\<lambda>info.
          if info = PStr ''HTTP request timed out.'' \<or> info = PStr ''Pool queue is full''
          then raise (NameError ''query'')
          else
            bind (lift (and_then (item ''error'' raw_results) (item ''info''))) (\<lambda>info'.
            raise (WikipediaException info')))
        else
          bind (lift (and_then (and_then (item ''query'' raw_results) (item ''categorymembers''))
                  iterate)) (\<lambda>ds.
          bind (for_each (\<lambda>d (pages, subcats).
                  bind (lift (item ''type'' d)) (\<lambda>t.
                  if t = PStr ''page'' then
                    bind (lift (item ''title'' d)) (\<lambda>x. ret (pages @ [x], subcats))
                  else
                    bind (lift (item ''type'' d)) (\<lambda>t'.
                    if t' = PStr ''subcat'' then
                      bind (lift (item ''title'' d)) (\<lambda>tmp.
                      bind (lift (str_of tmp)) (\<lambda>s.
                      ret (pages, subcats @ [PStr (if startswith s ''Category:'' then drop 9 s else s)])))
                    else ret (pages, subcats)))) ds ([], [])) (\<lambda>(pages, subcats).
          ret (if subcategories then PTuple [PList pages, PList subcats] else PList pages))))))))))"

section \<open>Finding a page\<close>

text \<open>\<^verbatim>\<open>a, b = v\<close>.\<close>

definition unpack2 :: "pyval \<Rightarrow> error + pyval \<times> pyval" where
  "unpack2 v = and_then (iterate v) (\<lambda>xs. case xs of [a, b] \<Rightarrow> Inr (a, b) | _ \<Rightarrow> Inl ValueError)"

text \<open>A constructor run on a new instance.\<close>

definition new_object :: "(unit, page \<times> world) prog \<Rightarrow> (page, world) prog" where
  "new_object init = (\<lambda>w. case init (Map.empty, w) of
      (Return u, (self, w')) \<Rightarrow> (Return self, w')
    | (Raise e, (self, w')) \<Rightarrow> (Raise e, w')
    | (OutOfFuel, (self, w')) \<Rightarrow> (OutOfFuel, w'))"

text \<open>
  \<^verbatim>\<open>page(title, pageid, auto_suggest, redirect, preload)\<close>.  With \<^verbatim>\<open>auto_suggest\<close> the
  title becomes the suggestion of a search for it, or else the first search result; when
  there is neither, \<open>PageError\<close> is raised with the title as written.
\<close>

definition page :: "nat \<Rightarrow> ext \<Rightarrow> pyval \<Rightarrow> pyval \<Rightarrow> bool \<Rightarrow> bool \<Rightarrow> bool \<Rightarrow> (page, world) prog" where
  "page fuel E title pageid auto_suggest redirect preload =
     bind (if title = PNone then ret False
           else bind (lift (str_of title)) (\<lambda>t. ret (strip t \<noteq> []))) (\<lambda>has_title.
     if has_title then
       bind (if auto_suggest then
               bind (search E title 1 True) (\<lambda>found.
               bind (lift (unpack2 found)) (\<lambda>(results, suggestion).
               try_except
                 (if truthy suggestion then ret suggestion else lift (first results))
                 (\<lambda>e. e = IndexError)
                 (\<lambda>e. raise (PageError_init title []))))
             else ret title) (\<lambda>title'.
       new_object (WikipediaPage_init fuel E title' PNone redirect preload (PStr '''')))
     else if pageid \<noteq> PNone then
       new_object (WikipediaPage_init fuel E PNone pageid True preload (PStr ''''))
     else raise ValueError)"

section \<open>The category tree\<close>

text \<open>
  A node of the tree is the dictionary with the keys \<^verbatim>\<open>depth\<close>, \<^verbatim>\<open>sub-categories\<close>,
  \<^verbatim>\<open>links\<close> and \<^verbatim>\<open>parent-categories\<close>.  The sub-categories are a dictionary from names to
  nodes or \<^verbatim>\<open>None\<close>.
\<close>

datatype node = Node int "(string \<times> node option) list" "pyval list" "pyval list"

fun node_depth :: "node \<Rightarrow> int" where
  "node_depth (Node d subs ls ps) = d"

fun sub_categories :: "node \<Rightarrow> (string \<times> node option) list" where
  "sub_categories (Node d subs ls ps) = subs"

text \<open>
  The walk shares two dictionaries among all its calls: \<^verbatim>\<open>categories\<close>, from a name to
  the page object of the category, and \<^verbatim>\<open>links\<close>, from a name to the pair of pages and
  sub-categories that \<^verbatim>\<open>categorymembers\<close> returned.
\<close>

record walk =
  walk_categories :: "string \<Rightarrow> page option"
  walk_links :: "string \<Rightarrow> pyval option"
  walk_world :: world

definition in_world :: "('a, world) prog \<Rightarrow> ('a, walk) prog" where
  "in_world m = (\<lambda>s. case m (walk_world s) of (r, w') \<Rightarrow> (r, s\<lparr>walk_world := w'\<rparr>))"

text \<open>A method run on \<^verbatim>\<open>categories[cat]\<close>.\<close>

definition on_category :: "string \<Rightarrow> ('a, page \<times> world) prog \<Rightarrow> ('a, walk) prog" where
  "on_category cat m = (\<lambda>s. case walk_categories s cat of
      None \<Rightarrow> (Raise (KeyError (PStr cat)), s)
    | Some self \<Rightarrow> (case m (self, walk_world s) of
        (r, (self', w')) \<Rightarrow>
          (r, s\<lparr>walk_categories := (walk_categories s)(cat \<mapsto> self'), walk_world := w'\<rparr>)))"

text \<open>The elements of \<^verbatim>\<open>links[cat][i]\<close>.\<close>

definition links_at :: "string \<Rightarrow> int \<Rightarrow> (pyval list, walk) prog" where
  "links_at cat i =
     bind get_state (\<lambda>s.
     case walk_links s cat of
       None \<Rightarrow> raise (KeyError (PStr cat))
     | Some v \<Rightarrow> lift (and_then (subscript v (PInt i)) iterate))"

text \<open>
  The loop that fetches a category.  \<open>fetch_once\<close> is the body of its \<^verbatim>\<open>try\<close>: the page,
  its categories and its members.  A \<open>PageError\<close> ends the walk with a \<open>PageError\<close> for
  the category; after any other exception the loop sleeps a second and tries again, as
  often as the remote makes it.
\<close>

fun is_PageError :: "error \<Rightarrow> bool" where
  "is_PageError (PageError p t) = True"
| "is_PageError e = False"

definition fetch_once :: "nat \<Rightarrow> ext \<Rightarrow> string \<Rightarrow> (unit, walk) prog" where
  "fetch_once n E cat =
     bind (in_world (page n E (PStr (''Category:'' @ cat)) PNone True True False)) (\<lambda>pg.
     bind (modify (\<lambda>s. s\<lparr>walk_categories := (walk_categories s)(cat \<mapsto> pg)\<rparr>)) (\<lambda>_.
     bind (on_category cat (categories n E)) (\<lambda>_.
     bind (in_world (categorymembers E (PStr cat) 500 True)) (\<lambda>members.
     modify (\<lambda>s. s\<lparr>walk_links := (walk_links s)(cat \<mapsto> members)\<rparr>)))))"

fun fetch_category :: "nat \<Rightarrow> ext \<Rightarrow> string \<Rightarrow> (unit, walk) prog" where
  "fetch_category 0 E cat = (\<lambda>s. (OutOfFuel, s))"
| "fetch_category (Suc n) E cat =
     try_except (fetch_once n E cat) (\<lambda>e. True)
       (\<lambda>e. if is_PageError e then raise (PageError_init (PStr cat) [])
            else bind (in_world (time_sleep 1)) (\<lambda>_. fetch_category n E cat))"

text \<open>
  \<^verbatim>\<open>__cat_tree_rec(cat, depth, tree, level, categories, links)\<close>.  The entry of \<open>cat\<close> in
  \<open>tree\<close> is written when the node is complete; the source creates it first and fills it
  in place, which no caller can tell apart, since an exception leaves the walk without a
  result.  One unit of fuel is one level of the recursion.  The names of sub-categories
  are strings, as \<^verbatim>\<open>categorymembers\<close> makes them.
\<close>

fun cat_tree_rec ::
    "nat \<Rightarrow> ext \<Rightarrow> string \<Rightarrow> int \<Rightarrow> (string \<times> node option) list \<Rightarrow> int
       \<Rightarrow> ((string \<times> node option) list, walk) prog" where
  "cat_tree_rec 0 E cat depth tree level = (\<lambda>s. (OutOfFuel, s))"
| "cat_tree_rec (Suc n) E cat depth tree level =
     bind get_state (\<lambda>s.
     bind (if walk_categories s cat = None then fetch_category (Suc n) E cat else ret ()) (\<lambda>_.
     bind (on_category cat (categories (Suc n) E)) (\<lambda>cs.
     bind (lift (iterate cs)) (\<lambda>parents.
     bind (links_at cat 0) (\<lambda>pages.
     bind (links_at cat 1) (\<lambda>subcats.
     bind (if level \<ge> depth \<and> depth > 0 then
             for_each (\<lambda>c sub.
                 bind (lift (dict_key c)) (\<lambda>name. ret (dict_set sub name None)))
               subcats []
           else
             for_each (\<lambda>c sub.
                 bind (lift (dict_key c)) (\<lambda>name. cat_tree_rec n E name depth sub (level + 1)))
               subcats []) (\<lambda>sub.
     ret (dict_set tree cat (Some (Node level sub pages parents))))))))))"

text \<open>
  \<^verbatim>\<open>categorytree(category, depth=5)\<close>: \<open>category\<close> is one name or a list of names.
\<close>

definition categorytree ::
    "nat \<Rightarrow> ext \<Rightarrow> string + string list \<Rightarrow> int \<Rightarrow> ((string \<times> node option) list, world) prog" where
  "categorytree fuel E category depth =
     (let cats = (case category of Inl c \<Rightarrow> [c] | Inr cs \<Rightarrow> cs)
      in (\<lambda>w. case for_each (\<lambda>cat results. cat_tree_rec fuel E cat depth results 0) cats []
                     \<lparr>walk_categories = Map.empty, walk_links = Map.empty, walk_world = w\<rparr>
               of (r, s) \<Rightarrow> (r, walk_world s)))"

subsection \<open>Vocabulary for statements about the category tree\<close>

text \<open>
  The sub-category names that the walk holds for a category: the elements of
  \<^verbatim>\<open>links[cat][1]\<close>, when there are any.
\<close>

definition subcat_names :: "walk \<Rightarrow> string \<Rightarrow> pyval list option" where
  "subcat_names s cat =
     (case walk_links s cat of
        None \<Rightarrow> None
      | Some v \<Rightarrow> (case and_then (subscript v (PInt 1)) iterate of
                     Inl e \<Rightarrow> None
                   | Inr names \<Rightarrow> Some names))"

text \<open>
  The shape of the node of \<open>cat\<close> built at \<open>level\<close> under the maximal depth \<open>depth\<close>,
  where \<open>L\<close> gives the sub-category names of a category.  The node records its level;
  the keys of its sub-categories are the sub-category names of \<open>cat\<close>; when
  \<open>level \<ge> depth > 0\<close> every sub-category is \<^verbatim>\<open>None\<close>, and otherwise every
  sub-category is a node of this shape one level down.
\<close>

fun built_at :: "(string \<Rightarrow> pyval list option) \<Rightarrow> int \<Rightarrow> int \<Rightarrow> string \<Rightarrow> node \<Rightarrow> bool" where
  "built_at L depth level cat (Node d subs ls ps) \<longleftrightarrow>
     d = level
     \<and> (case L cat of None \<Rightarrow> False | Some names \<Rightarrow> set (map (\<lambda>kv. PStr (fst kv)) subs) = set names)
     \<and> (\<forall>kv \<in> set subs.
          if level \<ge> depth \<and> depth > 0 then snd kv = None
          else (case snd kv of None \<Rightarrow> False | Some n \<Rightarrow> built_at L depth (level + 1) (fst kv) n))"

text \<open>A tree without \<^verbatim>\<open>None\<close> among the sub-categories of any node.\<close>

fun fully_expanded :: "node \<Rightarrow> bool" where
  "fully_expanded (Node d subs ls ps) \<longleftrightarrow>
     (\<forall>kv \<in> set subs. case snd kv of None \<Rightarrow> False | Some n \<Rightarrow> fully_expanded n)"

text \<open>
  Two facts about the dictionaries of a walk: every category with links has a page
  (\<open>linked\<close>); and a later state has the pages of an earlier one and the same links for
  them (\<open>extends\<close>).
\<close>

definition linked :: "walk \<Rightarrow> bool" where
  "linked s \<longleftrightarrow> dom (walk_links s) \<subseteq> dom (walk_categories s)"

definition extends :: "walk \<Rightarrow> walk \<Rightarrow> bool" where
  "extends s s' \<longleftrightarrow>
     dom (walk_categories s) \<subseteq> dom (walk_categories s')
     \<and> (\<forall>c \<in> dom (walk_categories s). walk_links s' c = walk_links s c)"

text \<open>
  What a fetch of \<open>cat\<close> may change: the links of no other category are touched, and no
  page is lost.
\<close>

definition touches_only :: "string \<Rightarrow> walk \<Rightarrow> walk \<Rightarrow> bool" where
  "touches_only cat s s' \<longleftrightarrow>
     (\<forall>c. c \<noteq> cat \<longrightarrow> walk_links s' c = walk_links s c)
     \<and> dom (walk_categories s) \<subseteq> dom (walk_categories s')"

section \<open>Fixtures\<close>

text \<open>
  A remote that answers every request with an empty JSON object, and a clock that
  advances one microsecond per reading.
\<close>

definition silent_ext :: ext where
  "silent_ext = \<lparr> http_get = (\<lambda>k url params. Inr (Inr (PDict []))),
                   now = (\<lambda>k. int k),
                   int_of_str = (\<lambda>s. Inl ValueError),
                   Decimal = (\<lambda>v. Inl TypeError),
                   find_all_li = (\<lambda>v. Inr []),
                   cmp_major_minor = (\<lambda>v r. Inr False) \<rparr>"

text \<open>
  A page with title and id, and a remote that answers its link query in three rounds of
  two, two and one fragments; the last round has no \<^verbatim>\<open>continue\<close> section.
\<close>

definition links_round :: "pyval list \<Rightarrow> (string \<times> pyval) list option \<Rightarrow> pyval" where
  "links_round fragments continuation =
     PDict ((''query'', PDict [(''pages'', PDict [(''42'', PDict [(''links'', PList fragments)])])])
            # (case continuation of None \<Rightarrow> [] | Some c \<Rightarrow> [(''continue'', PDict c)]))"

definition three_round_ext :: ext where
  "three_round_ext = \<lparr>
     http_get = (\<lambda>k url params. Inr (Inr (
        if k = 0 then links_round [PStr ''a'', PStr ''b''] (Some [(''plcontinue'', PStr ''c'')])
        else if k = 1 then links_round [PStr ''c'', PStr ''d''] (Some [(''plcontinue'', PStr ''e'')])
        else links_round [PStr ''e''] None))),
     now = (\<lambda>k. int k),
     int_of_str = (\<lambda>s. Inl ValueError),
     Decimal = (\<lambda>v. Inl TypeError),
     find_all_li = (\<lambda>v. Inr []),
     cmp_major_minor = (\<lambda>v r. Inr False) \<rparr>"

definition page42 :: page where
  "page42 = Map.empty(''title'' \<mapsto> PStr ''Alpha'', ''pageid'' \<mapsto> PStr ''42'')"

text \<open>Pages whose content is loaded.\<close>

definition history_content :: string where
  "history_content =
     ''Intro.\<newline>== History ==\<newline>text here\<newline>== Legacy ==\<newline>more''"

definition history_page :: page where
  "history_page = Map.empty(''title'' \<mapsto> PStr ''Alpha'', ''pageid'' \<mapsto> PStr ''42'',
      ''_content'' \<mapsto> PStr history_content)"

definition formula_content :: string where
  "formula_content = ''== Formula ==\<newline>a = b =''"

text \<open>
  A process that knows its site (version 1.28, two extensions), and a small wiki:
  \<open>Alpha\<close> redirects to \<open>Beta\<close>, \<open>Beta\<close> to \<open>Gamma\<close>, \<open>Gamma\<close> is a page; \<open>alpha\<close> is
  normalized to \<open>Alpha\<close>; \<open>Orphan\<close> redirects to a page that does not exist; \<open><\<close> is
  no valid title; every other title is missing.
\<close>

definition known_site :: world where
  "known_site = initial_world\<lparr>API_VERSION := PStr ''1.28.0'',
      API_VERSION_MAJOR_MINOR := Some [1, 28],
      INSTALLED_EXTENSIONS := Some [PStr ''TextExtracts'', PStr ''GeoData'']\<rparr>"

definition plain_entry :: "string \<Rightarrow> string \<Rightarrow> string \<times> pyval" where
  "plain_entry key name =
     (key, PDict [(''pageid'', PStr key), (''title'', PStr name),
                  (''fullurl'', PStr (''http://en.wikipedia.org/wiki/'' @ name))])"

definition alpha_query :: pyval where
  "alpha_query = PDict
     [(''normalized'', PList [PDict [(''from'', PStr ''alpha''), (''to'', PStr ''Alpha'')]]),
      (''redirects'', PList [PDict [(''from'', PStr ''Alpha''), (''to'', PStr ''Beta'')]]),
      (''pages'', PDict [plain_entry ''12'' ''Beta''])]"

definition fake_page :: "pyval option \<Rightarrow> pyval" where
  "fake_page t =
     (if t = Some (PStr ''Gamma'') then
        PDict [(''query'', PDict [(''pages'', PDict [plain_entry ''13'' ''Gamma''])])]
      else if t = Some (PStr ''Beta'') then
        PDict [(''query'', PDict
          [(''redirects'', PList [PDict [(''from'', PStr ''Beta''), (''to'', PStr ''Gamma'')]]),
           (''pages'', PDict [plain_entry ''13'' ''Gamma''])])]
      else if t = Some (PStr ''Alpha'') then
        PDict [(''query'', PDict
          [(''redirects'', PList [PDict [(''from'', PStr ''Alpha''), (''to'', PStr ''Beta'')]]),
           (''pages'', PDict [plain_entry ''12'' ''Beta''])])]
      else if t = Some (PStr ''alpha'') then PDict [(''query'', alpha_query)]
      else if t = Some (PStr ''Orphan'') then
        PDict [(''query'', PDict
          [(''redirects'', PList [PDict [(''from'', PStr ''Orphan''), (''to'', PStr ''Deleted'')]]),
           (''pages'', PDict [(''-1'', PDict [(''title'', PStr ''Deleted''), (''missing'', PStr '''')])])])]
      else if t = Some (PStr ''<'') then
        PDict [(''query'', PDict [(''pages'', PDict [(''-1'', PDict
          [(''title'', PStr ''<''),
           (''invalidreason'', PStr ''The requested page title contains invalid characters''),
           (''invalid'', PStr '''')])])])]
      else
        PDict [(''query'', PDict [(''pages'', PDict [(''-1'', PDict
          [(''title'', case t of None \<Rightarrow> PNone | Some v \<Rightarrow> v), (''missing'', PStr '''')])])])])"

definition fake_wiki :: "(string \<times> pyval) list \<Rightarrow> pyval" where
  "fake_wiki params = fake_page (map_of params ''titles'')"

definition fake_ext :: ext where
  "fake_ext = \<lparr> http_get = (\<lambda>k url params. Inr (Inr (fake_wiki params))),
                 now = (\<lambda>k. int k),
                 int_of_str = (\<lambda>s. Inl ValueError),
                 Decimal = (\<lambda>v. Inl TypeError),
                 find_all_li = (\<lambda>v. Inr []),
                 cmp_major_minor = (\<lambda>v r. Inr False) \<rparr>"

definition titled :: "string \<Rightarrow> page" where
  "titled t = Map.empty(''title'' \<mapsto> PStr t, ''original_title'' \<mapsto> PStr t)"

text \<open>
  The page object of \<open>Gamma\<close> after resolution.
\<close>

definition gamma_page :: page where
  "gamma_page = Map.empty(''pageid'' \<mapsto> PStr ''13'', ''title'' \<mapsto> PStr ''Gamma'',
      ''url'' \<mapsto> PStr ''http://en.wikipedia.org/wiki/Gamma'')"

text \<open>
  Two sites behind one remote: the prefix search for \<open>Al\<close> finds \<open>Alpha\<close> on the
  English site and \<open>Alphabet\<close> on the French one; the language list is the same on both.
\<close>

definition prefix_answer :: "string \<Rightarrow> pyval" where
  "prefix_answer name =
     PDict [(''query'', PDict [(''prefixsearch'', PList [PDict [(''title'', PStr name)]])])]"

definition languages_answer :: pyval where
  "languages_answer =
     PDict [(''query'', PDict [(''languages'', PList
       [PDict [(''code'', PStr ''en''), (''*'', PStr ''English'')],
        PDict [(''code'', PStr ''fr''), (''*'', PStr ''French'')]])])]"

definition two_sites :: "string \<Rightarrow> (string \<times> pyval) list \<Rightarrow> pyval" where
  "two_sites url params =
     (if map_of params ''siprop'' = Some (PStr ''languages'') then languages_answer
      else if url = ''http://fr.wikipedia.org/w/api.php'' then prefix_answer ''Alphabet''
      else prefix_answer ''Alpha'')"

definition two_sites_ext :: ext where
  "two_sites_ext = \<lparr> http_get = (\<lambda>k url params. Inr (Inr (two_sites url params))),
                      now = (\<lambda>k. int k),
                      int_of_str = (\<lambda>s. Inl ValueError),
                      Decimal = (\<lambda>v. Inl TypeError),
                      find_all_li = (\<lambda>v. Inr []),
                      cmp_major_minor = (\<lambda>v r. Inr False) \<rparr>"

definition after_english_search :: world where
  "after_english_search = snd (prefexsearch two_sites_ext (PStr ''Al'') 10 known_site)"

definition after_set_lang :: world where
  "after_set_lang = snd (set_lang two_sites_ext ''fr'' after_english_search)"

text \<open>
  A wiki of four categories: \<open>Science\<close> has the sub-categories \<open>Physics\<close> and
  \<open>Chemistry\<close> and the page \<open>Scientist\<close>; \<open>Physics\<close> has the sub-category \<open>Optics\<close>;
  the others have no members.  Every category lies in the category \<open>Contents\<close>.  A search
  finds the title searched for.
\<close>

definition member :: "string \<Rightarrow> string \<Rightarrow> pyval" where
  "member kind name = PDict [(''type'', PStr kind), (''title'', PStr name)]"

definition members_of :: "pyval option \<Rightarrow> pyval list" where
  "members_of t =
     (if t = Some (PStr ''Category:Science'') then
        [member ''subcat'' ''Category:Physics'', member ''page'' ''Scientist'',
         member ''subcat'' ''Category:Chemistry'']
      else if t = Some (PStr ''Category:Physics'') then [member ''subcat'' ''Category:Optics'']
      else [])"

definition category_wiki :: "(string \<times> pyval) list \<Rightarrow> pyval" where
  "category_wiki params =
     (if map_of params ''list'' = Some (PStr ''search'') then
        PDict [(''query'', PDict [(''search'', PList [PDict
          [(''title'', case map_of params ''srsearch'' of None \<Rightarrow> PNone | Some v \<Rightarrow> v)]])])]
      else if map_of params ''list'' = Some (PStr ''categorymembers'') then
        PDict [(''query'', PDict [(''categorymembers'',
          PList (members_of (map_of params ''cmtitle'')))])]
      else if map_of params ''prop'' = Some (PStr ''categories'') then
        PDict [(''query'', PDict [(''pages'', PDict [(''7'', PDict
          [(''categories'', PList [PDict [(''title'', PStr ''Category:Contents'')]])])])])]
      else
        PDict [(''query'', PDict [(''pages'', PDict [(''7'', PDict
          [(''pageid'', PStr ''7''),
           (''title'', case map_of params ''titles'' of None \<Rightarrow> PNone | Some v \<Rightarrow> v),
           (''fullurl'', PStr ''http://en.wikipedia.org/wiki/Category'')])])])])"

definition category_ext :: ext where
  "category_ext = \<lparr> http_get = (\<lambda>k url params. Inr (Inr (category_wiki params))),
                     now = (\<lambda>k. int k),
                     int_of_str = (\<lambda>s. Inl ValueError),
                     Decimal = (\<lambda>v. Inl TypeError),
                     find_all_li = (\<lambda>v. Inr []),
                     cmp_major_minor = (\<lambda>v r. Inr False) \<rparr>"

definition new_walk :: walk where
  "new_walk = \<lparr>walk_categories = Map.empty, walk_links = Map.empty, walk_world = known_site\<rparr>"

definition science_tree :: "(string \<times> node option) list" where
  "science_tree =
     [(''Science'', Some (Node 0
        [(''Physics'', Some (Node 1 [(''Optics'', None)] [] [PStr ''Contents''])),
         (''Chemistry'', Some (Node 1 [] [] [PStr ''Contents'']))]
        [PStr ''Scientist''] [PStr ''Contents'']))]"

definition full_physics_tree :: "(string \<times> node option) list" where
  "full_physics_tree =
     [(''Physics'', Some (Node 0
        [(''Optics'', Some (Node 1 [] [] [PStr ''Contents'']))] [] [PStr ''Contents'']))]"

section \<open>Running programs\<close>

lemma bind_ret [simp]: "bind (ret x) f = f x"
  by (simp add: bind_def ret_def)

lemma bind_raise [simp]: "bind (raise e) f = raise e"
  by (simp add: bind_def raise_def)

lemma bind_get_state [simp]: "bind get_state f s = f s s"
  by (simp add: bind_def get_state_def)

lemma bind_modify [simp]: "bind (modify g) f s = f () (g s)"
  by (simp add: bind_def modify_def)

lemma raise_apply [simp]: "raise e s = (Raise e, s)"
  by (simp add: raise_def)

lemma ret_apply [simp]: "ret x s = (Return x, s)"
  by (simp add: ret_def)

lemma modify_apply [simp]: "modify g s = (Return (), g s)"
  by (simp add: modify_def)

lemma bind_apply:
  "bind m f s = (case m s of (Return x, s') \<Rightarrow> f x s'
                 | (Raise e, s') \<Rightarrow> (Raise e, s')
                 | (OutOfFuel, s') \<Rightarrow> (OutOfFuel, s'))"
  by (simp add: bind_def)

lemma bind_datetime_now [simp]:
  "bind (datetime_now E) f w = f (now E (clock_reads w)) (w\<lparr>clock_reads := Suc (clock_reads w)\<rparr>)"
  by (simp add: bind_def datetime_now_def)

section \<open>The rate-limit window\<close>

lemma whole_seconds_neg: "whole_seconds us < 0 \<longleftrightarrow> us \<le> - 1000000"
  by (auto simp: whole_seconds_def)



section \<open>Continued queries\<close>

lemma wiki_request_no_rate_limit:
  assumes "\<not> RATE_LIMIT w"
  shows "wiki_request E params w =
     (case http_get E (length (sent w)) (API_URL w) (with_format_action params) of
        Inl e \<Rightarrow> (Raise e, sends w params)
      | Inr (Inl e) \<Rightarrow> (Raise e, sends w params)
      | Inr (Inr r) \<Rightarrow> (Return r, sends w params))"
  using assms
  by (auto simp: wiki_request_def Let_def bind_def lift_def reset_session_def sends_def
      get_state_def modify_def ret_def raise_def
      split: sum.splits option.splits)

lemma for_each_collect: "for_each collect data acc s = (Return (acc @ data), s)"
  by (induction data arbitrary: acc s) (simp_all add: collect_def bind_apply)

lemma liftW_apply [simp]: "liftW m (self, w) = (case m w of (r, w') \<Rightarrow> (r, (self, w')))"
  by (simp add: liftW_def)

lemma getattr_apply [simp]:
  "getattr name (self, w) = (case self name of None \<Rightarrow> (Raise AttributeError, (self, w))
     | Some v \<Rightarrow> (Return v, (self, w)))"
  by (simp add: getattr_def)

lemma lift_Inr [simp]: "lift (Inr x) = ret x"
  by (simp add: lift_def)

lemma lift_Inl [simp]: "lift (Inl e) = raise e"
  by (simp add: lift_def)

lemma title_query_param_state: "snd (title_query_param s) = s"
  by (cases s) (auto simp: title_query_param_def bind_apply getattr_or_def split: option.splits)

text \<open>One round of the loop that finds a \<^verbatim>\<open>query\<close> section, for the consumer \<open>collect\<close>.\<close>

lemma continued_query_round:
  assumes "\<not> RATE_LIMIT w"
    and "self ''pageid'' = Some pageid"
    and "map_of query_params ''generator'' = None"
    and "update_with query_params last_continue = Inr params"
    and "http_get E (length (sent w)) (API_URL w) (with_format_action params) = Inr (Inr request)"
    and "contains ''query'' request = Inr True"
    and "and_then (item ''query'' request) (item ''pages'') = Inr pages"
    and "and_then (and_then (subscript pages pageid) (dict_get prop (PList []))) iterate = Inr data"
  shows "continued_query_loop (Suc n) E query_params prop collect last_continue acc (self, w) =
     (case contains ''continue'' request of
        Inl e \<Rightarrow> (Raise e, (self, sends w params))
      | Inr False \<Rightarrow> (Return (acc @ data), (self, sends w params))
      | Inr True \<Rightarrow>
          (case item ''continue'' request of
             Inl e \<Rightarrow> (Raise e, (self, sends w params))
           | Inr c \<Rightarrow> continued_query_loop n E query_params prop collect c (acc @ data)
                        (self, sends w params)))"
  using assms
  by (simp add: bind_apply wiki_request_no_rate_limit for_each_collect split: sum.splits bool.splits)

lemma continued_query_no_query:
  assumes "\<not> RATE_LIMIT w"
    and "update_with query_params last_continue = Inr params"
    and "http_get E (length (sent w)) (API_URL w) (with_format_action params) = Inr (Inr request)"
    and "contains ''query'' request = Inr False"
  shows "continued_query_loop (Suc n) E query_params prop body last_continue acc (self, w) =
           (Return acc, (self, sends w params))"
  using assms
  by (simp add: bind_apply wiki_request_no_rate_limit)

lemma sends_simps [simp]:
  "RATE_LIMIT (sends w params) = RATE_LIMIT w"
  "API_URL (sends w params) = API_URL w"
  "sent (sends w params) = sent w @ [(API_URL w, with_format_action params)]"
  by (simp_all add: sends_def)


lemma fixture_tq: "fst (title_query_param (page42, initial_world)) = Return [(''titles'', PStr ''Alpha'')]"
  by (simp add: page42_def title_query_param_def getattr_or_def bind_apply)

lemma fixture_round:
  "contains ''query'' (links_round fs c) = Inr True"
  "and_then (item ''query'' (links_round fs c)) (item ''pages'') = Inr (PDict [(''42'', PDict [(''links'', PList fs)])])"
  "and_then (and_then (subscript (PDict [(''42'', PDict [(''links'', PList fs)])]) (PStr ''42''))
      (dict_get (PStr ''links'') (PList []))) iterate = Inr fs"
  "contains ''continue'' (links_round fs (Some d)) = Inr True"
  "item ''continue'' (links_round fs (Some d)) = Inr (PDict d)"
  "contains ''continue'' (links_round fs None) = Inr False"
  by (simp_all add: links_round_def item_def and_then_def split: option.splits)


section \<open>Sections of the content\<close>

lemma startswith_iff: "startswith s p \<longleftrightarrow> (\<exists>t. s = p @ t)"
  unfolding startswith_def
  by (metis append_eq_conv_conj append_take_drop_id)

lemma str_find_None: "str_find sub s = None \<longleftrightarrow> (\<forall>i \<le> length s. \<not> startswith (drop i s) sub)"
proof (induction s)
  case Nil
  then show ?case by (auto simp: startswith_def)
next
  case (Cons c s)
  show ?case
  proof
    assume a: "str_find sub (c # s) = None"
    then have n0: "\<not> startswith (c # s) sub" and rec: "str_find sub s = None"
      by (auto split: if_splits)
    show "\<forall>i \<le> length (c # s). \<not> startswith (drop i (c # s)) sub"
    proof (intro allI impI)
      fix i assume "i \<le> length (c # s)"
      then show "\<not> startswith (drop i (c # s)) sub"
        using n0 rec Cons.IH by (cases i) auto
    qed
  next
    assume a: "\<forall>i \<le> length (c # s). \<not> startswith (drop i (c # s)) sub"
    then have "\<not> startswith (c # s) sub" by (metis drop0 le0)
    moreover have "\<forall>i \<le> length s. \<not> startswith (drop i s) sub"
      using a by (metis Suc_le_mono drop_Suc_Cons length_Cons)
    ultimately show "str_find sub (c # s) = None"
      using Cons.IH by simp
  qed
qed

lemma str_find_Some:
  "str_find sub s = Some i \<Longrightarrow>
     i \<le> length s \<and> startswith (drop i s) sub \<and> (\<forall>j<i. \<not> startswith (drop j s) sub)"
proof (induction s arbitrary: i)
  case Nil
  then show ?case by (auto simp: startswith_def split: if_splits)
next
  case (Cons c s)
  show ?case
  proof (cases "startswith (c # s) sub")
    case True
    with Cons.prems show ?thesis by simp
  next
    case False
    with Cons.prems obtain k where k: "str_find sub s = Some k" "i = Suc k"
      by auto
    from Cons.IH[OF k(1)] have ih: "k \<le> length s" "startswith (drop k s) sub"
      "\<forall>j<k. \<not> startswith (drop j s) sub" by auto
    have "\<forall>j<i. \<not> startswith (drop j (c # s)) sub"
    proof (intro allI impI)
      fix j assume "j < i"
      then show "\<not> startswith (drop j (c # s)) sub"
        using False ih(3) k(2) by (cases j) auto
    qed
    then show ?thesis using ih k by simp
  qed
qed

lemma str_find_first_at:
  assumes "first_at sub s pre post"
  shows "str_find sub s = Some (length pre)"
proof -
  from assms have s: "s = pre @ sub @ post"
    and least: "\<And>pre' post'. s = pre' @ sub @ post' \<Longrightarrow> length pre \<le> length pre'"
    by (auto simp: first_at_def)
  have "startswith (drop (length pre) s) sub" using s by (simp add: startswith_iff)
  then have "str_find sub s \<noteq> None"
    using s by (auto simp: str_find_None intro!: exI[of _ "length pre"])
  then obtain i where i: "str_find sub s = Some i" by auto
  from str_find_Some[OF i] have il: "i \<le> length s" and st: "startswith (drop i s) sub"
    and mn: "\<forall>j<i. \<not> startswith (drop j s) sub" by auto
  from st obtain t where "drop i s = sub @ t" by (auto simp: startswith_iff)
  then have "s = take i s @ sub @ t" by (metis append_take_drop_id)
  from least[OF this] il have "length pre \<le> i" by simp
  moreover have "\<not> length pre < i"
    using mn \<open>startswith (drop (length pre) s) sub\<close> by auto
  ultimately show ?thesis using i by simp
qed

lemma str_find_absent:
  assumes "\<not> (\<exists>pre post. s = pre @ sub @ post)"
  shows "str_find sub s = None"
proof (rule ccontr)
  assume "str_find sub s \<noteq> None"
  then obtain i where i: "str_find sub s = Some i" by auto
  from str_find_Some[OF i] obtain t where "drop i s = sub @ t" by (auto simp: startswith_iff)
  then have "s = take i s @ sub @ t" by (metis append_take_drop_id)
  with assms show False by blast
qed


lemma getattr_or_apply [simp]:
  "getattr_or name dflt (self, w) = (Return (case self name of None \<Rightarrow> dflt | Some v \<Rightarrow> v), (self, w))"
  by (simp add: getattr_or_def split: option.splits)

lemma content_cached:
  assumes "self ''_content'' = Some v" and "truthy v"
  shows "content E (self, w) = (Return v, (self, w))"
  using assms by (simp add: content_def bind_apply)

lemma try_except_apply:
  "try_except m handles h s = (case m s of
      (Raise e, s') \<Rightarrow> if handles e then h e s' else (Raise e, s')
    | r \<Rightarrow> r)"
  by (simp add: try_except_def)

lemma lift_apply: "lift r s = (case r of Inl e \<Rightarrow> (Raise e, s) | Inr x \<Rightarrow> (Return x, s))"
  by (simp add: lift_def split: sum.splits)

lemma section_absent:
  assumes "self ''_content'' = Some (PStr c)" and "c \<noteq> []"
    and "str_find (section_marker title) c = None"
  shows "page_section E title (self, w) = (Return PNone, (self, w))"
  using assms
  by (simp add: page_section_def Let_def bind_apply try_except_apply content_cached
      str_index_def lift_apply)

lemma section_present:
  assumes c: "self ''_content'' = Some (PStr c)" "c \<noteq> []"
    and i: "str_find (section_marker title) c = Some i"
  shows "page_section E title (self, w) =
     (Return (PStr (strip (lstrip (\<lambda>ch. ch = CHR ''='')
        (case str_find ''=='' (drop (i + length (section_marker title)) c) of
           None \<Rightarrow> drop (i + length (section_marker title)) c
         | Some j \<Rightarrow> take j (drop (i + length (section_marker title)) c))))), (self, w))"
proof -
  let ?m = "section_marker title"
  from str_find_Some[OF i] have "i \<le> length c" "startswith (drop i c) ?m" by auto
  then obtain t where "drop i c = ?m @ t" by (auto simp: startswith_iff)
  then have "length c - i = length ?m + length t" by (metis length_append length_drop)
  with \<open>i \<le> length c\<close> have len: "i + length ?m \<le> length c" by simp
  show ?thesis
    using c i len
    by (simp add: page_section_def Let_def bind_apply try_except_apply content_cached
        str_index_def lift_apply and_then_def split: option.splits)
qed

text \<open>
  C7, as amended.  The page's content is loaded and is a string that is not empty.  Then
  \<open>page_section\<close> sends nothing and changes nothing, and its result is a function of the
  content and the title: \<^verbatim>\<open>None\<close> when the marker \<^verbatim>\<open>== title ==\<close> does not occur;
  otherwise the text after the first marker, up to the first \<^verbatim>\<open>==\<close> after it or to the
  end of the content, with the \<^verbatim>\<open>=\<close> characters at its start removed and then white
  space trimmed from both ends.
\<close>

theorem C7_section_of_loaded_content:
  assumes "self ''_content'' = Some (PStr c)" and "c \<noteq> []"
  shows "(\<not> (\<exists>pre post. c = pre @ section_marker title @ post) \<longrightarrow>
            page_section E title (self, w) = (Return PNone, (self, w)))
       \<and> (\<forall>pre post. first_at (section_marker title) c pre post \<longrightarrow>
            (\<not> (\<exists>a b. post = a @ ''=='' @ b) \<longrightarrow>
               page_section E title (self, w) =
                 (Return (PStr (strip (lstrip (\<lambda>ch. ch = CHR ''='') post))), (self, w)))
          \<and> (\<forall>body rest. first_at ''=='' post body rest \<longrightarrow>
               page_section E title (self, w) =
                 (Return (PStr (strip (lstrip (\<lambda>ch. ch = CHR ''='') body))), (self, w))))"
proof (intro conjI allI impI)
  assume "\<not> (\<exists>pre post. c = pre @ section_marker title @ post)"
  from section_absent[of self c title E w] assms str_find_absent[OF this]
  show "page_section E title (self, w) = (Return PNone, (self, w))" by simp
next
  fix pre post
  assume f: "first_at (section_marker title) c pre post"
  then have cdef: "c = pre @ section_marker title @ post" by (simp add: first_at_def)
  then have dr: "drop (length pre + length (section_marker title)) c = post" by simp
  note sp = section_present[of self c title "length pre" E w, unfolded dr, OF assms str_find_first_at[OF f]]
  {
    assume "\<not> (\<exists>a b. post = a @ ''=='' @ b)"
    from sp str_find_absent[OF this]
    show "page_section E title (self, w) =
        (Return (PStr (strip (lstrip (\<lambda>ch. ch = CHR ''='') post))), (self, w))"
      by simp
  }
  {
    fix body rest
    assume g: "first_at ''=='' post body rest"
    then have "post = body @ ''=='' @ rest" by (simp add: first_at_def)
    then have "take (length body) post = body" by simp
    with sp str_find_first_at[OF g]
    show "page_section E title (self, w) =
        (Return (PStr (strip (lstrip (\<lambda>ch. ch = CHR ''='') body))), (self, w))"
      by simp
  }
qed


lemma str_find_None_absent:
  assumes "str_find sub s = None"
  shows "\<not> (\<exists>pre post. s = pre @ sub @ post)"
proof
  assume "\<exists>pre post. s = pre @ sub @ post"
  then obtain pre post where s: "s = pre @ sub @ post" by blast
  then have "startswith (drop (length pre) s) sub" by (simp add: startswith_iff)
  moreover have "length pre \<le> length s" using s by simp
  ultimately show False using assms by (auto simp: str_find_None)
qed

lemma first_atI:
  assumes i: "str_find sub s = Some i" and pre: "pre = take i s"
    and post: "post = drop (i + length sub) s"
  shows "first_at sub s pre post"
proof -
  from str_find_Some[OF i] have il: "i \<le> length s" and st: "startswith (drop i s) sub"
    and mn: "\<forall>j<i. \<not> startswith (drop j s) sub" by auto
  from st obtain t where t: "drop i s = sub @ t" by (auto simp: startswith_iff)
  then have "drop (i + length sub) s = t"
    by (metis add.commute append_eq_conv_conj drop_drop)
  with t have "s = pre @ sub @ post" using pre post by (metis append_take_drop_id)
  moreover have "length pre \<le> length pre'" if "s = pre' @ sub @ post'" for pre' post'
  proof -
    from that have "startswith (drop (length pre') s) sub" by (simp add: startswith_iff)
    with mn have "\<not> length pre' < i" by auto
    then show ?thesis using pre il by simp
  qed
  ultimately show ?thesis by (auto simp: first_at_def)
qed

theorem C7_section_history_witness:
  "history_page ''_content'' = Some (PStr history_content) \<and> history_content \<noteq> []
   \<and> page_section silent_ext ''History'' (history_page, initial_world)
       = (Return (PStr ''text here''), (history_page, initial_world))
   \<and> page_section silent_ext ''Nonexistent'' (history_page, initial_world)
       = (Return PNone, (history_page, initial_world))"
proof -
  have c: "history_page ''_content'' = Some (PStr history_content)" "history_content \<noteq> []"
    by (simp_all add: history_page_def history_content_def)
  have m: "str_find (section_marker ''History'') history_content = Some 7"
    by (simp add: section_marker_def history_content_def startswith_def)
  have f1: "first_at (section_marker ''History'') history_content ''Intro.\<newline>''
      ''\<newline>text here\<newline>== Legacy ==\<newline>more''"
    by (rule first_atI[OF m]) (simp_all add: history_content_def section_marker_def)
  have n: "str_find ''=='' ''\<newline>text here\<newline>== Legacy ==\<newline>more'' = Some 11"
    by (simp add: startswith_def)
  have f2: "first_at ''=='' ''\<newline>text here\<newline>== Legacy ==\<newline>more''
      ''\<newline>text here\<newline>'' '' Legacy ==\<newline>more''"
    by (rule first_atI[OF n]) simp_all
  have "str_find (section_marker ''Nonexistent'') history_content = None"
    by (simp add: section_marker_def history_content_def startswith_def)
  then have no: "\<not> (\<exists>pre post. history_content = pre @ section_marker ''Nonexistent'' @ post)"
    by (rule str_find_None_absent)
  have "page_section silent_ext ''History'' (history_page, initial_world)
       = (Return (PStr (strip (lstrip (\<lambda>ch. ch = CHR ''='') ''\<newline>text here\<newline>''))),
          (history_page, initial_world))"
    using C7_section_of_loaded_content[of history_page history_content "''History''" silent_ext initial_world,
        OF c, THEN conjunct2, rule_format, OF f1, THEN conjunct2, rule_format, OF f2] .
  moreover have "strip (lstrip (\<lambda>ch. ch = CHR ''='') ''\<newline>text here\<newline>'') = ''text here''"
    by (simp add: strip_def lstrip_def rstrip_def is_space_def)
  moreover have "page_section silent_ext ''Nonexistent'' (history_page, initial_world)
       = (Return PNone, (history_page, initial_world))"
    using C7_section_of_loaded_content[of history_page history_content "''Nonexistent''" silent_ext
        initial_world, OF c, THEN conjunct1, rule_format, OF no] .
  ultimately show ?thesis using c by simp
qed

text \<open>
  The claim as the specification words it fails: a \<^verbatim>\<open>=\<close> at the end of the text stays,
  where trimming \<^verbatim>\<open>=\<close> from both ends would remove it.
\<close>

theorem C7_section_trailing_equals_counterexample:
  "fst (page_section silent_ext ''Formula''
          (Map.empty(''pageid'' \<mapsto> PStr ''7'', ''_content'' \<mapsto> PStr formula_content), initial_world))
     = Return (PStr ''a = b ='')
   \<and> section_spec formula_content ''Formula'' = Some ''a = b''"
  by (simp add: page_section_def Let_def bind_apply try_except_apply content_def
      str_index_def lift_apply and_then_def section_marker_def formula_content_def
      startswith_def strip_def lstrip_def rstrip_def is_space_def section_spec_def trim_both_def)

section \<open>Resolving a page\<close>

declare WikipediaPage_load.simps [simp del]

lemma title_query_param_apply:
  "title_query_param (self, w) =
     (case self ''title'' of
        Some t \<Rightarrow> if t \<noteq> PNone then (Return [(''titles'', t)], (self, w))
                  else (case self ''pageid'' of None \<Rightarrow> (Raise AttributeError, (self, w))
                        | Some p \<Rightarrow> (Return [(''pageids'', p)], (self, w)))
      | None \<Rightarrow> (case self ''pageid'' of None \<Rightarrow> (Raise AttributeError, (self, w))
                        | Some p \<Rightarrow> (Return [(''pageids'', p)], (self, w))))"
  by (simp add: title_query_param_def bind_apply split: option.splits)

lemma title_query_param_Return:
  assumes "fst (title_query_param (self, w)) = Return tq"
  shows "title_query_param (self, w) = (Return tq, (self, w))"
  using assms title_query_param_state[of "(self, w)"]
  by (cases "title_query_param (self, w)") simp

lemma liftW_wiki_request:
  assumes "\<not> RATE_LIMIT w"
    and "http_get E (length (sent w)) (API_URL w) (with_format_action params) = Inr (Inr request)"
  shows "liftW (wiki_request E params) (self, w) = (Return request, (self, sends w params))"
  using assms by (simp add: wiki_request_no_rate_limit)

lemma hasattr_apply [simp]: "hasattr name (self, w) = (Return (self name \<noteq> None), (self, w))"
  by (simp add: hasattr_def)

lemma setattr_apply [simp]: "setattr name v (self, w) = (Return (), (self(name \<mapsto> v), w))"
  by (simp add: setattr_def)

text \<open>
  The head of \<open>WikipediaPage_load\<close>: the request and the page entry.
\<close>

lemma load_entry:
  assumes norl: "\<not> RATE_LIMIT w"
    and tq: "fst (title_query_param (self, w)) = Return tq"
    and resp: "http_get E (length (sent w)) (API_URL w)
                 (with_format_action (dict_update load_params tq)) = Inr (Inr request)"
    and q: "item ''query'' request = Inr query"
    and pages: "item ''pages'' query = Inr (PDict ((key, pg) # others))"
  shows "WikipediaPage_load n E redirect preload (self, w) =
     bind (lift (contains ''missing'' pg)) (\<lambda>missing.
     if missing then
       bind (hasattr ''title'') (\<lambda>has_title.
       if has_title then bind (getattr ''title'') (\<lambda>t. raise (PageError_init t []))
       else bind (getattr ''pageid'') (\<lambda>p. raise (PageError_init p [])))
     else
       bind (lift (contains ''redirects'' query)) (\<lambda>is_redirect.
       if is_redirect then
         (if redirect then
            bind (redirect_target query) (\<lambda>target.
            WikipediaPage_init n E target PNone redirect preload (PStr ''''))
          else
            bind (lift (item ''title'' pg)) (\<lambda>dflt.
            bind (getattr_or ''title'' dflt) (\<lambda>t.
            raise (RedirectError t))))
       else
         bind (lift (contains ''pageprops'' pg)) (\<lambda>is_disambiguation.
         if is_disambiguation then raise_disambiguation E (PStr key) pg
         else
           bind (setattr ''pageid'' (PStr key)) (\<lambda>_.
           bind (lift (item ''title'' pg)) (\<lambda>t.
           bind (setattr ''title'' t) (\<lambda>_.
           bind (lift (item ''fullurl'' pg)) (\<lambda>u.
           setattr ''url'' u)))))))
     (self, sends w (dict_update load_params tq))"
  unfolding WikipediaPage_load.simps
  apply (subst bind_apply)
  apply (simp only: title_query_param_Return[OF tq] prod.case outcome.case)
  apply (subst bind_apply)
  apply (simp only: liftW_wiki_request[OF norl resp] prod.case outcome.case)
  apply (subst bind_apply)
  apply (simp only: q lift_Inr ret_apply prod.case outcome.case)
  apply (subst bind_apply)
  apply (simp only: pages and_then_def sum.case dict_keys.simps list.map prod.case lift_Inr ret_apply outcome.case)
  apply (simp add: list_index_def bind_apply[of "ret _"] item_def)
  done

lemma raise_disambiguation_raises:
  assumes norl: "\<not> RATE_LIMIT w"
    and tq: "fst (title_query_param (self, w)) = Return tq"
    and resp: "http_get E (length (sent w)) (API_URL w)
                 (with_format_action (dict_update disambiguation_params tq)) = Inr (Inr request)"
    and html: "and_then (and_then (and_then (and_then (and_then (item ''query'' request)
             (item ''pages'')) (\<lambda>pages. subscript pages pageid)) (item ''revisions'')) first)
             (item ''*'') = Inr html"
    and lis: "find_all_li E html = Inr lis"
    and details: "traverse one_disambiguation (filtered_lis lis) = Inr details"
    and dflt: "item ''title'' pg = Inr dflt"
  shows "raise_disambiguation E pageid pg (self, w) =
     (Raise (DisambiguationError (case self ''title'' of None \<Rightarrow> dflt | Some t \<Rightarrow> t)
        (may_refer_to (filtered_lis lis)) details),
      (self, sends w (dict_update disambiguation_params tq)))"
  unfolding raise_disambiguation_def
  apply (subst bind_apply)
  apply (simp only: title_query_param_Return[OF tq] prod.case outcome.case)
  apply (subst bind_apply)
  apply (simp only: liftW_wiki_request[OF norl resp] prod.case outcome.case)
  apply (simp add: html lis details dflt bind_apply)
  done

lemma sends_rate_limit: "RATE_LIMIT (sends w params) = RATE_LIMIT w"
  by (simp add: sends_def)

text \<open>
  The four branches of \<open>WikipediaPage_load\<close> on a response with a query section and a page
  entry.
\<close>

lemma load_branches:
  assumes norl: "\<not> RATE_LIMIT w"
    and tq: "fst (title_query_param (self, w)) = Return tq"
    and resp: "http_get E (length (sent w)) (API_URL w)
                 (with_format_action (dict_update load_params tq)) = Inr (Inr request)"
    and q: "item ''query'' request = Inr query"
    and pages: "item ''pages'' query = Inr (PDict ((key, pg) # others))"
    and w1: "w1 = sends w (dict_update load_params tq)"
  shows "(contains ''missing'' pg = Inr True \<longrightarrow>
            (\<forall>t. self ''title'' = Some t \<and> truthy t \<longrightarrow>
               WikipediaPage_load n E redirect preload (self, w)
                 = (Raise (PageError (Some t) None), (self, w1)))
          \<and> (\<forall>p. self ''title'' = None \<and> self ''pageid'' = Some p \<and> truthy p \<longrightarrow>
               WikipediaPage_load n E redirect preload (self, w)
                 = (Raise (PageError (Some p) None), (self, w1))))
       \<and> (contains ''missing'' pg = Inr False \<and> contains ''redirects'' query = Inr True \<longrightarrow>
            (redirect \<longrightarrow>
               WikipediaPage_load n E redirect preload (self, w)
                 = bind (redirect_target query) (\<lambda>target.
                     WikipediaPage_init n E target PNone redirect preload (PStr '''')) (self, w1))
          \<and> (\<not> redirect \<longrightarrow> (\<forall>dflt. item ''title'' pg = Inr dflt \<longrightarrow>
               WikipediaPage_load n E redirect preload (self, w)
                 = (Raise (RedirectError (case self ''title'' of None \<Rightarrow> dflt | Some t \<Rightarrow> t)),
                    (self, w1)))))
       \<and> (contains ''missing'' pg = Inr False \<and> contains ''redirects'' query = Inr False
          \<and> contains ''pageprops'' pg = Inr True \<longrightarrow>
            WikipediaPage_load n E redirect preload (self, w)
              = raise_disambiguation E (PStr key) pg (self, w1)
          \<and> (\<forall>request2 html lis details dflt.
                http_get E (length (sent w1)) (API_URL w1)
                  (with_format_action (dict_update disambiguation_params tq)) = Inr (Inr request2)
              \<and> and_then (and_then (and_then (and_then (and_then (item ''query'' request2)
                    (item ''pages'')) (\<lambda>pages. subscript pages (PStr key))) (item ''revisions''))
                    first) (item ''*'') = Inr html
              \<and> find_all_li E html = Inr lis
              \<and> traverse one_disambiguation (filtered_lis lis) = Inr details
              \<and> item ''title'' pg = Inr dflt
              \<longrightarrow>
                WikipediaPage_load n E redirect preload (self, w)
                  = (Raise (DisambiguationError (case self ''title'' of None \<Rightarrow> dflt | Some t \<Rightarrow> t)
                       (may_refer_to (filtered_lis lis)) details),
                     (self, sends w1 (dict_update disambiguation_params tq)))))
       \<and> (contains ''missing'' pg = Inr False \<and> contains ''redirects'' query = Inr False
          \<and> contains ''pageprops'' pg = Inr False \<longrightarrow>
            (\<forall>t u. item ''title'' pg = Inr t \<and> item ''fullurl'' pg = Inr u \<longrightarrow>
               WikipediaPage_load n E redirect preload (self, w)
                 = (Return (), (self(''pageid'' \<mapsto> PStr key, ''title'' \<mapsto> t, ''url'' \<mapsto> u), w1))))"
proof -
  note entry = load_entry[OF norl tq resp q pages, of n redirect preload, folded w1]
  have tq1: "fst (title_query_param (self, w1)) = Return tq"
    using tq by (simp add: title_query_param_apply split: option.splits if_splits)
  have norl1: "\<not> RATE_LIMIT w1" using norl w1 by (simp add: sends_rate_limit)
  have tqc: "self ''title'' = None \<Longrightarrow> self ''pageid'' \<noteq> None"
    using tq by (auto simp: title_query_param_apply split: option.splits if_splits)
  show ?thesis
  proof (intro conjI impI allI)
    fix t assume "contains ''missing'' pg = Inr True" "self ''title'' = Some t \<and> truthy t"
    then show "WikipediaPage_load n E redirect preload (self, w) = (Raise (PageError (Some t) None), (self, w1))"
      by (simp add: entry bind_apply PageError_init_def)
  next
    fix p assume "contains ''missing'' pg = Inr True" "self ''title'' = None \<and> self ''pageid'' = Some p \<and> truthy p"
    then show "WikipediaPage_load n E redirect preload (self, w) = (Raise (PageError (Some p) None), (self, w1))"
      by (simp add: entry bind_apply PageError_init_def)
  next
    assume "contains ''missing'' pg = Inr False \<and> contains ''redirects'' query = Inr True" redirect
    then show "WikipediaPage_load n E redirect preload (self, w)
                 = bind (redirect_target query) (\<lambda>target.
                     WikipediaPage_init n E target PNone redirect preload (PStr '''')) (self, w1)"
      unfolding entry by (simp add: bind_apply[of "ret _"])
  next
    fix dflt
    assume "contains ''missing'' pg = Inr False \<and> contains ''redirects'' query = Inr True"
      "\<not> redirect" "item ''title'' pg = Inr dflt"
    then show "WikipediaPage_load n E redirect preload (self, w)
                 = (Raise (RedirectError (case self ''title'' of None \<Rightarrow> dflt | Some t \<Rightarrow> t)), (self, w1))"
      unfolding entry by (simp add: bind_apply)
  next
    assume a: "contains ''missing'' pg = Inr False \<and> contains ''redirects'' query = Inr False
          \<and> contains ''pageprops'' pg = Inr True"
    then show d: "WikipediaPage_load n E redirect preload (self, w)
              = raise_disambiguation E (PStr key) pg (self, w1)"
      by (simp add: entry bind_apply[of "ret _"])
    fix request2 html lis details dflt
    assume b: "http_get E (length (sent w1)) (API_URL w1)
                  (with_format_action (dict_update disambiguation_params tq)) = Inr (Inr request2)
              \<and> and_then (and_then (and_then (and_then (and_then (item ''query'' request2)
                    (item ''pages'')) (\<lambda>pages. subscript pages (PStr key))) (item ''revisions''))
                    first) (item ''*'') = Inr html
              \<and> find_all_li E html = Inr lis
              \<and> traverse one_disambiguation (filtered_lis lis) = Inr details
              \<and> item ''title'' pg = Inr dflt"
    show "WikipediaPage_load n E redirect preload (self, w)
                  = (Raise (DisambiguationError (case self ''title'' of None \<Rightarrow> dflt | Some t \<Rightarrow> t)
                       (may_refer_to (filtered_lis lis)) details),
                     (self, sends w1 (dict_update disambiguation_params tq)))"
      unfolding d
      using raise_disambiguation_raises[of w1 self tq E request2 "PStr key" html lis details pg dflt]
        norl1 tq1 b by simp
  next
    fix t u
    assume "contains ''missing'' pg = Inr False \<and> contains ''redirects'' query = Inr False
          \<and> contains ''pageprops'' pg = Inr False" "item ''title'' pg = Inr t \<and> item ''fullurl'' pg = Inr u"
    then show "WikipediaPage_load n E redirect preload (self, w)
                 = (Return (), (self(''pageid'' \<mapsto> PStr key, ''title'' \<mapsto> t, ''url'' \<mapsto> u), w1))"
      by (simp add: entry bind_apply)
  qed
qed

text \<open>
  C2, as amended.  With rate limiting off, let the response to the page-info request
  have a query section whose pages start with the entry \<open>pg\<close> under \<open>key\<close>.  Then
  \<open>WikipediaPage_load\<close> does exactly one of four things, tested in this order.
  (1) \<open>pg\<close> has \<^verbatim>\<open>missing\<close>: it raises \<open>PageError\<close> for the page's truthy title, or for its
  truthy id when it has no title.  (2) Otherwise the query has \<^verbatim>\<open>redirects\<close>: it runs the
  constructor on the redirect target when redirects are followed, and raises
  \<open>RedirectError\<close> when they are not (and \<open>pg\<close> has a title).  (3) Otherwise \<open>pg\<close> has
  \<^verbatim>\<open>pageprops\<close>: it enters the disambiguation branch, which raises
  \<open>DisambiguationError\<close> once the second response yields the parsed page and every
  remaining list item yields a record.  (4) Otherwise it stores the key as
  \<^verbatim>\<open>pageid\<close> and the entry's \<^verbatim>\<open>title\<close> and \<^verbatim>\<open>fullurl\<close> as title and URL, when the
  entry has them.
\<close>

theorem C2_load_branches:
  assumes norl: "\<not> RATE_LIMIT w"
    and tq: "fst (title_query_param (self, w)) = Return tq"
    and resp: "http_get E (length (sent w)) (API_URL w)
                 (with_format_action (dict_update load_params tq)) = Inr (Inr request)"
    and q: "item ''query'' request = Inr query"
    and pages: "item ''pages'' query = Inr (PDict ((key, pg) # others))"
    and w1: "w1 = sends w (dict_update load_params tq)"
  shows "(contains ''missing'' pg = Inr True \<longrightarrow>
            (\<forall>t. self ''title'' = Some t \<and> truthy t \<longrightarrow>
               WikipediaPage_load n E redirect preload (self, w)
                 = (Raise (PageError (Some t) None), (self, w1)))
          \<and> (\<forall>p. self ''title'' = None \<and> self ''pageid'' = Some p \<and> truthy p \<longrightarrow>
               WikipediaPage_load n E redirect preload (self, w)
                 = (Raise (PageError (Some p) None), (self, w1))))
       \<and> (contains ''missing'' pg = Inr False \<and> contains ''redirects'' query = Inr True \<longrightarrow>
            (redirect \<longrightarrow>
               WikipediaPage_load n E redirect preload (self, w)
                 = bind (redirect_target query) (\<lambda>target.
                     WikipediaPage_init n E target PNone redirect preload (PStr '''')) (self, w1))
          \<and> (\<not> redirect \<longrightarrow> (\<forall>dflt. item ''title'' pg = Inr dflt \<longrightarrow>
               WikipediaPage_load n E redirect preload (self, w)
                 = (Raise (RedirectError (case self ''title'' of None \<Rightarrow> dflt | Some t \<Rightarrow> t)),
                    (self, w1)))))
       \<and> (contains ''missing'' pg = Inr False \<and> contains ''redirects'' query = Inr False
          \<and> contains ''pageprops'' pg = Inr True \<longrightarrow>
            WikipediaPage_load n E redirect preload (self, w)
              = raise_disambiguation E (PStr key) pg (self, w1)
          \<and> (\<forall>request2 html lis details dflt.
                http_get E (length (sent w1)) (API_URL w1)
                  (with_format_action (dict_update disambiguation_params tq)) = Inr (Inr request2)
              \<and> and_then (and_then (and_then (and_then (and_then (item ''query'' request2)
                    (item ''pages'')) (\<lambda>pages. subscript pages (PStr key))) (item ''revisions''))
                    first) (item ''*'') = Inr html
              \<and> find_all_li E html = Inr lis
              \<and> traverse one_disambiguation (filtered_lis lis) = Inr details
              \<and> item ''title'' pg = Inr dflt
              \<longrightarrow>
                WikipediaPage_load n E redirect preload (self, w)
                  = (Raise (DisambiguationError (case self ''title'' of None \<Rightarrow> dflt | Some t \<Rightarrow> t)
                       (may_refer_to (filtered_lis lis)) details),
                     (self, sends w1 (dict_update disambiguation_params tq)))))
       \<and> (contains ''missing'' pg = Inr False \<and> contains ''redirects'' query = Inr False
          \<and> contains ''pageprops'' pg = Inr False \<longrightarrow>
            (\<forall>t u. item ''title'' pg = Inr t \<and> item ''fullurl'' pg = Inr u \<longrightarrow>
               WikipediaPage_load n E redirect preload (self, w)
                 = (Return (), (self(''pageid'' \<mapsto> PStr key, ''title'' \<mapsto> t, ''url'' \<mapsto> u), w1))))"
  using assms by (rule load_branches)

lemma fixture_facts:
  "\<not> RATE_LIMIT known_site" "sent known_site = []" "API_URL known_site = API_URL initial_world"
  "API_VERSION_MAJOR_MINOR known_site = Some [1, 28]"
  by (simp_all add: known_site_def initial_world_def)

lemma titled_tq: "fst (title_query_param (titled t, w)) = Return [(''titles'', PStr t)]"
  by (simp add: titled_def title_query_param_apply)

lemma fake_get: "http_get fake_ext k url params = Inr (Inr (fake_wiki params))"
  by (simp add: fake_ext_def)

lemma fake_load:
  "fake_wiki (with_format_action (dict_update load_params [(''titles'', t)])) = fake_page (Some t)"
  by (simp add: fake_wiki_def with_format_action_def load_params_def)

theorem C2_load_branches_witness:
  "WikipediaPage_load 0 fake_ext True False (titled ''Gamma'', known_site)
     = (Return (), ((titled ''Gamma'')(''pageid'' \<mapsto> PStr ''13'', ''title'' \<mapsto> PStr ''Gamma'',
           ''url'' \<mapsto> PStr ''http://en.wikipedia.org/wiki/Gamma''),
         sends known_site (dict_update load_params [(''titles'', PStr ''Gamma'')])))"
proof -
  let ?pg = "snd (plain_entry ''13'' ''Gamma'')"
  let ?query = "PDict [(''pages'', PDict [plain_entry ''13'' ''Gamma''])]"
  have resp: "http_get fake_ext (length (sent known_site)) (API_URL known_site)
       (with_format_action (dict_update load_params [(''titles'', PStr ''Gamma'')]))
     = Inr (Inr (PDict [(''query'', ?query)]))"
    by (simp only: fake_get fake_load) (simp add: fake_page_def)
  have q: "item ''query'' (PDict [(''query'', ?query)]) = Inr ?query"
    by (simp add: item_def)
  have pages: "item ''pages'' ?query = Inr (PDict ((''13'', ?pg) # []))"
    by (simp add: item_def plain_entry_def)
  have pg: "contains ''missing'' ?pg = Inr False \<and> contains ''redirects'' ?query = Inr False
          \<and> contains ''pageprops'' ?pg = Inr False"
    by (simp add: plain_entry_def)
  have tu: "item ''title'' ?pg = Inr (PStr ''Gamma'')
      \<and> item ''fullurl'' ?pg = Inr (PStr ''http://en.wikipedia.org/wiki/Gamma'')"
    by (simp add: plain_entry_def item_def)
  show ?thesis
    by (rule C2_load_branches[OF fixture_facts(1) titled_tq resp q pages refl,
        THEN conjunct2, THEN conjunct2, THEN conjunct2, rule_format, OF pg tu])
qed

text \<open>
  The claim as stated fails: the entry the API returns for a title that is not valid has
  neither \<^verbatim>\<open>missing\<close> nor \<^verbatim>\<open>fullurl\<close>, so the fourth branch is taken and no URL can be
  stored; the call ends in \<open>KeyError\<close>.
\<close>

theorem C2_invalid_title_counterexample:
  "fst (WikipediaPage_load 0 fake_ext True False (titled ''<'', known_site))
     = Raise (KeyError (PStr ''fullurl''))"
proof -
  let ?pg = "PDict [(''title'', PStr ''<''),
           (''invalidreason'', PStr ''The requested page title contains invalid characters''),
           (''invalid'', PStr '''')]"
  let ?query = "PDict [(''pages'', PDict [(''-1'', ?pg)])]"
  have resp: "http_get fake_ext (length (sent known_site)) (API_URL known_site)
       (with_format_action (dict_update load_params [(''titles'', PStr ''<'')]))
     = Inr (Inr (PDict [(''query'', ?query)]))"
    by (simp only: fake_get fake_load) (simp add: fake_page_def)
  have q: "item ''query'' (PDict [(''query'', ?query)]) = Inr ?query"
    by (simp add: item_def)
  have pages: "item ''pages'' ?query = Inr (PDict ((''-1'', ?pg) # []))"
    by (simp add: item_def)
  show ?thesis
    unfolding load_entry[OF fixture_facts(1) titled_tq resp q pages]
    by (simp add: bind_apply item_def)
qed

lemma init_known_site:
  assumes "API_VERSION_MAJOR_MINOR w \<noteq> None" and "title \<noteq> PNone"
  shows "WikipediaPage_init (Suc m) E title PNone redirect preload ot (self, w) =
     bind (WikipediaPage_load m E redirect preload)
       (\<lambda>_. if preload then preload_properties (Suc m) E else ret ())
       (self(''title'' \<mapsto> title, ''original_title'' \<mapsto> (if truthy ot then ot else title)), w)"
  using assms
  by (auto simp: bind_def get_state_def liftW_def ret_def setattr_def)

lemma redirect_target_plain:
  assumes "and_then (item ''redirects'' query) first = Inr rd"
    and "contains ''normalized'' query = Inr False"
    and "self ''title'' = Some title" and "truthy title"
    and "item ''from'' rd = Inr title" and "item ''to'' rd = Inr target"
  shows "redirect_target query (self, w) = (Return target, (self, w))"
  using assms by (simp add: redirect_target_def bind_apply)

lemma redirect_target_normalized:
  assumes "and_then (item ''redirects'' query) first = Inr rd"
    and "contains ''normalized'' query = Inr True"
    and "and_then (item ''normalized'' query) first = Inr nm"
    and "self ''title'' = Some title"
    and "item ''from'' nm = Inr title" and "item ''to'' nm = Inr nto"
    and "item ''from'' rd = Inr nto" and "item ''to'' rd = Inr target"
  shows "redirect_target query (self, w) = (Return target, (self, w))"
  using assms by (simp add: redirect_target_def bind_apply)


lemma first_entry_Some:
  assumes "first_entry request = Some (query, key, pg)"
  shows "\<exists>others. item ''query'' request = Inr query \<and> item ''pages'' query = Inr (PDict ((key, pg) # others))"
  using assms
  by (auto simp: first_entry_def split: sum.splits pyval.splits list.splits)

lemma titled_attr_tq:
  assumes "self ''title'' = Some A" and "truthy A"
  shows "fst (title_query_param (self, w)) = Return [(''titles'', A)]"
  using assms by (auto simp: title_query_param_apply)

lemma load_follows_redirect:
  assumes norl: "\<not> RATE_LIMIT w"
    and title: "self ''title'' = Some A" "truthy A"
    and resp: "http_get E (length (sent w)) (API_URL w)
                 (with_format_action (dict_update load_params [(''titles'', A)])) = Inr (Inr r)"
    and r: "redirect_response r A B"
  shows "WikipediaPage_load n E True preload (self, w) =
           WikipediaPage_init n E B PNone True preload (PStr '''')
             (self, sends w (dict_update load_params [(''titles'', A)]))"
proof -
  from r obtain query key pg where fe: "first_entry r = Some (query, key, pg)"
    and c: "contains ''missing'' pg = Inr False" "contains ''redirects'' query = Inr True"
      "contains ''normalized'' query = Inr False"
    and ft: "and_then (and_then (item ''redirects'' query) first) (item ''from'') = Inr A"
      "and_then (and_then (item ''redirects'' query) first) (item ''to'') = Inr B"
    by (auto simp: redirect_response_def split: option.splits)
  from ft obtain rd where rd: "and_then (item ''redirects'' query) first = Inr rd"
    "item ''from'' rd = Inr A" "item ''to'' rd = Inr B"
    by (auto simp: and_then_def split: sum.splits)
  from first_entry_Some[OF fe] obtain others where q: "item ''query'' r = Inr query"
    and pages: "item ''pages'' query = Inr (PDict ((key, pg) # others))" by blast
  have "redirect_target query (self, sends w (dict_update load_params [(''titles'', A)]))
      = (Return B, (self, sends w (dict_update load_params [(''titles'', A)])))"
    using redirect_target_plain[of query rd self A B] rd c title by simp
  with load_branches[OF norl titled_attr_tq[of self A w, OF title] resp q pages refl, THEN conjunct2,
      THEN conjunct1, rule_format, OF conjI[OF c(1) c(2)], of True n preload, THEN conjunct1]
  show ?thesis by (simp add: bind_apply)
qed

lemma load_plain:
  assumes norl: "\<not> RATE_LIMIT w"
    and title: "self ''title'' = Some A" "truthy A"
    and resp: "http_get E (length (sent w)) (API_URL w)
                 (with_format_action (dict_update load_params [(''titles'', A)])) = Inr (Inr r)"
    and r: "plain_response r key t u"
  shows "WikipediaPage_load n E redirect preload (self, w) =
           (Return (), (self(''pageid'' \<mapsto> PStr key, ''title'' \<mapsto> t, ''url'' \<mapsto> u),
              sends w (dict_update load_params [(''titles'', A)])))"
proof -
  from r obtain query pg where fe: "first_entry r = Some (query, key, pg)"
    and c: "contains ''missing'' pg = Inr False \<and> contains ''redirects'' query = Inr False
        \<and> contains ''pageprops'' pg = Inr False"
    and tu: "item ''title'' pg = Inr t \<and> item ''fullurl'' pg = Inr u"
    by (auto simp: plain_response_def split: option.splits)
  from first_entry_Some[OF fe] obtain others where q: "item ''query'' r = Inr query"
    and pages: "item ''pages'' query = Inr (PDict ((key, pg) # others))" by blast
  from load_branches[OF norl titled_attr_tq[of self A w, OF title] resp q pages refl, THEN conjunct2,
      THEN conjunct2, THEN conjunct2, rule_format, OF c tu]
  show ?thesis .
qed

lemma load_unfollowed:
  assumes norl: "\<not> RATE_LIMIT w"
    and title: "self ''title'' = Some A" "truthy A"
    and resp: "http_get E (length (sent w)) (API_URL w)
                 (with_format_action (dict_update load_params [(''titles'', A)])) = Inr (Inr r)"
    and r: "unfollowed_response r"
  shows "WikipediaPage_load n E False preload (self, w) =
           (Raise (RedirectError A), (self, sends w (dict_update load_params [(''titles'', A)])))"
proof -
  from r obtain query key pg where fe: "first_entry r = Some (query, key, pg)"
    and c: "contains ''missing'' pg = Inr False \<and> contains ''redirects'' query = Inr True"
    and t: "\<not> isl (item ''title'' pg)"
    by (auto simp: unfollowed_response_def split: option.splits)
  from t obtain dflt where dflt: "item ''title'' pg = Inr dflt" by (cases "item ''title'' pg") auto
  from first_entry_Some[OF fe] obtain others where q: "item ''query'' r = Inr query"
    and pages: "item ''pages'' query = Inr (PDict ((key, pg) # others))" by blast
  from load_branches[OF norl titled_attr_tq[of self A w, OF title] resp q pages refl, THEN conjunct2,
      THEN conjunct1, rule_format, OF c, of False n preload, THEN conjunct2, rule_format, OF _ dflt]
    title
  show ?thesis by simp
qed

lemma sends_facts [simp]:
  "API_VERSION_MAJOR_MINOR (sends w params) = API_VERSION_MAJOR_MINOR w"
  "length (sent (sends w params)) = Suc (length (sent w))"
  by (simp_all add: sends_def)

text \<open>
  C4, as amended.  The site is known, rate limiting is off and \<open>A\<close> is a truthy title.
  If \<open>A\<close> redirects to \<open>B\<close>, \<open>B\<close> to \<open>C\<close> and \<open>C\<close> is an ordinary page, the constructor
  with redirects followed, given fuel for three runs, returns with the id, title and URL
  of \<open>C\<close>'s entry after exactly three requests.  If the first response has a redirect
  and its entry is not marked missing, the constructor with redirects not followed
  raises \<open>RedirectError\<close> for \<open>A\<close> after exactly one request.
\<close>

theorem C4_redirect_chain:
  assumes norl: "\<not> RATE_LIMIT w" and site: "API_VERSION_MAJOR_MINOR w \<noteq> None"
    and A: "truthy A"
    and r1: "http_get E (length (sent w)) (API_URL w) (load_request A) = Inr (Inr r1)"
  shows "(\<forall>B C r2 r3 key t u.
            redirect_response r1 A B \<and> truthy B
          \<and> http_get E (length (sent w) + 1) (API_URL w) (load_request B) = Inr (Inr r2)
          \<and> redirect_response r2 B C \<and> truthy C
          \<and> http_get E (length (sent w) + 2) (API_URL w) (load_request C) = Inr (Inr r3)
          \<and> plain_response r3 key t u
          \<longrightarrow> (\<forall>fuel \<ge> 3. \<exists>self' w'.
                 WikipediaPage_init fuel E A PNone True False (PStr '''') (self, w)
                   = (Return (), (self', w'))
               \<and> self' ''pageid'' = Some (PStr key) \<and> self' ''title'' = Some t
               \<and> self' ''url'' = Some u
               \<and> sent w' = sent w @ [(API_URL w, load_request A),
                                       (API_URL w, load_request B),
                                       (API_URL w, load_request C)]))
       \<and> (unfollowed_response r1 \<longrightarrow>
            (\<forall>fuel \<ge> 1. \<forall>preload. \<exists>self' w'.
                 WikipediaPage_init fuel E A PNone False preload (PStr '''') (self, w)
                   = (Raise (RedirectError A), (self', w'))
               \<and> sent w' = sent w @ [(API_URL w, load_request A)]))"
proof (intro conjI allI impI)
  fix B C r2 r3 key t u and fuel :: nat
  assume h: "redirect_response r1 A B \<and> truthy B
          \<and> http_get E (length (sent w) + 1) (API_URL w) (load_request B) = Inr (Inr r2)
          \<and> redirect_response r2 B C \<and> truthy C
          \<and> http_get E (length (sent w) + 2) (API_URL w) (load_request C) = Inr (Inr r3)
          \<and> plain_response r3 key t u"
    and "3 \<le> fuel"
  then obtain k where fuel: "fuel = Suc (Suc (Suc k))"
    by (metis Suc_le_D numeral_3_eq_3 Suc_le_mono)
  have ne: "A \<noteq> PNone" "B \<noteq> PNone" "C \<noteq> PNone" using A h by auto
  let ?s1 = "self(''title'' \<mapsto> A, ''original_title'' \<mapsto> A)"
  let ?w1 = "sends w (dict_update load_params [(''titles'', A)])"
  let ?s2 = "?s1(''title'' \<mapsto> B, ''original_title'' \<mapsto> B)"
  let ?w2 = "sends ?w1 (dict_update load_params [(''titles'', B)])"
  let ?s3 = "?s2(''title'' \<mapsto> C, ''original_title'' \<mapsto> C)"
  let ?w3 = "sends ?w2 (dict_update load_params [(''titles'', C)])"
  have 1: "WikipediaPage_init fuel E A PNone True False (PStr '''') (self, w)
      = WikipediaPage_load (Suc (Suc k)) E True False (?s1, w)"
    unfolding fuel using init_known_site[OF site ne(1), of "Suc (Suc k)" E True False "PStr ''''" self]
    by (simp add: bind_apply split: prod.splits outcome.splits)
  have 2: "WikipediaPage_load (Suc (Suc k)) E True False (?s1, w)
      = WikipediaPage_init (Suc (Suc k)) E B PNone True False (PStr '''') (?s1, ?w1)"
    using load_follows_redirect[of w ?s1 A E r1 B "Suc (Suc k)" False] norl A r1 h by (simp add: load_request_def)
  have 3: "WikipediaPage_init (Suc (Suc k)) E B PNone True False (PStr '''') (?s1, ?w1)
      = WikipediaPage_load (Suc k) E True False (?s2, ?w1)"
    using init_known_site[of ?w1 B "Suc k" E True False "PStr ''''" ?s1] site ne
    by (simp add: bind_apply split: prod.splits outcome.splits)
  have 4: "WikipediaPage_load (Suc k) E True False (?s2, ?w1)
      = WikipediaPage_init (Suc k) E C PNone True False (PStr '''') (?s2, ?w2)"
    using load_follows_redirect[of ?w1 ?s2 B E r2 C "Suc k" False] norl h by (simp add: sends_rate_limit load_request_def)
  have 5: "WikipediaPage_init (Suc k) E C PNone True False (PStr '''') (?s2, ?w2)
      = WikipediaPage_load k E True False (?s3, ?w2)"
    using init_known_site[of ?w2 C k E True False "PStr ''''" ?s2] site ne
    by (simp add: bind_apply split: prod.splits outcome.splits)
  have 6: "WikipediaPage_load k E True False (?s3, ?w2)
      = (Return (), (?s3(''pageid'' \<mapsto> PStr key, ''title'' \<mapsto> t, ''url'' \<mapsto> u), ?w3))"
    using load_plain[of ?w2 ?s3 C E r3 key t u k True False] norl h by (simp add: sends_rate_limit load_request_def)
  show "\<exists>self' w'.
                 WikipediaPage_init fuel E A PNone True False (PStr '''') (self, w)
                   = (Return (), (self', w'))
               \<and> self' ''pageid'' = Some (PStr key) \<and> self' ''title'' = Some t
               \<and> self' ''url'' = Some u
               \<and> sent w' = sent w @ [(API_URL w, load_request A),
                                       (API_URL w, load_request B),
                                       (API_URL w, load_request C)]"
    unfolding 1 2 3 4 5 6
    by (rule exI[of _ "?s3(''pageid'' \<mapsto> PStr key, ''title'' \<mapsto> t, ''url'' \<mapsto> u)"],
        rule exI[of _ ?w3]) (simp add: load_request_def)
next
  fix fuel :: nat and preload
  assume u: "unfollowed_response r1" and "1 \<le> fuel"
  then obtain k where fuel: "fuel = Suc k" by (metis Suc_le_D One_nat_def)
  let ?s1 = "self(''title'' \<mapsto> A, ''original_title'' \<mapsto> A)"
  have ne: "A \<noteq> PNone" using A by auto
  have 1: "WikipediaPage_load k E False preload (?s1, w)
      = (Raise (RedirectError A), (?s1, sends w (dict_update load_params [(''titles'', A)])))"
    using load_unfollowed[of w ?s1 A E r1 k preload] norl A r1 u by (simp add: load_request_def)
  have "WikipediaPage_init fuel E A PNone False preload (PStr '''') (self, w)
      = (Raise (RedirectError A), (?s1, sends w (dict_update load_params [(''titles'', A)])))"
    unfolding fuel init_known_site[OF site ne, of k E False preload "PStr ''''" self]
    by (simp add: bind_apply 1)
  then show "\<exists>self' w'.
                 WikipediaPage_init fuel E A PNone False preload (PStr '''') (self, w)
                   = (Raise (RedirectError A), (self', w'))
               \<and> sent w' = sent w @ [(API_URL w, load_request A)]"
    by (intro exI[of _ ?s1] exI[of _ "sends w (dict_update load_params [(''titles'', A)])"])
      (simp add: load_request_def)
qed

lemma init_load_raises:
  assumes "API_VERSION_MAJOR_MINOR w \<noteq> None" and "title \<noteq> PNone"
    and "WikipediaPage_load m E redirect preload
           (self(''title'' \<mapsto> title, ''original_title'' \<mapsto> title), w) = (Raise e, s')"
  shows "WikipediaPage_init (Suc m) E title PNone redirect preload (PStr '''') (self, w) = (Raise e, s')"
  unfolding init_known_site[OF assms(1,2)] using assms(3) by (simp add: bind_apply)

lemma load_missing:
  assumes norl: "\<not> RATE_LIMIT w"
    and title: "self ''title'' = Some A" "truthy A"
    and resp: "http_get E (length (sent w)) (API_URL w)
                 (with_format_action (dict_update load_params [(''titles'', A)])) = Inr (Inr r)"
    and fe: "first_entry r = Some (query, key, pg)"
    and m: "contains ''missing'' pg = Inr True"
  shows "WikipediaPage_load n E redirect preload (self, w) =
           (Raise (PageError (Some A) None), (self, sends w (dict_update load_params [(''titles'', A)])))"
proof -
  from first_entry_Some[OF fe] obtain others where q: "item ''query'' r = Inr query"
    and pages: "item ''pages'' query = Inr (PDict ((key, pg) # others))" by blast
  from load_branches[OF norl titled_attr_tq[of self A w, OF title] resp q pages refl, THEN conjunct1,
      rule_format, OF m, of n redirect preload, THEN conjunct1, rule_format, of A] title
  show ?thesis by simp
qed

lemma fake_first_entry:
  "first_entry (fake_page (Some (PStr ''Nonexistent''))) =
     Some (PDict [(''pages'', PDict [(''-1'', PDict [(''title'', PStr ''Nonexistent''), (''missing'', PStr '''')])])],
           ''-1'', PDict [(''title'', PStr ''Nonexistent''), (''missing'', PStr '''')])"
  "first_entry (fake_page (Some (PStr ''Orphan''))) =
     Some (PDict [(''redirects'', PList [PDict [(''from'', PStr ''Orphan''), (''to'', PStr ''Deleted'')]]),
                  (''pages'', PDict [(''-1'', PDict [(''title'', PStr ''Deleted''), (''missing'', PStr '''')])])],
           ''-1'', PDict [(''title'', PStr ''Deleted''), (''missing'', PStr '''')])"
  by (simp_all add: first_entry_def fake_page_def item_def)

lemma fake_responses:
  "redirect_response (fake_page (Some (PStr ''Alpha''))) (PStr ''Alpha'') (PStr ''Beta'')"
  "redirect_response (fake_page (Some (PStr ''Beta''))) (PStr ''Beta'') (PStr ''Gamma'')"
  "plain_response (fake_page (Some (PStr ''Gamma''))) ''13'' (PStr ''Gamma'')
     (PStr ''http://en.wikipedia.org/wiki/Gamma'')"
  "unfollowed_response (fake_page (Some (PStr ''Alpha'')))"
  by (simp_all add: redirect_response_def plain_response_def unfollowed_response_def
      first_entry_def fake_page_def item_def first_def and_then_def plain_entry_def list_index_def)

lemma fake_request: "http_get fake_ext k url (load_request t) = Inr (Inr (fake_page (Some t)))"
  by (simp only: fake_get load_request_def fake_load)

lemma fresh_tq: "(Map.empty(''title'' \<mapsto> A, ''original_title'' \<mapsto> A)) ''title'' = Some A"
  by simp

text \<open>
  C9.  Resolving the title \<open>Nonexistent\<close>, which the remote marks missing, raises a
  \<open>PageError\<close> whose \<^verbatim>\<open>pageid\<close> attribute is the title and whose \<^verbatim>\<open>title\<close> attribute
  is not set: \<^verbatim>\<open>raise PageError(self.title)\<close> passes the title in the place of the
  constructor's first parameter, \<^verbatim>\<open>pageid\<close>.
\<close>

theorem C9_missing_title_evaluation:
  "fst (WikipediaPage_init 1 fake_ext (PStr ''Nonexistent'') PNone True False (PStr '''')
          (Map.empty, known_site))
     = Raise (PageError (Some (PStr ''Nonexistent'')) None)"
proof -
  have "WikipediaPage_load 0 fake_ext True False
      (Map.empty(''title'' \<mapsto> PStr ''Nonexistent'', ''original_title'' \<mapsto> PStr ''Nonexistent''), known_site)
    = (Raise (PageError (Some (PStr ''Nonexistent'')) None),
       (Map.empty(''title'' \<mapsto> PStr ''Nonexistent'', ''original_title'' \<mapsto> PStr ''Nonexistent''),
        sends known_site (dict_update load_params [(''titles'', PStr ''Nonexistent'')])))"
    using load_missing[of known_site "Map.empty(''title'' \<mapsto> PStr ''Nonexistent'', ''original_title'' \<mapsto> PStr ''Nonexistent'')"
        "PStr ''Nonexistent''" fake_ext "fake_page (Some (PStr ''Nonexistent''))" _ _ _ 0 True False]
      fixture_facts(1) fake_request[unfolded load_request_def] fake_first_entry(1)
    by simp
  then show ?thesis
    unfolding One_nat_def
    by (subst init_load_raises[of known_site "PStr ''Nonexistent''" 0 fake_ext _ False Map.empty])
       (simp_all add: fixture_facts)
qed

theorem C4_redirect_chain_witness:
  "(\<exists>self' w'. WikipediaPage_init 3 fake_ext (PStr ''Alpha'') PNone True False (PStr '''')
        (Map.empty, known_site) = (Return (), (self', w'))
      \<and> self' ''pageid'' = Some (PStr ''13'') \<and> self' ''title'' = Some (PStr ''Gamma'')
      \<and> self' ''url'' = Some (PStr ''http://en.wikipedia.org/wiki/Gamma'')
      \<and> sent w' = [(API_URL known_site, load_request (PStr ''Alpha'')),
                    (API_URL known_site, load_request (PStr ''Beta'')),
                    (API_URL known_site, load_request (PStr ''Gamma''))])
   \<and> (\<exists>self' w'. WikipediaPage_init 1 fake_ext (PStr ''Alpha'') PNone False False (PStr '''')
        (Map.empty, known_site) = (Raise (RedirectError (PStr ''Alpha'')), (self', w'))
      \<and> sent w' = [(API_URL known_site, load_request (PStr ''Alpha''))])"
proof -
  have site: "API_VERSION_MAJOR_MINOR known_site \<noteq> None" by (simp add: fixture_facts)
  have A: "truthy (PStr ''Alpha'')" by simp
  note t = C4_redirect_chain[OF fixture_facts(1) site A fake_request, of Map.empty]
  have "\<exists>self' w'. WikipediaPage_init 3 fake_ext (PStr ''Alpha'') PNone True False (PStr '''')
        (Map.empty, known_site) = (Return (), (self', w'))
      \<and> self' ''pageid'' = Some (PStr ''13'') \<and> self' ''title'' = Some (PStr ''Gamma'')
      \<and> self' ''url'' = Some (PStr ''http://en.wikipedia.org/wiki/Gamma'')
      \<and> sent w' = sent known_site @ [(API_URL known_site, load_request (PStr ''Alpha'')),
                    (API_URL known_site, load_request (PStr ''Beta'')),
                    (API_URL known_site, load_request (PStr ''Gamma''))]"
    using t[THEN conjunct1, rule_format, of "PStr ''Beta''" "fake_page (Some (PStr ''Beta''))"
        "PStr ''Gamma''" "fake_page (Some (PStr ''Gamma''))" "''13''" "PStr ''Gamma''"
        "PStr ''http://en.wikipedia.org/wiki/Gamma''" 3]
    by (simp add: fake_responses fake_request)
  moreover have "\<exists>self' w'. WikipediaPage_init 1 fake_ext (PStr ''Alpha'') PNone False False (PStr '''')
        (Map.empty, known_site) = (Raise (RedirectError (PStr ''Alpha'')), (self', w'))
      \<and> sent w' = sent known_site @ [(API_URL known_site, load_request (PStr ''Alpha''))]"
    using t[THEN conjunct2, rule_format, of 1 False] by (simp add: fake_responses)
  ultimately show ?thesis by (simp add: fixture_facts)
qed

text \<open>
  The claim as stated fails: a redirect to a page that does not exist is answered with a
  redirect and an entry marked missing, and the missing mark is tested first.
\<close>

theorem C4_redirect_to_missing_counterexample:
  "and_then (item ''query'' (fake_page (Some (PStr ''Orphan'')))) (contains ''redirects'') = Inr True
   \<and> fst (WikipediaPage_init 1 fake_ext (PStr ''Orphan'') PNone False False (PStr '''')
          (Map.empty, known_site))
     = Raise (PageError (Some (PStr ''Orphan'')) None)"
proof -
  have "WikipediaPage_load 0 fake_ext False False
      (Map.empty(''title'' \<mapsto> PStr ''Orphan'', ''original_title'' \<mapsto> PStr ''Orphan''), known_site)
    = (Raise (PageError (Some (PStr ''Orphan'')) None),
       (Map.empty(''title'' \<mapsto> PStr ''Orphan'', ''original_title'' \<mapsto> PStr ''Orphan''),
        sends known_site (dict_update load_params [(''titles'', PStr ''Orphan'')])))"
    using load_missing[of known_site "Map.empty(''title'' \<mapsto> PStr ''Orphan'', ''original_title'' \<mapsto> PStr ''Orphan'')"
        "PStr ''Orphan''" fake_ext "fake_page (Some (PStr ''Orphan''))" _ _ _ 0 False False]
      fixture_facts(1) fake_request[unfolded load_request_def] fake_first_entry(2)
    by simp
  then have "fst (WikipediaPage_init 1 fake_ext (PStr ''Orphan'') PNone False False (PStr '''')
          (Map.empty, known_site)) = Raise (PageError (Some (PStr ''Orphan'')) None)"
    unfolding One_nat_def
    by (subst init_load_raises[of known_site "PStr ''Orphan''" 0 fake_ext _ False Map.empty])
       (simp_all add: fixture_facts)
  moreover have "and_then (item ''query'' (fake_page (Some (PStr ''Orphan'')))) (contains ''redirects'') = Inr True"
    by (simp add: fake_page_def item_def and_then_def)
  ultimately show ?thesis by simp
qed



section \<open>Lazy properties\<close>

lemma grows_ret [grow]: "grows c (ret x)"
  by (simp add: grows_def)

lemma grows_raise [grow]: "grows c (raise e)"
  by (simp add: grows_def)

lemma grows_lift [grow]: "grows c (lift r)"
  by (cases r) (simp_all add: grows_def)

lemma grows_bind [grow]:
  assumes "grows c m" and "\<And>x. grows c (f x)"
  shows "grows c (bind m f)"
  using assms unfolding grows_def bind_apply
  by (fastforce split: prod.splits outcome.splits)

lemma grows_if [grow]: "grows c m \<Longrightarrow> grows c m' \<Longrightarrow> grows c (if b then m else m')"
  by simp

lemma grows_Let [grow]: "(\<And>x. grows c (f x)) \<Longrightarrow> grows c (Let v f)"
  by (simp add: Let_def)

lemma grows_fetches: "fetches c m \<Longrightarrow> grows c m"
  by (simp add: fetches_def)

lemma fetches_bind1:
  assumes "fetches c m" and "\<And>x. grows c (f x)"
  shows "fetches c (bind m f)"
  unfolding fetches_def
proof (intro conjI allI impI)
  show "grows c (bind m f)" using assms by (simp add: grows_bind grows_fetches)
  fix s x s' assume "bind m f s = (Return x, s')"
  then obtain y t where "m s = (Return y, t)" "f y t = (Return x, s')"
    by (auto simp: bind_apply split: prod.splits outcome.splits)
  with assms show "c s < c s'"
    unfolding fetches_def grows_def by (meson less_le_trans)
qed

lemma fetches_bind2:
  assumes "grows c m" and "\<And>x. fetches c (f x)"
  shows "fetches c (bind m f)"
  unfolding fetches_def
proof (intro conjI allI impI)
  show "grows c (bind m f)" using assms by (simp add: grows_bind grows_fetches)
  fix s x s' assume "bind m f s = (Return x, s')"
  then obtain y t where "m s = (Return y, t)" "f y t = (Return x, s')"
    by (auto simp: bind_apply split: prod.splits outcome.splits)
  with assms show "c s < c s'"
    unfolding fetches_def grows_def by (meson le_less_trans)
qed

lemma grows_wiki_request: "grows requests (wiki_request E params)"
  unfolding grows_def requests_def
  by (auto simp: wiki_request_def Let_def time_sleep_def bind_def lift_def reset_session_def
      datetime_now_def raise_def modify_def ret_def get_state_def
      split: sum.splits option.splits if_splits bool.splits)

lemma fetches_wiki_request: "fetches requests (wiki_request E params)"
  unfolding fetches_def
proof (intro conjI allI impI)
  show "grows requests (wiki_request E params)" by (rule grows_wiki_request)
  fix s x s' assume "wiki_request E params s = (Return x, s')"
  then show "requests s < requests s'"
    unfolding requests_def
    by (auto simp: wiki_request_def Let_def time_sleep_def bind_def lift_def reset_session_def
      datetime_now_def raise_def modify_def ret_def get_state_def
      split: sum.splits option.splits if_splits bool.splits)
qed

lemma grows_liftW [grow]: "grows requests m \<Longrightarrow> grows page_requests (liftW m)"
  unfolding grows_def page_requests_def requests_def liftW_def
  by (auto split: prod.splits)

lemma fetches_liftW: "fetches requests m \<Longrightarrow> fetches page_requests (liftW m)"
  unfolding fetches_def grows_def page_requests_def requests_def liftW_def
  by (auto split: prod.splits)

lemma fetches_request: "fetches page_requests (liftW (wiki_request E params))"
  by (rule fetches_liftW[OF fetches_wiki_request])

lemma grows_request [grow]: "grows page_requests (liftW (wiki_request E params))"
  by (rule grows_fetches[OF fetches_request])

lemma grows_getattr [grow]: "grows page_requests (getattr name)"
  by (auto simp: grows_def page_requests_def getattr_def split: option.splits)

lemma grows_getattr_or [grow]: "grows page_requests (getattr_or name d)"
  by (auto simp: grows_def page_requests_def getattr_or_def split: option.splits)

lemma grows_setattr [grow]: "grows page_requests (setattr name v)"
  by (auto simp: grows_def page_requests_def setattr_def)

lemma grows_append_attr [grow]: "grows page_requests (append_attr name v)"
  unfolding append_attr_def by (intro grow) (auto intro: grow split: pyval.splits)

lemma grows_title_query_param [grow]: "grows page_requests title_query_param"
  unfolding title_query_param_def by (intro grow)

lemma grows_page_entry [grow]: "grows page_requests (page_entry request)"
  unfolding page_entry_def by (intro grow)

lemma grows_check_version [grow]: "grows requests (check_version E r rs f)"
  by (auto simp: grows_def check_version_def bind_def get_state_def lift_def raise_def ret_def
      split: sum.splits if_splits)

lemma grows_check_extension [grow]: "grows requests (check_extension n f)"
  by (auto simp: grows_def check_extension_def bind_def get_state_def raise_def ret_def
      split: option.splits if_splits)

lemma grows_for_each [grow]:
  assumes "\<And>x acc. grows c (body x acc)"
  shows "grows c (for_each body xs acc)"
  by (induction xs arbitrary: acc) (auto intro: grow assms)

lemma fetches_continued_query_loop:
  assumes "\<And>x acc. grows page_requests (body x acc)"
  shows "fetches page_requests (continued_query_loop fuel E qp prp body lc acc)"
proof (induction fuel arbitrary: lc acc)
  case 0
  show ?case by (simp add: fetches_def grows_def)
next
  case (Suc n)
  show ?case
    unfolding continued_query_loop.simps
    apply (rule fetches_bind2, intro grow)
    apply (rule fetches_bind1[OF fetches_request])
    by (intro grow assms grows_fetches[OF Suc.IH])
qed

lemma fetches_continued_query:
  assumes "\<And>x acc. grows page_requests (body x acc)"
  shows "fetches page_requests (continued_query fuel E qp body acc)"
  unfolding continued_query_def Let_def
  by (rule fetches_bind2, intro grow) (rule fetches_continued_query_loop[OF assms])

lemma fetches_backlinks_loop: "fetches page_requests (backlinks_loop fuel E qp)"
proof (induction fuel arbitrary: qp)
  case 0
  show ?case by (simp add: fetches_def grows_def)
next
  case (Suc n)
  show ?case
    unfolding backlinks_loop.simps
    apply (rule fetches_bind1[OF fetches_request])
    by (intro grow grows_fetches[OF Suc.IH])
qed

lemma fetches_bind_request:
  assumes "\<And>x. grows page_requests (f x)"
  shows "fetches page_requests (bind (liftW (wiki_request E params)) f)"
  by (rule fetches_bind1[OF fetches_request assms])

lemma lazy_cached:
  assumes "self a = Some v" and "truthy v"
  shows "bind (getattr_or a (PBool False))
           (\<lambda>cur. bind (if \<not> truthy cur then F else ret ()) (\<lambda>_. getattr a)) (self, w)
         = (Return v, (self, w))"
  using assms by (simp add: bind_apply)

lemma lazy_stored:
  assumes "bind (getattr_or a d) (\<lambda>cur. bind (g cur) (\<lambda>_. getattr a)) s = (Return v, (self', w'))"
  shows "self' a = Some v"
  using assms
  by (cases s) (auto simp: bind_apply getattr_def split: prod.splits outcome.splits option.splits)

lemma lazy_fetched:
  assumes r: "bind (getattr_or a (PBool False))
           (\<lambda>cur. bind (if \<not> truthy cur then F else ret ()) (\<lambda>_. getattr a)) (self, w)
         = (Return v, (self', w'))"
    and u: "\<not> (\<exists>c. self a = Some c \<and> truthy c)"
    and f: "fetches page_requests F"
  shows "length (sent w) < length (sent w')"
proof -
  have "\<not> truthy (case self a of None \<Rightarrow> PBool False | Some c \<Rightarrow> c)"
    using u by (auto split: option.splits)
  with r obtain y t where 1: "F (self, w) = (Return y, t)" and 2: "getattr a t = (Return v, (self', w'))"
    by (auto simp: bind_apply split: prod.splits outcome.splits)
  from 2 have "t = (self', w')"
    by (cases t) (auto simp: getattr_def split: option.splits)
  with f 1 show ?thesis by (auto simp: fetches_def page_requests_def)
qed

lemma fetches_get_summary: "fetches page_requests (get_summary E sentences chars)"
  unfolding get_summary_def Let_def
  by (intro fetches_bind_request fetches_bind2 grow)

lemma fetches_bind_get_summary:
  assumes "\<And>x. grows page_requests (f x)"
  shows "fetches page_requests (bind (get_summary E sentences chars) f)"
  by (rule fetches_bind1[OF fetches_get_summary assms])

lemmas fetch = fetches_bind_request fetches_bind_get_summary fetches_continued_query
  fetches_backlinks_loop fetches_bind2

lemma content_stored:
  assumes "content E s = (Return v, (self', w'))"
  shows "self' ''_content'' = Some v"
  using assms unfolding content_def by (rule lazy_stored)

lemma content_fetched:
  assumes "content E (self, w) = (Return v, (self', w'))"
    and "\<not> (\<exists>c. self ''_content'' = Some c \<and> truthy c)"
  shows "length (sent w) < length (sent w')"
  using assms unfolding content_def
  by - (erule lazy_fetched, simp, intro fetch grow)

lemma summary_cached:
  assumes "self ''_summary'' = Some v" and "truthy v"
  shows "summary E (self, w) = (Return v, (self, w))"
  using assms unfolding summary_def by (rule lazy_cached)

lemma summary_stored:
  assumes "summary E s = (Return v, (self', w'))"
  shows "self' ''_summary'' = Some v"
  using assms unfolding summary_def by (rule lazy_stored)

lemma summary_fetched:
  assumes "summary E (self, w) = (Return v, (self', w'))"
    and "\<not> (\<exists>c. self ''_summary'' = Some c \<and> truthy c)"
  shows "length (sent w) < length (sent w')"
  using assms unfolding summary_def
  by - (erule lazy_fetched, simp, intro fetch grow)

lemma images_cached:
  assumes "self ''_images'' = Some v" and "truthy v"
  shows "images fuel E (self, w) = (Return v, (self, w))"
  using assms unfolding images_def by (rule lazy_cached)

lemma images_stored:
  assumes "images fuel E s = (Return v, (self', w'))"
  shows "self' ''_images'' = Some v"
  using assms unfolding images_def by (rule lazy_stored)

lemma images_fetched:
  assumes "images fuel E (self, w) = (Return v, (self', w'))"
    and "\<not> (\<exists>c. self ''_images'' = Some c \<and> truthy c)"
  shows "length (sent w) < length (sent w')"
  using assms unfolding images_def
  by - (erule lazy_fetched, simp, intro fetch grow)

lemma references_cached:
  assumes "self ''_references'' = Some v" and "truthy v"
  shows "references fuel E (self, w) = (Return v, (self, w))"
  using assms unfolding references_def by (rule lazy_cached)

lemma references_stored:
  assumes "references fuel E s = (Return v, (self', w'))"
  shows "self' ''_references'' = Some v"
  using assms unfolding references_def by (rule lazy_stored)

lemma references_fetched:
  assumes "references fuel E (self, w) = (Return v, (self', w'))"
    and "\<not> (\<exists>c. self ''_references'' = Some c \<and> truthy c)"
  shows "length (sent w) < length (sent w')"
  using assms unfolding references_def
  by - (erule lazy_fetched, simp, intro fetch grow)

lemma links_cached:
  assumes "self ''_links'' = Some v" and "truthy v"
  shows "links fuel E (self, w) = (Return v, (self, w))"
  using assms unfolding links_def by (rule lazy_cached)

lemma links_stored:
  assumes "links fuel E s = (Return v, (self', w'))"
  shows "self' ''_links'' = Some v"
  using assms unfolding links_def by (rule lazy_stored)

lemma links_fetched:
  assumes "links fuel E (self, w) = (Return v, (self', w'))"
    and "\<not> (\<exists>c. self ''_links'' = Some c \<and> truthy c)"
  shows "length (sent w) < length (sent w')"
  using assms unfolding links_def
  by - (erule lazy_fetched, simp, intro fetch grow)

lemma sections_cached:
  assumes "self ''_sections'' = Some v" and "truthy v"
  shows "sections E (self, w) = (Return v, (self, w))"
  using assms unfolding sections_def by (rule lazy_cached)

lemma sections_stored:
  assumes "sections E s = (Return v, (self', w'))"
  shows "self' ''_sections'' = Some v"
  using assms unfolding sections_def by (rule lazy_stored)

lemma sections_fetched:
  assumes "sections E (self, w) = (Return v, (self', w'))"
    and "\<not> (\<exists>c. self ''_sections'' = Some c \<and> truthy c)"
  shows "length (sent w) < length (sent w')"
  using assms unfolding sections_def
  by - (erule lazy_fetched, simp, intro fetch grow)

lemma redirects_cached:
  assumes "self ''_redirects'' = Some v" and "truthy v"
  shows "redirects fuel E (self, w) = (Return v, (self, w))"
  using assms unfolding redirects_def by (rule lazy_cached)

lemma redirects_stored:
  assumes "redirects fuel E s = (Return v, (self', w'))"
  shows "self' ''_redirects'' = Some v"
  using assms unfolding redirects_def by (rule lazy_stored)

lemma redirects_fetched:
  assumes "redirects fuel E (self, w) = (Return v, (self', w'))"
    and "\<not> (\<exists>c. self ''_redirects'' = Some c \<and> truthy c)"
  shows "length (sent w) < length (sent w')"
  using assms unfolding redirects_def
  by - (erule lazy_fetched, simp, intro fetch grow)

lemma coordinates_cached:
  assumes "self ''_coordinates'' = Some v" and "truthy v"
  shows "coordinates E (self, w) = (Return v, (self, w))"
  using assms unfolding coordinates_def by (rule lazy_cached)

lemma coordinates_stored:
  assumes "coordinates E s = (Return v, (self', w'))"
  shows "self' ''_coordinates'' = Some v"
  using assms unfolding coordinates_def by (rule lazy_stored)

lemma coordinates_fetched:
  assumes "coordinates E (self, w) = (Return v, (self', w'))"
    and "\<not> (\<exists>c. self ''_coordinates'' = Some c \<and> truthy c)"
  shows "length (sent w) < length (sent w')"
  using assms unfolding coordinates_def
  by - (erule lazy_fetched, simp, intro fetch grow)

lemma backlinks_cached:
  assumes "self ''_backlinks'' = Some v" and "truthy v"
  shows "backlinks fuel E (self, w) = (Return v, (self, w))"
  using assms unfolding backlinks_def by (rule lazy_cached)

lemma backlinks_stored:
  assumes "backlinks fuel E s = (Return v, (self', w'))"
  shows "self' ''_backlinks'' = Some v"
  using assms unfolding backlinks_def by (rule lazy_stored)

lemma backlinks_fetched:
  assumes "backlinks fuel E (self, w) = (Return v, (self', w'))"
    and "\<not> (\<exists>c. self ''_backlinks'' = Some c \<and> truthy c)"
  shows "length (sent w) < length (sent w')"
  using assms unfolding backlinks_def
  by - (erule lazy_fetched, simp, intro fetch grow)

lemma categories_cached:
  assumes "self ''_categories'' = Some v" and "truthy v"
  shows "categories fuel E (self, w) = (Return v, (self, w))"
  using assms unfolding categories_def by (rule lazy_cached)

lemma categories_stored:
  assumes "categories fuel E s = (Return v, (self', w'))"
  shows "self' ''_categories'' = Some v"
  using assms unfolding categories_def by (rule lazy_stored)

lemma categories_fetched:
  assumes "categories fuel E (self, w) = (Return v, (self', w'))"
    and "\<not> (\<exists>c. self ''_categories'' = Some c \<and> truthy c)"
  shows "length (sent w) < length (sent w')"
  using assms unfolding categories_def
  by - (erule lazy_fetched, simp, intro fetch grow)

lemma page_property_simps:
  "page_property fuel E ''content'' = content E"
  "page_property fuel E ''summary'' = summary E"
  "page_property fuel E ''images'' = images fuel E"
  "page_property fuel E ''references'' = references fuel E"
  "page_property fuel E ''links'' = links fuel E"
  "page_property fuel E ''sections'' = sections E"
  "page_property fuel E ''redirects'' = redirects fuel E"
  "page_property fuel E ''coordinates'' = coordinates E"
  "page_property fuel E ''backlinks'' = backlinks fuel E"
  "page_property fuel E ''categories'' = categories fuel E"
  by (simp_all add: page_property_def)

lemma lazy_field_disj:
  assumes "name \<in> set lazy_fields"
  shows "name = ''content'' \<or> name = ''summary'' \<or> name = ''images''
    \<or> name = ''references'' \<or> name = ''links'' \<or> name = ''sections''
    \<or> name = ''redirects'' \<or> name = ''coordinates'' \<or> name = ''backlinks''
    \<or> name = ''categories''"
  using assms by (simp add: lazy_fields_def)

lemma page_property_cached:
  assumes "name \<in> set lazy_fields" and "self (''_'' @ name) = Some v" and "truthy v"
  shows "page_property fuel E name (self, w) = (Return v, (self, w))"
  using lazy_field_disj[OF assms(1)] assms(2,3)
  by (elim disjE)
     (simp_all add: page_property_simps content_cached summary_cached images_cached
       references_cached links_cached sections_cached redirects_cached coordinates_cached
       backlinks_cached categories_cached)

lemma page_property_stored:
  assumes "name \<in> set lazy_fields"
    and "page_property fuel E name s = (Return v, (self', w'))"
  shows "self' (''_'' @ name) = Some v"
  using lazy_field_disj[OF assms(1)] assms(2)
  by (elim disjE)
     (auto simp: page_property_simps
       dest: content_stored summary_stored images_stored references_stored links_stored
         sections_stored redirects_stored coordinates_stored backlinks_stored categories_stored)

lemma page_property_fetched:
  assumes "name \<in> set lazy_fields"
    and "page_property fuel E name (self, w) = (Return v, (self', w'))"
    and "\<not> (\<exists>c. self (''_'' @ name) = Some c \<and> truthy c)"
  shows "length (sent w) < length (sent w')"
  using lazy_field_disj[OF assms(1)] assms(2,3)
  by (elim disjE)
     (simp_all add: page_property_simps,
      (erule content_fetched summary_fetched images_fetched references_fetched links_fetched
         sections_fetched redirects_fetched coordinates_fetched backlinks_fetched
         categories_fetched, simp)+)



lemma get_state_apply [simp]: "get_state s = (Return s, s)"
  by (simp add: get_state_def)

lemma check_extension_installed:
  assumes "INSTALLED_EXTENSIONS w = Some exts" and "PStr name \<in> set exts"
  shows "check_extension name fname w = (Return (), w)"
  using assms by (simp add: check_extension_def bind_apply)

lemma coordinates_absent:
  assumes norl: "\<not> RATE_LIMIT w"
    and ext: "INSTALLED_EXTENSIONS w = Some exts" "PStr ''GeoData'' \<in> set exts"
    and unset: "\<not> (\<exists>c. self ''_coordinates'' = Some c \<and> truthy c)"
    and title: "self ''title'' = Some title" and pageid: "self ''pageid'' = Some pageid"
    and p: "p = [(''prop'', PStr ''coordinates''), (''colimit'', PStr ''max''), (''titles'', title)]"
    and resp: "http_get E (length (sent w)) (API_URL w) (with_format_action p) = Inr (Inr request)"
    and q: "contains ''query'' request = Inr True"
    and pg: "and_then (and_then (item ''query'' request) (item ''pages'')) (\<lambda>pages. subscript pages pageid) = Inr pg"
    and none: "contains ''coordinates'' pg = Inr False"
  shows "coordinates E (self, w) = (Return PNone, (self(''_coordinates'' \<mapsto> PNone), sends w p))"
proof -
  have cur: "\<not> truthy (case self ''_coordinates'' of None \<Rightarrow> PBool False | Some v \<Rightarrow> v)"
    using unset by (auto split: option.splits)
  have pe: "page_entry request (self(''_coordinates'' \<mapsto> PNone), sends w p)
      = (Return pg, (self(''_coordinates'' \<mapsto> PNone), sends w p))"
    using pg pageid by (auto simp: page_entry_def bind_apply and_then_def split: sum.splits)
  show ?thesis
    unfolding coordinates_def
    apply (subst bind_apply)
    apply (simp only: getattr_or_apply prod.case outcome.case)
    apply (subst bind_apply)
    apply (simp only: cur if_True not_False_eq_True)
    apply (subst bind_apply, simp only: setattr_apply prod.case outcome.case)
    apply (subst bind_apply, simp only: liftW_apply check_extension_installed[OF ext] prod.case outcome.case)
    apply (subst bind_apply, simp add: title)
    apply (subst bind_apply, simp add: wiki_request_no_rate_limit[OF norl] resp[unfolded p])
    apply (simp add: q bind_apply pe[unfolded p] none p)
    done
qed

lemma known_site_extensions:
  "INSTALLED_EXTENSIONS known_site = Some [PStr ''TextExtracts'', PStr ''GeoData'']"
  "PStr ''GeoData'' \<in> set [PStr ''TextExtracts'', PStr ''GeoData'']"
  by (simp_all add: known_site_def)

lemma sends_extensions [simp]: "INSTALLED_EXTENSIONS (sends w p) = INSTALLED_EXTENSIONS w"
  by (simp add: sends_def)


section \<open>Memoized operations and the change of language\<close>

lemma cached_hit:
  assumes "caches w fname key = Some v"
  shows "cached fname key body w = (Return v, w)"
  using assms by (simp add: cached_def bind_def get_state_def ret_def)

lemma cache_clear_apply:
  "cache_clear fname w = (Return (), w\<lparr>caches := (caches w)(fname := Map.empty)\<rparr>)"
  by (simp add: cache_clear_def modify_def)

lemma clear_cache_apply:
  "clear_cache w = (Return (),
     w\<lparr>caches := (\<lambda>fname. if fname \<in> set cleared_functions then Map.empty else caches w fname)\<rparr>)"
proof -
  have "(caches w)(''search'' := Map.empty, ''suggest'' := Map.empty, ''summary'' := Map.empty,
          ''categorymembers'' := Map.empty, ''geosearch'' := Map.empty, ''opensearch'' := Map.empty)
        = (\<lambda>fname. if fname \<in> set cleared_functions then Map.empty else caches w fname)"
    by (rule ext) (simp add: cleared_functions_def)
  then show ?thesis
    by (simp add: clear_cache_def cleared_functions_def bind_def cache_clear_apply ret_def)
qed

text \<open>
  When \<^verbatim>\<open>set_lang\<close> returns, the tables of the six functions that \<^verbatim>\<open>clear_cache\<close> names
  are empty.
\<close>

lemma set_lang_clears:
  assumes "set_lang E prefix w = (Return (), w')" and "fname \<in> set cleared_functions"
  shows "caches w' fname = Map.empty"
proof -
  from assms(1) obtain w1 where "clear_cache w1 = (Return (), w')"
    by (auto simp add: set_lang_def Let_def bind_def get_state_def raise_def modify_def
          split: if_splits prod.splits outcome.splits)
  then have "w' = w1\<lparr>caches := (\<lambda>fname. if fname \<in> set cleared_functions then Map.empty else caches w1 fname)\<rparr>"
    by (simp add: clear_cache_apply)
  then show ?thesis using assms(2) by simp
qed

lemma english_search:
  "fst (prefexsearch two_sites_ext (PStr ''Al'') 10 known_site) = Return (PList [PStr ''Alpha''])"
  by code_simp

lemma set_lang_french:
  "fst (set_lang two_sites_ext ''fr'' after_english_search) = Return ()"
  unfolding after_english_search_def by code_simp

lemma french_url:
  "API_URL after_set_lang = ''http://fr.wikipedia.org/w/api.php''"
  unfolding after_set_lang_def after_english_search_def by code_simp

lemma french_prefix:
  "LANGUAGE_PREFIX after_set_lang = ''fr''"
  unfolding after_set_lang_def after_english_search_def by code_simp

lemma english_entry_kept:
  "caches after_set_lang ''prefexsearch'' (PTuple [PStr ''Al'', PInt 10])
     = Some (PList [PStr ''Alpha''])"
  unfolding after_set_lang_def after_english_search_def by code_simp

lemma french_search_without_entry:
  "fst (prefexsearch two_sites_ext (PStr ''Al'') 10 (after_set_lang\<lparr>caches := (\<lambda>f k. None)\<rparr>))
     = Return (PList [PStr ''Alphabet''])"
  unfolding after_set_lang_def after_english_search_def by code_simp

text \<open>
  C6.  \<^verbatim>\<open>prefexsearch\<close> is memoized, and \<^verbatim>\<open>clear_cache\<close> does not name it.  On a remote
  whose English site answers the prefix search for \<open>Al\<close> with \<open>Alpha\<close> and whose French
  site answers it with \<open>Alphabet\<close>: the search returns \<open>Alpha\<close>; \<^verbatim>\<open>set_lang('fr')\<close>
  returns and leaves the French URL and prefix; the same search then returns \<open>Alpha\<close>
  again and changes nothing, so it sends no request, although without the stored entry
  it returns \<open>Alphabet\<close>.
\<close>

theorem C6_prefexsearch_entry_outlives_set_lang:
  "fst (prefexsearch two_sites_ext (PStr ''Al'') 10 known_site) = Return (PList [PStr ''Alpha''])
   \<and> fst (set_lang two_sites_ext ''fr'' after_english_search) = Return ()
   \<and> API_URL after_set_lang = ''http://fr.wikipedia.org/w/api.php''
   \<and> LANGUAGE_PREFIX after_set_lang = ''fr''
   \<and> prefexsearch two_sites_ext (PStr ''Al'') 10 after_set_lang
       = (Return (PList [PStr ''Alpha'']), after_set_lang)
   \<and> fst (prefexsearch two_sites_ext (PStr ''Al'') 10 (after_set_lang\<lparr>caches := (\<lambda>f k. None)\<rparr>))
       = Return (PList [PStr ''Alphabet''])"
proof -
  have "prefexsearch two_sites_ext (PStr ''Al'') 10 after_set_lang
          = (Return (PList [PStr ''Alpha'']), after_set_lang)"
    unfolding prefexsearch_def by (rule cached_hit) (rule english_entry_kept)
  then show ?thesis
    using english_search set_lang_french french_url french_prefix french_search_without_entry
    by (intro conjI)
qed

section \<open>The category tree\<close>

lemma bind_Return_iff:
  "bind m f s = (Return y, s') \<longleftrightarrow> (\<exists>x s1. m s = (Return x, s1) \<and> f x s1 = (Return y, s'))"
  by (auto simp add: bind_apply split: prod.splits outcome.splits)

lemma in_world_frame:
  assumes "in_world m s = (r, s')"
  shows "walk_categories s' = walk_categories s \<and> walk_links s' = walk_links s"
  using assms by (auto simp add: in_world_def split: prod.splits)

lemma on_category_frame:
  assumes "on_category cat m s = (r, s')"
  shows "walk_links s' = walk_links s \<and> dom (walk_categories s') = dom (walk_categories s)"
  using assms by (auto simp add: on_category_def split: option.splits prod.splits if_splits)

lemma on_category_Return:
  assumes "on_category cat m s = (Return x, s')"
  shows "cat \<in> dom (walk_categories s)"
  using assms by (auto simp add: on_category_def split: option.splits prod.splits)

lemma links_at_Return:
  assumes "links_at cat i s = (Return xs, s')"
  shows "s' = s \<and> (\<exists>v. walk_links s cat = Some v \<and> and_then (subscript v (PInt i)) iterate = Inr xs)"
  using assms by (auto simp add: links_at_def lift_apply split: option.splits sum.splits)

text \<open>What a fetch of \<open>cat\<close> leaves alone: the links of the other categories, and the pages.\<close>

lemma touches_only_refl: "touches_only cat s s"
  by (simp add: touches_only_def)

lemma touches_only_trans:
  assumes "touches_only cat s s1" and "touches_only cat s1 s2"
  shows "touches_only cat s s2"
proof -
  have "dom (walk_categories s) \<subseteq> dom (walk_categories s2)"
    using assms unfolding touches_only_def by (meson subset_trans)
  moreover have "\<forall>c. c \<noteq> cat \<longrightarrow> walk_links s2 c = walk_links s c"
    using assms unfolding touches_only_def by simp
  ultimately show ?thesis unfolding touches_only_def by blast
qed

lemma touches_only_in_world: "in_world m s = (r, s') \<Longrightarrow> touches_only cat s s'"
  by (drule in_world_frame) (simp add: touches_only_def)

lemma touches_only_on_category: "on_category c m s = (r, s') \<Longrightarrow> touches_only cat s s'"
  by (drule on_category_frame) (simp add: touches_only_def)

lemma fetch_once_frame:
  assumes "fetch_once n E cat s = (r, s')"
  shows "touches_only cat s s'"
proof -
  let ?page = "in_world (page n E (PStr (''Category:'' @ cat)) PNone True True False)"
  obtain r1 s1 where 1: "?page s = (r1, s1)" by (cases "?page s")
  have t1: "touches_only cat s s1" using 1 by (rule touches_only_in_world)
  show ?thesis
  proof (cases r1)
    case (Return pg)
    let ?s2 = "s1\<lparr>walk_categories := (walk_categories s1)(cat \<mapsto> pg)\<rparr>"
    have t2: "touches_only cat s1 ?s2" by (auto simp add: touches_only_def)
    let ?cats = "on_category cat (categories n E)"
    obtain r3 s3 where 3: "?cats ?s2 = (r3, s3)" by (cases "?cats ?s2")
    have t3: "touches_only cat ?s2 s3" using 3 by (rule touches_only_on_category)
    have t13: "touches_only cat s s3"
      using t1 t2 t3 by (blast intro: touches_only_trans)
    show ?thesis
    proof (cases r3)
      case (Return cs)
      let ?members = "in_world (categorymembers E (PStr cat) 500 True)"
      obtain r4 s4 where 4: "?members s3 = (r4, s4)" by (cases "?members s3")
      have t4: "touches_only cat s3 s4" using 4 by (rule touches_only_in_world)
      have t14: "touches_only cat s s4" using t13 t4 by (rule touches_only_trans)
      show ?thesis
      proof (cases r4)
        case (Return members)
        have "s' = s4\<lparr>walk_links := (walk_links s4)(cat \<mapsto> members)\<rparr>"
          using assms 1 3 4 \<open>r1 = Return pg\<close> \<open>r3 = Return cs\<close> Return
          by (simp add: fetch_once_def bind_apply)
        then have "touches_only cat s4 s'" by (simp add: touches_only_def)
        with t14 show ?thesis by (rule touches_only_trans)
      next
        case (Raise e)
        then have "s' = s4"
          using assms 1 3 4 \<open>r1 = Return pg\<close> \<open>r3 = Return cs\<close>
          by (simp add: fetch_once_def bind_apply)
        with t14 show ?thesis by simp
      next
        case OutOfFuel
        then have "s' = s4"
          using assms 1 3 4 \<open>r1 = Return pg\<close> \<open>r3 = Return cs\<close>
          by (simp add: fetch_once_def bind_apply)
        with t14 show ?thesis by simp
      qed
    next
      case (Raise e)
      then have "s' = s3" using assms 1 3 \<open>r1 = Return pg\<close>
        by (simp add: fetch_once_def bind_apply)
      with t13 show ?thesis by simp
    next
      case OutOfFuel
      then have "s' = s3" using assms 1 3 \<open>r1 = Return pg\<close>
        by (simp add: fetch_once_def bind_apply)
      with t13 show ?thesis by simp
    qed
  next
    case (Raise e)
    then have "s' = s1" using assms 1 by (simp add: fetch_once_def bind_apply)
    with t1 show ?thesis by simp
  next
    case OutOfFuel
    then have "s' = s1" using assms 1 by (simp add: fetch_once_def bind_apply)
    with t1 show ?thesis by simp
  qed
qed

lemma fetch_category_frame:
  "fetch_category n E cat s = (r, s') \<Longrightarrow> touches_only cat s s'"
proof (induction n arbitrary: s r s')
  case 0
  then show ?case by (simp add: touches_only_refl)
next
  case (Suc n)
  obtain r1 s1 where 1: "fetch_once n E cat s = (r1, s1)" by (cases "fetch_once n E cat s")
  have t1: "touches_only cat s s1" using 1 by (rule fetch_once_frame)
  show ?case
  proof (cases r1)
    case (Return x)
    then have "s' = s1" using Suc.prems 1 by (simp add: try_except_apply)
    with t1 show ?thesis by simp
  next
    case OutOfFuel
    then have "s' = s1" using Suc.prems 1 by (simp add: try_except_apply)
    with t1 show ?thesis by simp
  next
    case (Raise e)
    show ?thesis
    proof (cases "is_PageError e")
      case True
      then have "s' = s1" using Suc.prems 1 Raise by (simp add: try_except_apply)
      with t1 show ?thesis by simp
    next
      case False
      obtain r2 s2 where 2: "in_world (time_sleep 1) s1 = (r2, s2)"
        by (cases "in_world (time_sleep 1) s1")
      have t2: "touches_only cat s1 s2" using 2 by (rule touches_only_in_world)
      have r2: "r2 = Return ()"
        using 2 by (auto simp add: in_world_def time_sleep_def split: prod.splits)
      have "fetch_category n E cat s2 = (r, s')"
        using Suc.prems 1 Raise False 2 r2 by (simp add: try_except_apply bind_apply)
      then have "touches_only cat s2 s'" by (rule Suc.IH)
      with t1 t2 show ?thesis by (blast intro: touches_only_trans)
    qed
  qed
qed


lemma extends_refl: "extends s s"
  by (simp add: extends_def)

lemma extends_trans:
  assumes "extends s s1" and "extends s1 s2"
  shows "extends s s2"
proof -
  have d: "dom (walk_categories s) \<subseteq> dom (walk_categories s2)"
    using assms unfolding extends_def by (meson subset_trans)
  have "walk_links s2 c = walk_links s c" if "c \<in> dom (walk_categories s)" for c
  proof -
    from that have "c \<in> dom (walk_categories s1)" using assms(1) unfolding extends_def by blast
    then have "walk_links s2 c = walk_links s1 c" using assms(2) unfolding extends_def by blast
    moreover have "walk_links s1 c = walk_links s c"
      using that assms(1) unfolding extends_def by blast
    ultimately show ?thesis by simp
  qed
  with d show ?thesis unfolding extends_def by blast
qed

lemma subcat_names_extends:
  assumes "linked s" and "extends s s'" and "subcat_names s c = Some names"
  shows "subcat_names s' c = Some names"
proof -
  from assms(3) have "c \<in> dom (walk_links s)"
    by (auto simp add: subcat_names_def split: option.splits)
  with assms(1) have "c \<in> dom (walk_categories s)" unfolding linked_def by blast
  with assms(2) have "walk_links s' c = walk_links s c" unfolding extends_def by blast
  with assms(3) show ?thesis by (simp add: subcat_names_def)
qed

lemma built_at_mono:
  "built_at L depth level cat nd \<Longrightarrow> (\<And>c names. L c = Some names \<Longrightarrow> L' c = Some names)
     \<Longrightarrow> built_at L' depth level cat nd"
proof (induction L depth level cat nd rule: built_at.induct)
  case (1 L depth level cat d subs ls ps)
  note shape = "1.prems"(1) and same = "1.prems"(2)
  from shape have lvl: "d = level" by simp
  from shape obtain names where names: "L cat = Some names"
      and keys: "set (map (\<lambda>kv. PStr (fst kv)) subs) = set names"
    by (auto split: option.splits)
  have names': "L' cat = Some names" using names by (rule same)
  have kids: "if level \<ge> depth \<and> depth > 0 then snd kv = None
        else (case snd kv of None \<Rightarrow> False | Some n \<Rightarrow> built_at L' depth (level + 1) (fst kv) n)"
    if kv: "kv \<in> set subs" for kv
  proof (cases "level \<ge> depth \<and> depth > 0")
    case True
    with shape kv show ?thesis by auto
  next
    case False
    with shape kv obtain n where n: "snd kv = Some n"
        and b: "built_at L depth (level + 1) (fst kv) n"
      by (auto split: option.splits)
    have "built_at L' depth (level + 1) (fst kv) n"
      using kv False n b same by (rule "1.IH")
    with False n show ?thesis by simp
  qed
  show ?case using lvl names' keys kids by simp
qed

lemma built_at_extends:
  assumes "linked s" and "extends s s'" and "built_at (subcat_names s) depth level cat nd"
  shows "built_at (subcat_names s') depth level cat nd"
  using assms(3) subcat_names_extends [OF assms(1) assms(2)] by (rule built_at_mono)

lemma set_dict_set: "set (dict_set kvs k v) \<subseteq> insert (k, v) (set kvs)"
  by (induction kvs k v rule: dict_set.induct) (auto split: if_splits)

lemma keys_dict_set: "fst ` set (dict_set kvs k v) = insert k (fst ` set kvs)"
  by (induction kvs k v rule: dict_set.induct) (auto split: if_splits)

lemma names_dict_set:
  "(\<lambda>kv. PStr (fst kv)) ` set (dict_set kvs k v) = insert (PStr k) ((\<lambda>kv. PStr (fst kv)) ` set kvs)"
proof -
  have "(\<lambda>kv. PStr (fst kv)) ` set (dict_set kvs k v) = PStr ` (fst ` set (dict_set kvs k v))"
    by (simp add: image_image)
  also have "\<dots> = insert (PStr k) (PStr ` (fst ` set kvs))" by (simp add: keys_dict_set)
  finally show ?thesis by (simp add: image_image)
qed

lemma dict_key_Inr: "dict_key c = Inr name \<Longrightarrow> c = PStr name"
  by (cases c) (simp_all add: dict_key_def)

text \<open>The loop that records the sub-categories as \<^verbatim>\<open>None\<close>.\<close>

lemma leaves_loop:
  assumes "for_each (\<lambda>c sub. bind (lift (dict_key c)) (\<lambda>name. ret (dict_set sub name None)))
             xs acc s = (Return sub, s')"
  shows "s' = s
     \<and> (\<lambda>kv. PStr (fst kv)) ` set sub = (\<lambda>kv. PStr (fst kv)) ` set acc \<union> set xs
     \<and> (\<forall>kv \<in> set sub. kv \<in> set acc \<or> snd kv = None)"
  using assms
proof (induction xs arbitrary: acc s)
  case Nil
  then show ?case by simp
next
  case (Cons c xs)
  let ?body = "\<lambda>c sub. bind (lift (dict_key c)) (\<lambda>name. ret (dict_set sub name None))"
  from Cons.prems have "\<exists>x s1. ?body c acc s = (Return x, s1)
      \<and> for_each ?body xs x s1 = (Return sub, s')"
    by (simp only: for_each.simps bind_Return_iff)
  then obtain x s1 where first: "?body c acc s = (Return x, s1)"
      and rest0: "for_each ?body xs x s1 = (Return sub, s')" by blast
  from first obtain name where k: "dict_key c = Inr name"
      and x: "x = dict_set acc name None" and s1: "s1 = s"
    by (auto simp add: bind_Return_iff lift_apply split: sum.splits)
  have rest: "for_each ?body xs (dict_set acc name None) s = (Return sub, s')"
    using rest0 unfolding x s1 .
  have c: "c = PStr name" using k by (rule dict_key_Inr)
  note ih = Cons.IH [OF rest]
  note same = ih [THEN conjunct1]
    and names = ih [THEN conjunct2, THEN conjunct1]
    and kids = ih [THEN conjunct2, THEN conjunct2]
  have kids': "\<forall>kv \<in> set sub. kv \<in> set acc \<or> snd kv = None"
  proof
    fix kv assume "kv \<in> set sub"
    with kids have "kv \<in> set (dict_set acc name None) \<or> snd kv = None" by (rule bspec)
    then show "kv \<in> set acc \<or> snd kv = None"
      using set_dict_set [of acc name None] by auto
  qed
  have "(\<lambda>kv. PStr (fst kv)) ` set (dict_set acc name None) \<union> set xs
      = (\<lambda>kv. PStr (fst kv)) ` set acc \<union> set (c # xs)"
    unfolding names_dict_set c by auto
  with names have names': "(\<lambda>kv. PStr (fst kv)) ` set sub
      = (\<lambda>kv. PStr (fst kv)) ` set acc \<union> set (c # xs)" by (rule trans)
  from same names' kids' show ?case by (intro conjI)
qed

text \<open>The loop that walks into the sub-categories, given the property of shorter walks.\<close>

lemma children_loop:
  assumes shorter: "\<And>cat tree level s tree' s'.
      cat_tree_rec n E cat depth tree level s = (Return tree', s') \<Longrightarrow> linked s \<Longrightarrow>
      linked s' \<and> extends s s'
      \<and> (\<exists>nd. tree' = dict_set tree cat (Some nd) \<and> built_at (subcat_names s') depth level cat nd)"
    and run: "for_each (\<lambda>c sub. bind (lift (dict_key c))
                 (\<lambda>name. cat_tree_rec n E name depth sub lvl)) xs acc s = (Return sub, s')"
    and "linked s"
    and "\<forall>kv \<in> set acc. \<exists>nd. snd kv = Some nd \<and> built_at (subcat_names s) depth lvl (fst kv) nd"
  shows "linked s' \<and> extends s s'
     \<and> (\<lambda>kv. PStr (fst kv)) ` set sub = (\<lambda>kv. PStr (fst kv)) ` set acc \<union> set xs
     \<and> (\<forall>kv \<in> set sub. \<exists>nd. snd kv = Some nd \<and> built_at (subcat_names s') depth lvl (fst kv) nd)"
  using run assms(3) assms(4)
proof (induction xs arbitrary: acc s)
  case Nil
  then show ?case by (simp add: extends_refl)
next
  case (Cons c xs)
  from Cons.prems(1) obtain name where k: "dict_key c = Inr name"
    by (auto simp add: bind_Return_iff lift_apply split: sum.splits)
  have c: "c = PStr name" using k by (rule dict_key_Inr)
  from Cons.prems(1) k obtain acc1 s1
    where child: "cat_tree_rec n E name depth acc lvl s = (Return acc1, s1)"
      and rest: "for_each (\<lambda>c sub. bind (lift (dict_key c))
                   (\<lambda>name. cat_tree_rec n E name depth sub lvl)) xs acc1 s1 = (Return sub, s')"
    by (auto simp add: bind_Return_iff)
  from shorter [OF child Cons.prems(2)] obtain nd
    where l1: "linked s1" and e1: "extends s s1"
      and acc1: "acc1 = dict_set acc name (Some nd)"
      and nd: "built_at (subcat_names s1) depth lvl name nd"
    by blast
  have inv1: "\<forall>kv \<in> set acc1. \<exists>nd. snd kv = Some nd \<and> built_at (subcat_names s1) depth lvl (fst kv) nd"
  proof
    fix kv assume "kv \<in> set acc1"
    then have "kv = (name, Some nd) \<or> kv \<in> set acc"
      using set_dict_set [of acc name "Some nd"] acc1 by auto
    then show "\<exists>nd. snd kv = Some nd \<and> built_at (subcat_names s1) depth lvl (fst kv) nd"
    proof
      assume "kv = (name, Some nd)"
      with nd show ?thesis by simp
    next
      assume "kv \<in> set acc"
      with Cons.prems(3) obtain nd' where "snd kv = Some nd'"
          and "built_at (subcat_names s) depth lvl (fst kv) nd'" by blast
      then show ?thesis using built_at_extends [OF Cons.prems(2) e1] by blast
    qed
  qed
  note ih = Cons.IH [OF rest l1 inv1]
  note l' = ih [THEN conjunct1]
    and e' = ih [THEN conjunct2, THEN conjunct1]
    and names = ih [THEN conjunct2, THEN conjunct2, THEN conjunct1]
    and kids = ih [THEN conjunct2, THEN conjunct2, THEN conjunct2]
  have e: "extends s s'" using e1 e' by (rule extends_trans)
  have "(\<lambda>kv. PStr (fst kv)) ` set acc1 \<union> set xs
      = (\<lambda>kv. PStr (fst kv)) ` set acc \<union> set (c # xs)"
    unfolding acc1 names_dict_set c by auto
  with names have names': "(\<lambda>kv. PStr (fst kv)) ` set sub
      = (\<lambda>kv. PStr (fst kv)) ` set acc \<union> set (c # xs)" by (rule trans)
  from l' e names' kids show ?case by (intro conjI)
qed


text \<open>
  The walk of one category, when it returns: the node it writes has the shape of a node
  built at its level, and the dictionaries of the walk have only been added to.
\<close>

lemma cat_tree_rec_shape:
  "cat_tree_rec n E cat depth tree level s = (Return tree', s') \<Longrightarrow> linked s \<Longrightarrow>
   linked s' \<and> extends s s'
   \<and> (\<exists>nd. tree' = dict_set tree cat (Some nd) \<and> built_at (subcat_names s') depth level cat nd)"
proof (induction n arbitrary: cat tree level s tree' s')
  case 0
  then show ?case by simp
next
  case (Suc n)
  let ?leaf = "\<lambda>c sub. bind (lift (dict_key c)) (\<lambda>name. ret (dict_set sub name None))"
  let ?rec = "\<lambda>c sub. bind (lift (dict_key c))
                (\<lambda>name. cat_tree_rec n E name depth sub (level + 1))"
  from Suc.prems(1) obtain u s1 cs s2 parents s3 pages s4 subcats s5 sub s6 where
      f: "(if walk_categories s cat = None then fetch_category (Suc n) E cat else ret ()) s
            = (Return u, s1)"
    and c: "on_category cat (categories (Suc n) E) s1 = (Return cs, s2)"
    and p: "lift (iterate cs) s2 = (Return parents, s3)"
    and l0: "links_at cat 0 s3 = (Return pages, s4)"
    and l1: "links_at cat 1 s4 = (Return subcats, s5)"
    and loop: "(if depth \<le> level \<and> 0 < depth then for_each ?leaf subcats []
                else for_each ?rec subcats []) s5 = (Return sub, s6)"
    and t: "ret (dict_set tree cat (Some (Node level sub pages parents))) s6 = (Return tree', s')"
    unfolding cat_tree_rec.simps bind_get_state bind_Return_iff by blast
  have s3: "s3 = s2" using p by (auto simp add: lift_apply split: sum.splits)
  have s4: "s4 = s2" using l0 s3 by (auto dest: links_at_Return)
  have s5: "s5 = s2" using l1 s4 by (auto dest: links_at_Return)
  have names2: "subcat_names s2 cat = Some subcats"
    using links_at_Return [OF l1] s4 by (auto simp add: subcat_names_def)
  have s': "s' = s6" and tree': "tree' = dict_set tree cat (Some (Node level sub pages parents))"
    using t by simp_all
  have t1: "touches_only cat s s1"
  proof (cases "walk_categories s cat = None")
    case True
    with f have "fetch_category (Suc n) E cat s = (Return u, s1)" by simp
    then show ?thesis by (rule fetch_category_frame)
  next
    case False
    with f have "s1 = s" by simp
    then show ?thesis by (simp add: touches_only_refl)
  qed
  have same1: "walk_links s1 c' = walk_links s c'" if "c' \<in> dom (walk_categories s)" for c'
  proof (cases "walk_categories s cat = None")
    case True
    with that have "c' \<noteq> cat" by auto
    with t1 show ?thesis unfolding touches_only_def by blast
  next
    case False
    with f have "s1 = s" by simp
    then show ?thesis by simp
  qed
  have cat1: "cat \<in> dom (walk_categories s1)" using c by (rule on_category_Return)
  have links2: "walk_links s2 = walk_links s1"
    and dom2: "dom (walk_categories s2) = dom (walk_categories s1)"
    using on_category_frame [OF c] by simp_all
  have dom1: "dom (walk_categories s) \<subseteq> dom (walk_categories s1)"
    using t1 unfolding touches_only_def by blast
  have linked2: "linked s2"
    unfolding linked_def
  proof
    fix c' assume "c' \<in> dom (walk_links s2)"
    then have in1: "c' \<in> dom (walk_links s1)" using links2 by simp
    show "c' \<in> dom (walk_categories s2)"
    proof (cases "c' = cat")
      case True
      with cat1 dom2 show ?thesis by simp
    next
      case False
      with t1 have "walk_links s1 c' = walk_links s c'" unfolding touches_only_def by blast
      with in1 have "c' \<in> dom (walk_links s)" by (simp add: dom_def)
      with Suc.prems(2) have "c' \<in> dom (walk_categories s)" unfolding linked_def by blast
      with dom1 dom2 show ?thesis by blast
    qed
  qed
  have extends2: "extends s s2"
    unfolding extends_def using dom1 dom2 links2 same1 by simp
  show ?case
  proof (cases "depth \<le> level \<and> 0 < depth")
    case True
    with loop s5 have "for_each ?leaf subcats [] s2 = (Return sub, s6)" by simp
    from leaves_loop [OF this] have s6: "s6 = s2"
        and keys: "(\<lambda>kv. PStr (fst kv)) ` set sub = set subcats"
        and kids: "\<forall>kv \<in> set sub. snd kv = None"
      by simp_all
    have "built_at (subcat_names s2) depth level cat (Node level sub pages parents)"
      using True names2 keys kids by simp
    then show ?thesis using s' s6 tree' linked2 extends2 by blast
  next
    case False
    with loop s5 have run: "for_each ?rec subcats [] s2 = (Return sub, s6)" by simp
    have none: "\<forall>kv \<in> set []. \<exists>nd. snd kv = Some nd
        \<and> built_at (subcat_names s2) depth (level + 1) (fst kv) nd" by simp
    note loop_facts = children_loop [where acc = "[]", OF Suc.IH run linked2 none]
    note linked6 = loop_facts [THEN conjunct1]
      and extends6 = loop_facts [THEN conjunct2, THEN conjunct1]
      and keys0 = loop_facts [THEN conjunct2, THEN conjunct2, THEN conjunct1]
      and kids = loop_facts [THEN conjunct2, THEN conjunct2, THEN conjunct2]
    have keys: "(\<lambda>kv. PStr (fst kv)) ` set sub = set subcats" using keys0 by simp
    have names6: "subcat_names s6 cat = Some subcats"
      using linked2 extends6 names2 by (rule subcat_names_extends)
    have kids': "\<forall>kv \<in> set sub. case snd kv of None \<Rightarrow> False
        | Some nd \<Rightarrow> built_at (subcat_names s6) depth (level + 1) (fst kv) nd"
    proof
      fix kv assume "kv \<in> set sub"
      with kids obtain nd where "snd kv = Some nd"
          and "built_at (subcat_names s6) depth (level + 1) (fst kv) nd" by blast
      then show "case snd kv of None \<Rightarrow> False
        | Some nd \<Rightarrow> built_at (subcat_names s6) depth (level + 1) (fst kv) nd" by simp
    qed
    have "built_at (subcat_names s6) depth level cat (Node level sub pages parents)"
      using False names6 keys kids' by auto
    moreover have "extends s s6" using extends2 extends6 by (rule extends_trans)
    ultimately show ?thesis using s' tree' linked6 by blast
  qed
qed


lemma built_at_unbounded:
  "built_at L depth level cat nd \<Longrightarrow> depth \<le> 0 \<Longrightarrow> fully_expanded nd"
proof (induction L depth level cat nd rule: built_at.induct)
  case (1 L depth level cat d subs ls ps)
  have "case snd kv of None \<Rightarrow> False | Some n \<Rightarrow> fully_expanded n" if kv: "kv \<in> set subs" for kv
  proof -
    have deep: "\<not> (level \<ge> depth \<and> depth > 0)" using "1.prems"(2) by simp
    with "1.prems"(1) kv obtain n where n: "snd kv = Some n"
        and b: "built_at L depth (level + 1) (fst kv) n"
      by (auto split: option.splits)
    have "fully_expanded n" using kv deep n b "1.prems"(2) by (rule "1.IH")
    with n show ?thesis by simp
  qed
  then show ?case by simp
qed

lemma built_at_leaves:
  assumes "built_at L depth level cat nd" and "0 < depth" and "depth \<le> level"
  shows "\<forall>kv \<in> set (sub_categories nd). snd kv = None"
  using assms by (cases nd) simp

lemma built_at_children:
  assumes "built_at L depth level cat nd" and "\<not> (0 < depth \<and> depth \<le> level)"
  shows "\<forall>kv \<in> set (sub_categories nd). \<exists>n. snd kv = Some n \<and> node_depth n = level + 1
           \<and> built_at L depth (level + 1) (fst kv) n"
proof
  fix kv assume kv: "kv \<in> set (sub_categories nd)"
  obtain d subs ls ps where nd: "nd = Node d subs ls ps" by (cases nd)
  from assms kv nd obtain n where n: "snd kv = Some n"
      and b: "built_at L depth (level + 1) (fst kv) n"
    by (auto split: option.splits)
  have "node_depth n = level + 1" using b by (cases n) simp
  with n b show "\<exists>n. snd kv = Some n \<and> node_depth n = level + 1
           \<and> built_at L depth (level + 1) (fst kv) n" by blast
qed

lemma built_at_names:
  assumes "built_at L depth level cat nd"
  shows "\<exists>names. L cat = Some names
           \<and> (\<lambda>kv. PStr (fst kv)) ` set (sub_categories nd) = set names"
  using assms by (cases nd) (auto split: option.splits)

lemma built_at_depth:
  assumes "built_at L depth level cat nd"
  shows "node_depth nd = level"
  using assms by (cases nd) simp


lemma science_walk:
  "fst (cat_tree_rec 3 category_ext ''Science'' 1 [] 0 new_walk) = Return science_tree"
  by code_simp

lemma physics_walk_unbounded:
  "fst (cat_tree_rec 3 category_ext ''Physics'' 0 [] 0 new_walk) = Return full_physics_tree"
  by code_simp

lemma linked_new_walk: "linked new_walk"
  by (simp add: linked_def new_walk_def)


end
